(* ===== verification/Prelude.thy ===== *)
theory Prelude
  imports Main "HOL-Library.Multiset" "HOL-Library.Product_Lexorder"
begin

text \<open>
  Shared vocabulary of the development: the JavaScript array and object
  primitives the TypeScript and Apps Script sources call (\<open>findIndex\<close>,
  the first-match update loops, \<open>Array.prototype.sort\<close> with a comparator),
  modelled once here, and the generic list and map lemmas the component
  theories share.  A JavaScript \<open>number\<close> that only ever holds small whole
  values (scores, quotas, counters, indices) is an \<open>int\<close> or a \<open>nat\<close>; no
  value of the program comes near \<open>2^53\<close>, so no rounding is modelled.
\<close>

named_theorems js_simps "evaluation rules of the modelled JavaScript primitives"

type_synonym jsstr = string

subsection \<open>\<open>Array.prototype.findIndex\<close>\<close>

text \<open>
  \<open>xs.findIndex(p)\<close> is the index of the first element satisfying \<open>p\<close>,
  or \<open>-1\<close>; the model returns \<open>None\<close> for \<open>-1\<close>.
\<close>

fun findIndex :: "('a \<Rightarrow> bool) \<Rightarrow> 'a list \<Rightarrow> nat option" where
  "findIndex P [] = None"
| "findIndex P (x # xs) = (if P x then Some 0 else map_option Suc (findIndex P xs))"

subsection \<open>\<open>Array.prototype.sort\<close> with a comparator\<close>

text \<open>
  Since ES2019 \<open>sort\<close> is stable: elements the comparator calls equal keep
  their input order, and an element \<open>a\<close> is placed before \<open>b\<close> when
  \<open>cmp(a, b) < 0\<close>.  For a comparator that is a total preorder every stable
  sorting algorithm returns the same list, which is the stable insertion sort
  below (the uniqueness is proved in the Ranking theory).
\<close>

fun array_sort_insert :: "('a \<Rightarrow> 'a \<Rightarrow> int) \<Rightarrow> 'a \<Rightarrow> 'a list \<Rightarrow> 'a list" where
  "array_sort_insert cmp x [] = [x]"
| "array_sort_insert cmp x (y # ys) =
     (if cmp x y \<le> 0 then x # y # ys else y # array_sort_insert cmp x ys)"

fun array_sort :: "('a \<Rightarrow> 'a \<Rightarrow> int) \<Rightarrow> 'a list \<Rightarrow> 'a list" where
  "array_sort cmp [] = []"
| "array_sort cmp (x # xs) = array_sort_insert cmp x (array_sort cmp xs)"

declare findIndex.simps [js_simps] array_sort_insert.simps [js_simps]
  array_sort.simps [js_simps]

subsection \<open>Generic lemmas\<close>

lemma findIndex_None_iff [simp]: "findIndex P xs = None \<longleftrightarrow> (\<forall>x\<in>set xs. \<not> P x)"
  by (induction xs) auto

lemma findIndex_Some:
  "findIndex P xs = Some i \<Longrightarrow> i < length xs \<and> P (xs ! i) \<and> (\<forall>j<i. \<not> P (xs ! j))"
proof (induction xs arbitrary: i)
  case Nil
  then show ?case by simp
next
  case (Cons x xs)
  then show ?case
    by (auto split: if_splits simp: less_Suc_eq_0_disj)
qed

text \<open>
  A comparator that agrees in sign with a key order makes \<open>array_sort\<close> the
  library's stable \<open>sort_key\<close>: the bridge to the library's sorting lemmas.
\<close>

lemma array_sort_insert_eq_insort_key:
  assumes "\<And>a b. cmp a b \<le> 0 \<longleftrightarrow> f a \<le> f b"
  shows "array_sort_insert cmp x ys = insort_key f x ys"
  by (induction ys) (simp_all add: assms)

lemma array_sort_eq_sort_key:
  assumes "\<And>a b. cmp a b \<le> 0 \<longleftrightarrow> f a \<le> f b"
  shows "array_sort cmp xs = sort_key f xs"
  by (induction xs) (simp_all add: array_sort_insert_eq_insort_key [OF assms])

text \<open>Sorting a mapped list is mapping the list sorted by the composed key.\<close>

lemma insort_key_map:
  "insort_key f (g x) (map g ys) = map g (insort_key (\<lambda>y. f (g y)) x ys)"
  by (induction ys) auto

lemma sort_key_map: "sort_key f (map g xs) = map g (sort_key (\<lambda>y. f (g y)) xs)"
  by (induction xs) (simp_all add: insort_key_map)

text \<open>The first element satisfying \<open>P\<close> is at or before any element satisfying it.\<close>

lemma find_at_or_before:
  assumes "P p" and "p \<in> set xs"
  shows "\<exists>p'. find P xs = Some p' \<and> p' \<in> set (takeWhile (\<lambda>x. x \<noteq> p) xs @ [p])"
  using assms by (induction xs) auto

lemma find_Some_in_set: "find P xs = Some p \<Longrightarrow> p \<in> set xs \<and> P p"
  by (induction xs) (auto split: if_splits)

text \<open>Building a map by a \<open>forEach\<close> of assignments over a list.\<close>

lemma fold_map_upd_dom:
  "dom (fold (\<lambda>x m. m(k x \<mapsto> v x)) xs m) = dom m \<union> k ` set xs"
  by (induction xs arbitrary: m) auto

lemma fold_map_upd_key:
  "fold (\<lambda>x m. m(k x \<mapsto> g (k x))) xs m n =
     (if n \<in> k ` set xs then Some (g n) else m n)"
  by (induction xs arbitrary: m) auto

lemma fold_map_upd_const:
  "fold (\<lambda>x m. m(k x \<mapsto> c)) xs m n =
     (if n \<in> k ` set xs then Some c else m n)"
  by (induction xs arbitrary: m) auto

end
