(* ===== verification/SheetStore.thy ===== *)
theory SheetStore
  imports Prelude
begin

text \<open>
  The Google Apps Script backend (\<open>src/unnamed/part_000\<close>, lines 1-471):
  the spreadsheet with its three sheets \<open>DB_Classrooms\<close>, \<open>DB_Students\<close>
  and \<open>DB_Settings\<close>, and the operations \<open>setup\<close>,
  \<open>updateClassroomTimestamp\<close>, \<open>getClassrooms\<close>, \<open>saveClassroom\<close>,
  \<open>deleteClassroom\<close>, \<open>getDashboardData\<close>, \<open>saveStudent\<close>,
  \<open>saveStudents\<close>, \<open>deleteStudent\<close>, \<open>saveSettings\<close> and the
  dispatcher \<open>handleRequest\<close>.

  A sheet is \<open>None\<close> when \<open>getSheetByName\<close> finds none, and otherwise the
  list of its data rows: the header row that \<open>setup\<close> appends is row 1 of
  the sheet and every loop of the source starts at index 1 to skip it, so
  data row \<open>k\<close> of the model is row \<open>k + 2\<close> of the sheet and index
  \<open>k + 1\<close> of \<open>getValues()\<close>.  Cells hold strings; \<open>JSON.stringify\<close>
  is done by the caller and its result is an opaque string; the clock
  \<open>new Date().toISOString()\<close> is the argument \<open>now\<close>.  Each operation
  returns its JSON response and the new spreadsheet.
\<close>

subsection \<open>Data\<close>

record class_row =
  c_id :: jsstr
  c_data :: jsstr
  c_updated :: jsstr
  c_deleted :: jsstr

record stu_row =
  s_cid :: jsstr
  s_sid :: jsstr
  s_data :: jsstr
  s_updated :: jsstr

record set_row =
  t_cid :: jsstr
  t_type :: jsstr
  t_data :: jsstr
  t_updated :: jsstr

record spreadsheet =
  db_classrooms :: "class_row list option"
  db_students :: "stu_row list option"
  db_settings :: "set_row list option"

text \<open>The JSON object a handler returns: \<open>status\<close>, an optional message.\<close>

datatype response =
    Success
  | SuccessMsg jsstr
  | SuccessCount nat
  | Error jsstr

subsection \<open>\<open>String.prototype.trim\<close>\<close>

text \<open>
  \<open>trim\<close> removes leading and trailing white space; the model's white space
  is the ASCII set (space, tab, line feed, vertical tab, form feed, carriage
  return).  The identifiers the program stores are ASCII.
\<close>

definition js_ws :: "char \<Rightarrow> bool" where
  "js_ws c \<longleftrightarrow> c \<in> {CHR '' '', CHR 0x09, CHR 0x0A, CHR 0x0B, CHR 0x0C, CHR 0x0D}"

definition trim :: "jsstr \<Rightarrow> jsstr" where
  "trim s = rev (dropWhile js_ws (rev (dropWhile js_ws s)))"

text \<open>The keys the loops compare: \<open>String(data[i][0]).trim()\<close> and friends.\<close>

definition class_key :: "class_row \<Rightarrow> jsstr" where
  "class_key r = trim (c_id r)"

definition stu_key :: "stu_row \<Rightarrow> jsstr \<times> jsstr" where
  "stu_key r = (trim (s_cid r), trim (s_sid r))"

definition set_key :: "set_row \<Rightarrow> jsstr \<times> jsstr" where
  "set_key r = (trim (t_cid r), t_type r)"

subsection \<open>Operations\<close>

text \<open>\<open>setup\<close>: create each missing sheet with its header row.\<close>

definition setup_db :: "spreadsheet \<Rightarrow> spreadsheet" where
  "setup_db db =
     \<lparr>db_classrooms = Some (case db_classrooms db of None \<Rightarrow> [] | Some rs \<Rightarrow> rs),
      db_students = Some (case db_students db of None \<Rightarrow> [] | Some rs \<Rightarrow> rs),
      db_settings = Some (case db_settings db of None \<Rightarrow> [] | Some rs \<Rightarrow> rs)\<rparr>"

text \<open>
  Update the first row satisfying \<open>P\<close>: the \<open>for\<close> loops with
  \<open>break\<close> that rewrite cells of the first matching row.  \<open>None\<close> when no
  row matches (the \<open>found = false\<close> branch).
\<close>

fun update_first :: "('a \<Rightarrow> bool) \<Rightarrow> ('a \<Rightarrow> 'a) \<Rightarrow> 'a list \<Rightarrow> 'a list option" where
  "update_first P f [] = None"
| "update_first P f (x # xs) =
     (if P x then Some (f x # xs) else map_option (Cons x) (update_first P f xs))"

text \<open>
  The \<open>found\<close> pattern of the save handlers: rewrite the first row with
  key \<open>a\<close>, or append the new row \<open>y\<close> when the loop found none.
\<close>

definition upsert :: "('a \<Rightarrow> 'k) \<Rightarrow> 'k \<Rightarrow> ('a \<Rightarrow> 'a) \<Rightarrow> 'a \<Rightarrow> 'a list \<Rightarrow> 'a list" where
  "upsert k a f y rs = (case update_first (\<lambda>r. k r = a) f rs of Some rs' \<Rightarrow> rs' | None \<Rightarrow> rs @ [y])"

text \<open>\<open>updateClassroomTimestamp(classroomId, ss)\<close>: column 3 of the first row
  whose trimmed id equals the trimmed classroom id becomes \<open>now\<close>.\<close>

definition updateClassroomTimestamp :: "jsstr \<Rightarrow> jsstr \<Rightarrow> spreadsheet \<Rightarrow> spreadsheet" where
  "updateClassroomTimestamp cid now db =
     (case db_classrooms db of
        None \<Rightarrow> db
      | Some rs \<Rightarrow>
          (case update_first (\<lambda>r. class_key r = trim cid) (\<lambda>r. r\<lparr>c_updated := now\<rparr>) rs of
             None \<Rightarrow> db
           | Some rs' \<Rightarrow> db\<lparr>db_classrooms := Some rs'\<rparr>))"

text \<open>
  \<open>saveClassroom(payload)\<close>.  The payload's \<open>id\<close>, its optional
  \<open>deletedAt\<close>, and \<open>json\<close>, the \<open>JSON.stringify\<close> of the payload
  without \<open>action\<close> and \<open>sheetId\<close>.
\<close>

record classroom_payload =
  cp_id :: jsstr
  cp_deletedAt :: "jsstr option"
  cp_json :: jsstr

definition saveClassroom :: "classroom_payload \<Rightarrow> jsstr \<Rightarrow> spreadsheet \<Rightarrow> response \<times> spreadsheet" where
  "saveClassroom p now db0 =
     (let db = (if db_classrooms db0 = None then setup_db db0 else db0) in
      case db_classrooms db of
        None \<Rightarrow> (Error ''Failed to create DB_Classrooms sheet.'', db)
      | Some rs \<Rightarrow>
          (let id = trim (cp_id p);
               del = (case cp_deletedAt p of None \<Rightarrow> [] | Some d \<Rightarrow> d)
           in (Success, db\<lparr>db_classrooms := Some (upsert class_key id
                 (\<lambda>r. r\<lparr>c_data := cp_json p, c_updated := now, c_deleted := del\<rparr>)
                 \<lparr>c_id = id, c_data = cp_json p, c_updated = now, c_deleted = del\<rparr> rs)\<rparr>)))"

text \<open>
  Remove the first element satisfying \<open>P\<close> (\<open>deleteRow\<close> in a forward
  loop that returns after it), and the last one (the backwards loop with
  \<open>deleteRow\<close> and \<open>break\<close> of \<open>deleteClassroom\<close>).
\<close>

fun remove_first :: "('a \<Rightarrow> bool) \<Rightarrow> 'a list \<Rightarrow> 'a list option" where
  "remove_first P [] = None"
| "remove_first P (x # xs) = (if P x then Some xs else map_option (Cons x) (remove_first P xs))"

definition remove_last :: "('a \<Rightarrow> bool) \<Rightarrow> 'a list \<Rightarrow> 'a list option" where
  "remove_last P xs = map_option rev (remove_first P (rev xs))"

text \<open>
  \<open>deleteClassroom(id)\<close>: delete the last classroom row with the trimmed id
  (an error when there is none), then every student row and every settings
  row of that classroom; a backwards loop of \<open>deleteRow\<close> over all matches
  leaves exactly the other rows, in order.
\<close>

definition deleteClassroom :: "jsstr \<Rightarrow> spreadsheet \<Rightarrow> response \<times> spreadsheet" where
  "deleteClassroom cid db =
     (case db_classrooms db of
        None \<Rightarrow> (Error ''Sheet DB_Classrooms not found'', db)
      | Some rs \<Rightarrow>
          (let target = trim cid in
           case remove_last (\<lambda>r. class_key r = target) rs of
             None \<Rightarrow> (Error (''Classroom ID not found: '' @ target), db)
           | Some rs' \<Rightarrow>
               (Success,
                \<lparr>db_classrooms = Some rs',
                 db_students = map_option (filter (\<lambda>r. trim (s_cid r) \<noteq> target)) (db_students db),
                 db_settings = map_option (filter (\<lambda>r. trim (t_cid r) \<noteq> target)) (db_settings db)\<rparr>)))"

text \<open>
  \<open>getDashboardData(classroomId)\<close>: the parsed data of every student row of
  the classroom (rows whose JSON does not parse are skipped), and the last
  \<open>PLANS\<close> and \<open>SUBJECTS\<close> rows of the classroom that parse (a later
  row overwrites \<open>plans\<close>; a failing \<open>JSON.parse\<close> leaves it).
  \<open>parse\<close> is \<open>JSON.parse\<close>, \<open>None\<close> where it throws.
\<close>

definition lastParsed :: "(jsstr \<Rightarrow> 'j option) \<Rightarrow> jsstr \<Rightarrow> set_row list \<Rightarrow> 'j option" where
  "lastParsed parse ty rs =
     fold (\<lambda>r acc. if t_type r = ty then (case parse (t_data r) of None \<Rightarrow> acc | Some v \<Rightarrow> Some v) else acc)
       rs None"

definition getDashboardData ::
  "(jsstr \<Rightarrow> 'j option) \<Rightarrow> jsstr \<Rightarrow> spreadsheet \<Rightarrow> 'j list \<times> 'j option \<times> 'j option" where
  "getDashboardData parse classroomId db =
     (let cid = trim classroomId;
          studs = (case db_students db of
                     None \<Rightarrow> []
                   | Some rs \<Rightarrow> List.map_filter (\<lambda>r. if trim (s_cid r) = cid then parse (s_data r) else None) rs);
          mine = (case db_settings db of None \<Rightarrow> [] | Some rs \<Rightarrow> filter (\<lambda>r. trim (t_cid r) = cid) rs)
      in (studs, lastParsed parse ''PLANS'' mine, lastParsed parse ''SUBJECTS'' mine))"

text \<open>A student as the backend receives it: \<open>student.id\<close> and \<open>JSON.stringify(student)\<close>.\<close>

record saved_student =
  ss_id :: jsstr
  ss_json :: jsstr

definition new_stu_row :: "jsstr \<Rightarrow> saved_student \<Rightarrow> jsstr \<Rightarrow> stu_row" where
  "new_stu_row cid st now = \<lparr>s_cid = cid, s_sid = trim (ss_id st), s_data = ss_json st, s_updated = now\<rparr>"

text \<open>The row update of \<open>saveStudent\<close>: columns 3 and 4 of the first row with
  the classroom and student ids, or a new row appended.\<close>

definition upsert_student :: "jsstr \<Rightarrow> saved_student \<Rightarrow> jsstr \<Rightarrow> stu_row list \<Rightarrow> stu_row list" where
  "upsert_student cid st now rs =
     upsert stu_key (cid, trim (ss_id st)) (\<lambda>r. r\<lparr>s_data := ss_json st, s_updated := now\<rparr>)
       (new_stu_row cid st now) rs"

definition saveStudent :: "jsstr \<Rightarrow> saved_student \<Rightarrow> jsstr \<Rightarrow> spreadsheet \<Rightarrow> response \<times> spreadsheet" where
  "saveStudent classroomId st now db0 =
     (let db = (if db_students db0 = None then setup_db db0 else db0) in
      case db_students db of
        None \<Rightarrow> (Error ''Failed to create DB_Students sheet.'', db)
      | Some rs \<Rightarrow>
          (let cid = trim classroomId in
           (Success, updateClassroomTimestamp cid now (db\<lparr>db_students := Some (upsert_student cid st now rs)\<rparr>))))"

text \<open>
  \<open>saveStudents(payload)\<close>, the bulk save: \<open>indexMap\<close> maps the student id of
  every row of the classroom to its index (a later row overwriting an earlier
  one); each payload student whose id is in \<open>indexMap\<close> rewrites that row,
  the others are collected in \<open>newRows\<close> and appended at the end in one
  \<open>setValues\<close>.  \<open>indexMap\<close> is not updated for the new rows.
\<close>

definition indexMap :: "jsstr \<Rightarrow> stu_row list \<Rightarrow> (jsstr \<rightharpoonup> nat)" where
  "indexMap cid rs =
     fold (\<lambda>(i, r) m. if trim (s_cid r) = cid then m(trim (s_sid r) \<mapsto> i) else m)
       (enumerate 0 rs) Map.empty"

definition bulk_step ::
  "(jsstr \<rightharpoonup> nat) \<Rightarrow> jsstr \<Rightarrow> jsstr \<Rightarrow> saved_student \<Rightarrow> stu_row list \<times> stu_row list \<Rightarrow> stu_row list \<times> stu_row list" where
  "bulk_step idx cid now st acc =
     (let (rows, newRows) = acc in
      case idx (trim (ss_id st)) of
        Some i \<Rightarrow> (rows[i := (rows ! i)\<lparr>s_data := ss_json st, s_updated := now\<rparr>], newRows)
      | None \<Rightarrow> (rows, newRows @ [new_stu_row cid st now]))"

definition saveStudents ::
  "jsstr \<Rightarrow> saved_student list \<Rightarrow> jsstr \<Rightarrow> spreadsheet \<Rightarrow> response \<times> spreadsheet" where
  "saveStudents classroomId sts now db0 =
     (let db = (if db_students db0 = None then setup_db db0 else db0) in
      case db_students db of
        None \<Rightarrow> (Error ''TypeError: Cannot read properties of null (reading 'getDataRange')'', db)
      | Some rs \<Rightarrow>
          (let cid = trim classroomId;
               (rows, newRows) = fold (bulk_step (indexMap cid rs) cid now) sts (rs, [])
           in (SuccessCount (length sts),
               updateClassroomTimestamp cid now (db\<lparr>db_students := Some (rows @ newRows)\<rparr>))))"

text \<open>\<open>deleteStudent(classroomId, studentId)\<close>: delete the first matching row
  and touch the classroom; a missing sheet or row is a success with a message.\<close>

definition deleteStudent :: "jsstr \<Rightarrow> jsstr \<Rightarrow> jsstr \<Rightarrow> spreadsheet \<Rightarrow> response \<times> spreadsheet" where
  "deleteStudent classroomId studentId now db =
     (case db_students db of
        None \<Rightarrow> (SuccessMsg ''Sheet not found, nothing to delete.'', db)
      | Some rs \<Rightarrow>
          (case remove_first (\<lambda>r. stu_key r = (trim classroomId, trim studentId)) rs of
             None \<Rightarrow> (SuccessMsg ''Not found'', db)
           | Some rs' \<Rightarrow> (Success, updateClassroomTimestamp classroomId now (db\<lparr>db_students := Some rs'\<rparr>))))"

text \<open>\<open>saveSettings(payload)\<close>: upsert of the row with the classroom id and the
  type (\<open>PLANS\<close> or \<open>SUBJECTS\<close>, compared untrimmed), then the touch.\<close>

definition saveSettings :: "jsstr \<Rightarrow> jsstr \<Rightarrow> jsstr \<Rightarrow> jsstr \<Rightarrow> spreadsheet \<Rightarrow> response \<times> spreadsheet" where
  "saveSettings classroomId ty json now db0 =
     (let db = (if db_settings db0 = None then setup_db db0 else db0) in
      case db_settings db of
        None \<Rightarrow> (Error ''Failed to create DB_Settings sheet.'', db)
      | Some rs \<Rightarrow>
          (let cid = trim classroomId;
               rs' = upsert set_key (cid, ty) (\<lambda>r. r\<lparr>t_data := json, t_updated := now\<rparr>)
                       \<lparr>t_cid = cid, t_type = ty, t_data = json, t_updated = now\<rparr> rs
           in (Success, updateClassroomTimestamp cid now (db\<lparr>db_settings := Some rs'\<rparr>))))"

text \<open>
  \<open>getClassrooms()\<close>: every classroom row with non-empty data that parses,
  with \<open>deletedAt\<close> and \<open>updatedAt\<close> injected from their columns when
  non-empty, and \<open>planCount\<close> taken from the last parsable \<open>PLANS\<close>
  setting of the classroom, else the object's own \<open>planCount\<close>, else 0.
  \<open>parse_plans\<close> is \<open>JSON.parse\<close> followed by
  \<open>Array.isArray(plans) ? plans.length : 0\<close>.
\<close>

record classroom_obj =
  co_id :: jsstr
  co_planCount :: "nat option"
  co_deletedAt :: "jsstr option"
  co_updatedAt :: "jsstr option"

definition planCounts :: "(jsstr \<Rightarrow> nat option) \<Rightarrow> set_row list \<Rightarrow> (jsstr \<rightharpoonup> nat)" where
  "planCounts parse_plans rs =
     fold (\<lambda>r m. if t_type r = ''PLANS''
                  then (case parse_plans (t_data r) of None \<Rightarrow> m | Some n \<Rightarrow> m(trim (t_cid r) \<mapsto> n))
                  else m) rs Map.empty"

definition inject_classroom :: "(jsstr \<rightharpoonup> nat) \<Rightarrow> class_row \<Rightarrow> classroom_obj \<Rightarrow> classroom_obj" where
  "inject_classroom counts r obj =
     obj\<lparr>co_deletedAt := (if c_deleted r = [] then co_deletedAt obj else Some (c_deleted r)),
       co_updatedAt := (if c_updated r = [] then co_updatedAt obj else Some (c_updated r)),
       co_planCount := (case counts (trim (co_id obj)) of
                          Some n \<Rightarrow> Some n
                        | None \<Rightarrow> Some (case co_planCount obj of None \<Rightarrow> 0 | Some n \<Rightarrow> n))\<rparr>"

definition getClassrooms ::
  "(jsstr \<Rightarrow> classroom_obj option) \<Rightarrow> (jsstr \<Rightarrow> nat option) \<Rightarrow> spreadsheet \<Rightarrow> classroom_obj list" where
  "getClassrooms parse_obj parse_plans db =
     (case db_classrooms db of
        None \<Rightarrow> []
      | Some rs \<Rightarrow>
          (let counts = (case db_settings db of None \<Rightarrow> Map.empty | Some ss \<Rightarrow> planCounts parse_plans ss)
           in List.map_filter
                (\<lambda>r. if c_data r = [] then None else map_option (inject_classroom counts r) (parse_obj (c_data r)))
                rs))"

subsection \<open>The key invariant and the students sheet as a map\<close>

text \<open>
  Each sheet holds at most one row per key: the classroom id, the pair of
  classroom and student id, the pair of classroom id and settings type.  The
  loops of the source look up the first (or, in \<open>deleteClassroom\<close> and
  \<open>indexMap\<close>, the last) matching row, so they agree only under this
  invariant.  Read through it, the students sheet is a finite map from keys
  to JSON.
\<close>

definition keys_distinct :: "('a \<Rightarrow> 'k) \<Rightarrow> 'a list option \<Rightarrow> bool" where
  "keys_distinct k rs = (case rs of None \<Rightarrow> True | Some xs \<Rightarrow> distinct (map k xs))"

definition db_inv :: "spreadsheet \<Rightarrow> bool" where
  "db_inv db \<longleftrightarrow>
     keys_distinct class_key (db_classrooms db) \<and> keys_distinct stu_key (db_students db) \<and>
     keys_distinct set_key (db_settings db)"

definition students_map :: "spreadsheet \<Rightarrow> (jsstr \<times> jsstr \<rightharpoonup> jsstr)" where
  "students_map db =
     (case db_students db of None \<Rightarrow> Map.empty | Some rs \<Rightarrow> map_of (map (\<lambda>r. (stu_key r, s_data r)) rs))"

lemmas sheet_defs = setup_db_def updateClassroomTimestamp_def saveClassroom_def deleteClassroom_def
  saveStudent_def saveStudents_def deleteStudent_def saveSettings_def

text \<open>The data rows of a sheet, none when the sheet is missing.\<close>

definition sheet_rows :: "'a list option \<Rightarrow> 'a list" where
  "sheet_rows rs = (case rs of None \<Rightarrow> [] | Some xs \<Rightarrow> xs)"

subsection \<open>Generic facts about the row loops\<close>

lemma last_dropWhile: "dropWhile P xs \<noteq> [] \<Longrightarrow> last (dropWhile P xs) = last xs"
  by (induction xs) (auto simp: last_ConsR dest: set_dropWhileD)

lemma trim_idem [simp]: "trim (trim s) = trim s"
proof -
  let ?t = "dropWhile js_ws s"
  let ?v = "dropWhile js_ws (rev ?t)"
  have "dropWhile js_ws (rev ?v) = rev ?v"
  proof (cases "?v = []")
    case False
    then have "?t \<noteq> []" by (auto dest: set_dropWhileD)
    then have "\<not> js_ws (hd ?t)" by (rule hd_dropWhile)
    moreover have "hd (rev ?v) = hd ?t"
      using False \<open>?t \<noteq> []\<close> by (simp add: hd_rev last_dropWhile last_rev)
    ultimately show ?thesis using False by (simp add: dropWhile_eq_self_iff)
  qed (simp del: dropWhile_eq_Nil_conv)
  then show ?thesis by (simp add: trim_def)
qed

lemma update_first_append:
  "update_first P f (xs @ ys) =
     (case update_first P f xs of
        Some xs' \<Rightarrow> Some (xs' @ ys)
      | None \<Rightarrow> (case update_first P f ys of None \<Rightarrow> None | Some ys' \<Rightarrow> Some (xs @ ys')))"
  by (induction xs) (auto split: option.splits)

lemma update_first_None: "update_first P f xs = None \<longleftrightarrow> (\<forall>x\<in>set xs. \<not> P x)"
  by (induction xs) auto

lemma update_first_keys:
  "update_first P f xs = Some ys \<Longrightarrow> (\<And>x. k (f x) = k x) \<Longrightarrow> map k ys = map k xs"
  by (induction xs arbitrary: ys) (auto split: if_splits)

lemma update_first_at:
  assumes "distinct (map k xs)" and "i < length xs" and "k (xs ! i) = a"
  shows "update_first (\<lambda>r. k r = a) f xs = Some (xs[i := f (xs ! i)])"
  using assms
proof (induction xs arbitrary: i)
  case (Cons x xs)
  show ?case
  proof (cases i)
    case 0
    then show ?thesis using Cons.prems by simp
  next
    case (Suc j)
    have "xs ! j \<in> set xs" using Cons.prems Suc by simp
    then have "a \<in> k ` set xs" using Cons.prems(3) Suc by (metis image_eqI nth_Cons_Suc)
    then have "k x \<noteq> a" using Cons.prems(1) by auto
    then show ?thesis using Cons Suc by simp
  qed
qed simp

lemma update_first_map_of:
  assumes "update_first (\<lambda>r. k r = a) f xs = Some ys"
    and "\<And>x. k (f x) = k x" and "\<And>x. d (f x) = v"
  shows "map_of (map (\<lambda>r. (k r, d r)) ys) = (map_of (map (\<lambda>r. (k r, d r)) xs))(a \<mapsto> v)"
  using assms(1)
proof (induction xs arbitrary: ys)
  case (Cons x xs)
  then show ?case using assms(2,3) by (auto split: if_splits simp: fun_upd_twist)
qed simp

lemma remove_first_set: "remove_first P xs = Some ys \<Longrightarrow> set ys \<subseteq> set xs"
  by (induction xs arbitrary: ys) (auto split: if_splits)

lemma remove_first_distinct:
  "remove_first P xs = Some ys \<Longrightarrow> distinct (map k xs) \<Longrightarrow> distinct (map k ys)"
proof (induction xs arbitrary: ys)
  case (Cons x xs)
  then show ?case using remove_first_set [of P xs] by (fastforce split: if_splits)
qed simp

lemma remove_last_distinct:
  "remove_last P xs = Some ys \<Longrightarrow> distinct (map k xs) \<Longrightarrow> distinct (map k ys)"
  using remove_first_distinct [of P "rev xs" "rev ys" k] by (auto simp: remove_last_def rev_map [symmetric])

lemma remove_first_None: "remove_first P xs = None \<longleftrightarrow> (\<forall>x\<in>set xs. \<not> P x)"
  by (induction xs) auto

lemma remove_first_map_of:
  assumes "remove_first (\<lambda>r. k r = a) xs = Some ys" and "distinct (map k xs)"
  shows "map_of (map (\<lambda>r. (k r, d r)) ys) = (map_of (map (\<lambda>r. (k r, d r)) xs))(a := None)"
  using assms
proof (induction xs arbitrary: ys)
  case (Cons x xs)
  show ?case
  proof (cases "k x = a")
    case True
    with Cons.prems have "ys = xs" and "a \<notin> k ` set xs" by auto
    then show ?thesis using True by (auto simp: fun_eq_iff map_of_eq_None_iff image_image)
  next
    case False
    with Cons.prems obtain ys' where "remove_first (\<lambda>r. k r = a) xs = Some ys'" and "ys = x # ys'"
      by (auto split: if_splits)
    with Cons.IH Cons.prems False show ?thesis by (auto simp: fun_upd_twist)
  qed
qed simp

subsection \<open>Row updates under the key invariant\<close>

lemma upsert_distinct:
  assumes "distinct (map k xs)" and "\<And>x. k (f x) = k x" and "k y = a"
  shows "distinct (map k (upsert k a f y xs))"
proof (cases "update_first (\<lambda>r. k r = a) f xs")
  case None
  have "\<forall>x\<in>set xs. k x \<noteq> a" using None by (simp add: update_first_None)
  then show ?thesis using assms None by (auto simp: upsert_def)
next
  case (Some ys)
  then show ?thesis using assms update_first_keys [OF Some, of k] by (simp add: upsert_def)
qed

lemma upsert_map_of:
  assumes "\<And>x. k (f x) = k x" and "\<And>x. d (f x) = v" and "k y = a" and "d y = v"
  shows "map_of (map (\<lambda>r. (k r, d r)) (upsert k a f y xs)) = (map_of (map (\<lambda>r. (k r, d r)) xs))(a \<mapsto> v)"
proof (cases "update_first (\<lambda>r. k r = a) f xs")
  case None
  then have "map_of (map (\<lambda>r. (k r, d r)) xs) a = None"
    by (auto simp: update_first_None map_of_eq_None_iff)
  then show ?thesis
    using None assms(3,4) by (auto simp: upsert_def map_add_def fun_eq_iff split: option.splits)
next
  case (Some ys)
  then show ?thesis using update_first_map_of [of k a f xs ys d v] assms(1,2) by (simp add: upsert_def)
qed

lemma updateClassroomTimestamp_other [simp]:
  "db_students (updateClassroomTimestamp cid now db) = db_students db"
  "db_settings (updateClassroomTimestamp cid now db) = db_settings db"
  by (simp_all add: updateClassroomTimestamp_def split: option.splits)

lemma updateClassroomTimestamp_inv:
  "keys_distinct class_key (db_classrooms db) \<Longrightarrow>
   keys_distinct class_key (db_classrooms (updateClassroomTimestamp cid now db))"
  by (auto simp: updateClassroomTimestamp_def keys_distinct_def class_key_def
      dest: update_first_keys [where k = class_key] split: option.splits)

lemma setup_db_inv: "db_inv db \<Longrightarrow> db_inv (setup_db db)"
  by (simp add: setup_db_def db_inv_def keys_distinct_def split: option.splits)

lemma setup_db_students_map [simp]: "students_map (setup_db db) = students_map db"
  by (simp add: setup_db_def students_map_def split: option.splits)

lemma students_map_touch [simp]: "students_map (updateClassroomTimestamp cid now db) = students_map db"
  by (simp add: students_map_def)

lemma touch_inv: "db_inv db \<Longrightarrow> db_inv (updateClassroomTimestamp cid now db)"
  using updateClassroomTimestamp_inv by (simp add: db_inv_def)

lemma remove_first_removes:
  "remove_first (\<lambda>r. k r = a) xs = Some ys \<Longrightarrow> distinct (map k xs) \<Longrightarrow> \<forall>y\<in>set ys. k y \<noteq> a"
  by (induction xs arbitrary: ys) (fastforce split: if_splits)+

lemma remove_last_removes:
  "remove_last (\<lambda>r. k r = a) xs = Some ys \<Longrightarrow> distinct (map k xs) \<Longrightarrow> \<forall>y\<in>set ys. k y \<noteq> a"
  using remove_first_removes [of k a "rev xs" "rev ys"] by (auto simp: remove_last_def rev_map [symmetric])

subsection \<open>Each operation keeps the invariant\<close>

lemma saveClassroom_inv: "db_inv db \<Longrightarrow> db_inv (snd (saveClassroom p now db))"
  by (auto simp: saveClassroom_def setup_db_def db_inv_def keys_distinct_def Let_def class_key_def
      intro!: upsert_distinct split: option.splits)

lemma deleteClassroom_inv: "db_inv db \<Longrightarrow> db_inv (snd (deleteClassroom cid db))"
  by (auto simp: deleteClassroom_def db_inv_def keys_distinct_def Let_def distinct_map_filter
      dest: remove_last_distinct split: option.splits)

lemma saveStudent_inv: "db_inv db \<Longrightarrow> db_inv (snd (saveStudent cid st now db))"
proof -
  assume inv: "db_inv db"
  let ?db = "if db_students db = None then setup_db db else db"
  have inv1: "db_inv ?db" using inv setup_db_inv by simp
  obtain rs where rs: "db_students ?db = Some rs" by (cases "db_students db") (auto simp: setup_db_def)
  have "distinct (map stu_key (upsert_student (trim cid) st now rs))"
    using inv1 rs unfolding upsert_student_def
    by (intro upsert_distinct) (auto simp: db_inv_def keys_distinct_def stu_key_def new_stu_row_def)
  then have "db_inv (?db\<lparr>db_students := Some (upsert_student (trim cid) st now rs)\<rparr>)"
    using inv1 by (simp add: db_inv_def keys_distinct_def)
  then show ?thesis using rs by (simp add: saveStudent_def Let_def touch_inv)
qed

lemma deleteStudent_inv: "db_inv db \<Longrightarrow> db_inv (snd (deleteStudent cid sid now db))"
proof -
  assume inv: "db_inv db"
  have "db_inv (db\<lparr>db_students := Some rs'\<rparr>)"
    if "db_students db = Some rs" and "remove_first P rs = Some rs'" for rs rs' P
    using inv that remove_first_distinct [of P rs rs' stu_key]
    by (simp add: db_inv_def keys_distinct_def)
  then show ?thesis using inv by (auto simp: deleteStudent_def intro: touch_inv split: option.splits)
qed

lemma saveSettings_inv: "db_inv db \<Longrightarrow> db_inv (snd (saveSettings cid ty json now db))"
proof -
  assume inv: "db_inv db"
  let ?db = "if db_settings db = None then setup_db db else db"
  have inv1: "db_inv ?db" using inv setup_db_inv by simp
  obtain rs where rs: "db_settings ?db = Some rs" by (cases "db_settings db") (auto simp: setup_db_def)
  let ?rs' = "upsert set_key (trim cid, ty) (\<lambda>r. r\<lparr>t_data := json, t_updated := now\<rparr>)
               \<lparr>t_cid = trim cid, t_type = ty, t_data = json, t_updated = now\<rparr> rs"
  have "distinct (map set_key ?rs')"
    using inv1 rs by (intro upsert_distinct) (auto simp: db_inv_def keys_distinct_def set_key_def)
  then have "db_inv (?db\<lparr>db_settings := Some ?rs'\<rparr>)"
    using inv1 by (simp add: db_inv_def keys_distinct_def)
  then show ?thesis using rs by (simp add: saveSettings_def Let_def touch_inv)
qed

subsection \<open>The students sheet as a map\<close>

lemma saveStudent_students_map:
  "students_map (snd (saveStudent cid st now db)) = (students_map db)((trim cid, trim (ss_id st)) \<mapsto> ss_json st)"
proof -
  let ?db = "if db_students db = None then setup_db db else db"
  obtain rs where rs: "db_students ?db = Some rs" by (cases "db_students db") (auto simp: setup_db_def)
  have m: "students_map ?db = students_map db" by simp
  have "map_of (map (\<lambda>r. (stu_key r, s_data r)) (upsert_student (trim cid) st now rs)) =
          (map_of (map (\<lambda>r. (stu_key r, s_data r)) rs))((trim cid, trim (ss_id st)) \<mapsto> ss_json st)"
    unfolding upsert_student_def
    by (rule upsert_map_of) (simp_all add: stu_key_def new_stu_row_def)
  then show ?thesis using rs m by (simp add: saveStudent_def Let_def students_map_def)
qed

lemma deleteStudent_students_map:
  assumes "db_inv db"
  shows "students_map (snd (deleteStudent cid sid now db)) = (students_map db)((trim cid, trim sid) := None)"
proof (cases "db_students db")
  case None
  then show ?thesis by (simp add: deleteStudent_def students_map_def)
next
  case (Some rs)
  note srs = Some
  show ?thesis
  proof (cases "remove_first (\<lambda>r. stu_key r = (trim cid, trim sid)) rs")
    case None
    then have "map_of (map (\<lambda>r. (stu_key r, s_data r)) rs) (trim cid, trim sid) = None"
      by (auto simp: remove_first_None map_of_eq_None_iff)
    then show ?thesis using srs None by (auto simp: deleteStudent_def students_map_def fun_eq_iff)
  next
    case (Some rs')
    have "distinct (map stu_key rs)" using assms srs by (simp add: db_inv_def keys_distinct_def)
    then show ?thesis
      using srs Some remove_first_map_of [OF Some]
      by (simp add: deleteStudent_def students_map_def)
  qed
qed

subsection \<open>The bulk save against repeated single saves\<close>

lemma indexMap_snoc:
  "indexMap cid (rs @ [r]) =
     (if trim (s_cid r) = cid then (indexMap cid rs)(trim (s_sid r) \<mapsto> length rs) else indexMap cid rs)"
  by (simp add: indexMap_def enumerate_append_eq)

lemma indexMap_snoc_at: "indexMap cid (rs @ [r]) sid = (if stu_key r = (cid, sid) then Some (length rs) else indexMap cid rs sid)"
  by (simp add: indexMap_snoc stu_key_def)

lemma indexMap_Some:
  assumes "distinct (map stu_key rs)"
  shows "indexMap cid rs sid = Some i \<longleftrightarrow> i < length rs \<and> stu_key (rs ! i) = (cid, sid)"
  using assms
proof (induction rs arbitrary: i rule: rev_induct)
  case Nil
  then show ?case by (simp add: indexMap_def)
next
  case (snoc r rs)
  have d: "distinct (map stu_key rs)" and nr: "stu_key r \<notin> stu_key ` set rs"
    using snoc.prems by auto
  have ne: "stu_key (rs ! j) \<noteq> stu_key r" if "j < length rs" for j
    using nr that by (metis image_eqI nth_mem)
  show ?case
  proof (cases "stu_key r = (cid, sid)")
    case True
    have "i < Suc (length rs) \<and> stu_key ((rs @ [r]) ! i) = (cid, sid) \<longleftrightarrow> i = length rs"
      using ne True by (auto simp: nth_append less_Suc_eq)
    then show ?thesis
      using True by (auto simp: indexMap_snoc_at)
  next
    case False
    have "i < Suc (length rs) \<and> stu_key ((rs @ [r]) ! i) = (cid, sid) \<longleftrightarrow>
          i < length rs \<and> stu_key (rs ! i) = (cid, sid)"
      using False by (auto simp: nth_append less_Suc_eq)
    then show ?thesis
      using False snoc.IH [OF d] by (simp add: indexMap_snoc_at)
  qed
qed

lemma upsert_student_at:
  assumes "distinct (map stu_key rows)" and "i < length rows"
    and "stu_key (rows ! i) = (cid, trim (ss_id st))" and "\<forall>r\<in>set new. stu_key r \<noteq> (cid, trim (ss_id st))"
  shows "upsert_student cid st now (rows @ new) =
           rows[i := (rows ! i)\<lparr>s_data := ss_json st, s_updated := now\<rparr>] @ new"
  using update_first_at [OF assms(1,2,3)] assms(4)
  by (simp add: upsert_student_def upsert_def update_first_append)

lemma upsert_student_new:
  assumes "\<forall>r\<in>set (rows @ new). stu_key r \<noteq> (cid, trim (ss_id st))"
  shows "upsert_student cid st now (rows @ new) = rows @ new @ [new_stu_row cid st now]"
proof -
  have "update_first (\<lambda>r. stu_key r = (cid, trim (ss_id st))) f (rows @ new) = None" for f
    using assms by (simp add: update_first_None)
  then show ?thesis by (simp add: upsert_student_def upsert_def)
qed

text \<open>
  The loop of \<open>saveStudents\<close> computes what repeated upserts compute, as long
  as the payload repeats no student id: rows keep their keys, and the new
  rows carry ids that are neither in \<open>indexMap\<close> nor later in the payload.
\<close>

lemma bulk_fold_eq:
  assumes "distinct (map stu_key rs)" and "trim cid = cid"
  shows "map stu_key rows = map stu_key rs \<Longrightarrow> distinct (map (\<lambda>st. trim (ss_id st)) sts) \<Longrightarrow>
    \<forall>r\<in>set new. s_cid r = cid \<and> indexMap cid rs (trim (s_sid r)) = None \<and>
                 trim (s_sid r) \<notin> (\<lambda>st. trim (ss_id st)) ` set sts \<Longrightarrow>
    fold (\<lambda>st rows. upsert_student cid st now rows) sts (rows @ new) =
      (case fold (bulk_step (indexMap cid rs) cid now) sts (rows, new) of (a, b) \<Rightarrow> a @ b)"
proof (induction sts arbitrary: rows new)
  case Nil
  then show ?case by simp
next
  case (Cons st sts)
  let ?sid = "trim (ss_id st)"
  have drows: "distinct (map stu_key rows)" using Cons.prems(1) assms(1) by metis
  have lr: "length rows = length rs" using arg_cong [OF Cons.prems(1), of length] by simp
  have knew: "\<forall>r\<in>set new. stu_key r \<noteq> (cid, ?sid)"
    using Cons.prems(3) by (auto simp: stu_key_def)
  show ?case
  proof (cases "indexMap cid rs ?sid")
    case (Some i)
    then have i: "i < length rs" "stu_key (rs ! i) = (cid, ?sid)"
      using indexMap_Some [OF assms(1)] by auto
    then have ki: "stu_key (rows ! i) = (cid, ?sid)"
      using Cons.prems(1) by (metis lr nth_map)
    let ?rows' = "rows[i := (rows ! i)\<lparr>s_data := ss_json st, s_updated := now\<rparr>]"
    have id: "(map stu_key rows)[i := stu_key (rows ! i)] = map stu_key rows"
      using i lr by (metis list_update_id nth_map)
    have "stu_key ((rows ! i)\<lparr>s_data := ss_json st, s_updated := now\<rparr>) = stu_key (rows ! i)"
      by (simp add: stu_key_def)
    then have keys': "map stu_key ?rows' = map stu_key rs"
      using Cons.prems(1) id by (simp only: map_update)
    have u: "upsert_student cid st now (rows @ new) = ?rows' @ new"
      using upsert_student_at [OF drows _ ki knew] i lr by simp
    have b: "bulk_step (indexMap cid rs) cid now st (rows, new) = (?rows', new)"
      using Some by (simp add: bulk_step_def)
    have ds: "distinct (map (\<lambda>st. trim (ss_id st)) sts)"
      using Cons.prems(2) by simp
    have n': "\<forall>r\<in>set new. s_cid r = cid \<and> indexMap cid rs (trim (s_sid r)) = None \<and>
                 trim (s_sid r) \<notin> (\<lambda>st. trim (ss_id st)) ` set sts"
      using Cons.prems(3) by simp
    show ?thesis
      using Cons.IH [OF keys' ds n'] by (simp only: fold_simps u b)
  next
    case None
    have "stu_key (rs ! i) \<noteq> (cid, ?sid)" if "i < length rs" for i
      using None indexMap_Some [OF assms(1), of cid ?sid i] that by auto
    then have "\<forall>r\<in>set rows. stu_key r \<noteq> (cid, ?sid)"
      using Cons.prems(1) lr by (metis in_set_conv_nth nth_map)
    then have u: "upsert_student cid st now (rows @ new) = rows @ (new @ [new_stu_row cid st now])"
      using knew by (intro upsert_student_new) auto
    have b: "bulk_step (indexMap cid rs) cid now st (rows, new) = (rows, new @ [new_stu_row cid st now])"
      using None by (simp add: bulk_step_def)
    have ds: "distinct (map (\<lambda>st. trim (ss_id st)) sts)"
      using Cons.prems(2) by simp
    have n': "\<forall>r\<in>set (new @ [new_stu_row cid st now]).
        s_cid r = cid \<and> indexMap cid rs (trim (s_sid r)) = None \<and> trim (s_sid r) \<notin> (\<lambda>st. trim (ss_id st)) ` set sts"
      using Cons.prems(2,3) None assms(2) by (auto simp: new_stu_row_def)
    show ?thesis
      using Cons.IH [OF Cons.prems(1) ds n'] by (simp only: fold_simps u b)
  qed
qed

lemma update_first_idem:
  assumes "update_first P f xs = Some ys" and "\<And>x. P (f x) = P x" and "\<And>x. f (f x) = f x"
  shows "update_first P f ys = Some ys"
  using assms(1) by (induction xs arbitrary: ys) (auto simp: assms(2,3) split: if_splits)

lemma touch_students_commute:
  "updateClassroomTimestamp cid now (db\<lparr>db_students := x\<rparr>) = (updateClassroomTimestamp cid now db)\<lparr>db_students := x\<rparr>"
  by (simp add: updateClassroomTimestamp_def split: option.splits)

lemma touch_rows_idem:
  assumes "update_first (\<lambda>r. class_key r = c) (\<lambda>r. r\<lparr>c_updated := now\<rparr>) xs = Some ys"
  shows "update_first (\<lambda>r. class_key r = c) (\<lambda>r. r\<lparr>c_updated := now\<rparr>) ys = Some ys"
  by (rule update_first_idem [OF assms]) (simp_all add: class_key_def)

lemma touch_idem:
  "updateClassroomTimestamp cid now (updateClassroomTimestamp cid now db) = updateClassroomTimestamp cid now db"
proof (cases "db_classrooms db")
  case (Some rs)
  show ?thesis
  proof (cases "update_first (\<lambda>r. class_key r = trim cid) (\<lambda>r. r\<lparr>c_updated := now\<rparr>) rs")
    case (Some ys)
    then show ?thesis
      using \<open>db_classrooms db = Some rs\<close> touch_rows_idem [OF Some]
      by (simp add: updateClassroomTimestamp_def)
  qed (simp add: updateClassroomTimestamp_def \<open>db_classrooms db = Some rs\<close>)
qed (simp add: updateClassroomTimestamp_def)

lemma saveStudent_fold:
  "db_students d = Some rs \<Longrightarrow> sts \<noteq> [] \<Longrightarrow>
   fold (\<lambda>st d. snd (saveStudent cid st now d)) sts d =
     updateClassroomTimestamp (trim cid) now
       (d\<lparr>db_students := Some (fold (\<lambda>st rows. upsert_student (trim cid) st now rows) sts rs)\<rparr>)"
proof (induction sts arbitrary: d rs)
  case Nil
  then show ?case by simp
next
  case (Cons st sts)
  let ?d1 = "snd (saveStudent cid st now d)"
  have d1: "?d1 = updateClassroomTimestamp (trim cid) now (d\<lparr>db_students := Some (upsert_student (trim cid) st now rs)\<rparr>)"
    using Cons.prems(1) by (simp add: saveStudent_def Let_def)
  show ?case
  proof (cases "sts = []")
    case True
    then show ?thesis using d1 by simp
  next
    case False
    have s1: "db_students ?d1 = Some (upsert_student (trim cid) st now rs)" using d1 by simp
    have "fold (\<lambda>st d. snd (saveStudent cid st now d)) (st # sts) d =
          fold (\<lambda>st d. snd (saveStudent cid st now d)) sts ?d1" by simp
    also have "\<dots> = updateClassroomTimestamp (trim cid) now
        (?d1\<lparr>db_students := Some (fold (\<lambda>st rows. upsert_student (trim cid) st now rows) sts
                                  (upsert_student (trim cid) st now rs))\<rparr>)"
      by (rule Cons.IH [OF s1 False])
    also have "\<dots> = updateClassroomTimestamp (trim cid) now
        (d\<lparr>db_students := Some (fold (\<lambda>st rows. upsert_student (trim cid) st now rows) (st # sts) rs)\<rparr>)"
      unfolding d1 by (simp only: touch_students_commute touch_idem fold_simps) simp
    finally show ?thesis .
  qed
qed

lemma saveStudent_setup_first:
  "db_students db = None \<Longrightarrow> saveStudent cid st now db = saveStudent cid st now (setup_db db)"
  by (simp add: saveStudent_def setup_db_def)

lemma saveStudents_setup_first:
  "db_students db = None \<Longrightarrow> saveStudents cid sts now db = saveStudents cid sts now (setup_db db)"
  by (simp add: saveStudents_def setup_db_def)

lemma setup_db_students: "db_students db = None \<Longrightarrow> db_students (setup_db db) = Some []"
  by (simp add: setup_db_def)

lemma remove_first_filter:
  "remove_first (\<lambda>r. k r = a) xs = Some ys \<Longrightarrow> distinct (map k xs) \<Longrightarrow> ys = filter (\<lambda>r. k r \<noteq> a) xs"
proof (induction xs arbitrary: ys)
  case (Cons x xs)
  show ?case
  proof (cases "k x = a")
    case True
    have "k x \<notin> k ` set xs" using Cons.prems(2) by simp
    then have "\<forall>y\<in>set xs. k y \<noteq> a" using True by (metis imageI)
    then show ?thesis using True Cons.prems(1) by (simp add: filter_id_conv)
  next
    case False
    then obtain ys' where "remove_first (\<lambda>r. k r = a) xs = Some ys'" "ys = x # ys'"
      using Cons.prems(1) by auto
    then show ?thesis using False Cons.IH Cons.prems(2) by simp
  qed
qed simp

lemma remove_last_filter:
  "remove_last (\<lambda>r. k r = a) xs = Some ys \<Longrightarrow> distinct (map k xs) \<Longrightarrow> ys = filter (\<lambda>r. k r \<noteq> a) xs"
  using remove_first_filter [of k a "rev xs" "rev ys"] by (auto simp: remove_last_def rev_filter rev_map [symmetric])

lemma remove_last_None: "remove_last P xs = None \<longleftrightarrow> (\<forall>x\<in>set xs. \<not> P x)"
  by (simp add: remove_last_def remove_first_None)

lemma sheet_rows_Some [simp]: "sheet_rows (Some xs) = xs"
  by (simp add: sheet_rows_def)

lemma sheet_rows_filter: "sheet_rows (map_option (filter P) x) = filter P (sheet_rows x)"
  by (cases x) (simp_all add: sheet_rows_def)

lemma set_map_filter: "set (List.map_filter f xs) = {y. \<exists>x\<in>set xs. f x = Some y}"
  by (induction xs) (auto split: option.splits)

lemma saveStudents_fold_upserts:
  assumes inv: "db_inv db" and ids: "distinct (map (\<lambda>st. trim (ss_id st)) sts)"
    and db': "db' = (if db_students db = None then setup_db db else db)"
  shows "snd (saveStudents cid sts now db) =
           updateClassroomTimestamp (trim cid) now
             (db'\<lparr>db_students := Some (fold (\<lambda>st rows. upsert_student (trim cid) st now rows) sts
                                        (sheet_rows (db_students db')))\<rparr>)"
proof -
  obtain rs where rs: "db_students db' = Some rs"
    by (cases "db_students db") (auto simp: db' setup_db_def)
  have "db_inv db'" using inv setup_db_inv by (simp add: db')
  then have d: "distinct (map stu_key rs)" using rs by (simp add: db_inv_def keys_distinct_def)
  have b: "snd (saveStudents cid sts now db) = snd (saveStudents cid sts now db')"
    by (simp add: db' saveStudents_setup_first)
  have "fold (\<lambda>st rows. upsert_student (trim cid) st now rows) sts (rs @ []) =
      (case fold (bulk_step (indexMap (trim cid) rs) (trim cid) now) sts (rs, []) of (a, b) \<Rightarrow> a @ b)"
    by (rule bulk_fold_eq [OF d]) (simp_all add: ids)
  then show ?thesis
    using b rs by (simp add: saveStudents_def split: prod.splits)
qed

lemma upsert_student_distinct:
  "distinct (map stu_key rs) \<Longrightarrow> distinct (map stu_key (upsert_student (trim cid) st now rs))"
  unfolding upsert_student_def
  by (rule upsert_distinct) (simp_all add: stu_key_def new_stu_row_def)

lemma fold_upsert_student_distinct:
  "distinct (map stu_key rs) \<Longrightarrow>
   distinct (map stu_key (fold (\<lambda>st rows. upsert_student (trim cid) st now rows) sts rs))"
  by (induction sts arbitrary: rs) (simp_all add: upsert_student_distinct)

lemma saveStudents_inv:
  assumes "db_inv db" and "distinct (map (\<lambda>st. trim (ss_id st)) sts)"
  shows "db_inv (snd (saveStudents cid sts now db))"
proof -
  define db' where "db' = (if db_students db = None then setup_db db else db)"
  have inv': "db_inv db'" using assms(1) setup_db_inv by (simp add: db'_def)
  then have "distinct (map stu_key (sheet_rows (db_students db')))"
    by (cases "db_students db'") (simp_all add: db_inv_def keys_distinct_def sheet_rows_def)
  then have "db_inv (db'\<lparr>db_students := Some (fold (\<lambda>st rows. upsert_student (trim cid) st now rows) sts
                                        (sheet_rows (db_students db')))\<rparr>)"
    using inv' by (simp add: db_inv_def keys_distinct_def fold_upsert_student_distinct)
  then show ?thesis
    using saveStudents_fold_upserts [OF assms db'_def] by (simp add: touch_inv)
qed

subsection \<open>Properties of the backend\<close>

text \<open>
  C17.  On a spreadsheet whose key invariant holds, the bulk \<open>saveStudents\<close>
  leaves the same spreadsheet as calling \<open>saveStudent\<close> once per payload
  student in payload order, provided the payload repeats no (trimmed) student id.
\<close>

theorem saveStudents_eq_saveStudent_fold:
  assumes inv: "db_inv db" and ids: "distinct (map (\<lambda>st. trim (ss_id st)) sts)" and ne: "sts \<noteq> []"
  shows "snd (saveStudents cid sts now db) = fold (\<lambda>st d. snd (saveStudent cid st now d)) sts db"
proof -
  define db' where "db' = (if db_students db = None then setup_db db else db)"
  obtain rs where rs: "db_students db' = Some rs"
    by (cases "db_students db") (auto simp: db'_def setup_db_def)
  have "fold (\<lambda>st d. snd (saveStudent cid st now d)) sts db =
        fold (\<lambda>st d. snd (saveStudent cid st now d)) sts db'"
    using ne by (cases sts) (simp_all add: db'_def saveStudent_setup_first)
  then show ?thesis
    using saveStudents_fold_upserts [OF inv ids db'_def] saveStudent_fold [OF rs ne, of cid now] rs
    by simp
qed

text \<open>
  C18.  A successful \<open>deleteClassroom\<close> on a spreadsheet with the key
  invariant removes exactly the classroom rows, the student rows and the
  settings rows of the (trimmed) id, and keeps every other row in order.
\<close>

theorem deleteClassroom_cascade:
  assumes "db_inv db" and "fst (deleteClassroom cid db) = Success"
  shows "sheet_rows (db_classrooms (snd (deleteClassroom cid db))) =
           filter (\<lambda>r. class_key r \<noteq> trim cid) (sheet_rows (db_classrooms db)) \<and>
         sheet_rows (db_students (snd (deleteClassroom cid db))) =
           filter (\<lambda>r. trim (s_cid r) \<noteq> trim cid) (sheet_rows (db_students db)) \<and>
         sheet_rows (db_settings (snd (deleteClassroom cid db))) =
           filter (\<lambda>r. trim (t_cid r) \<noteq> trim cid) (sheet_rows (db_settings db))"
proof -
  obtain rs rs' where rs: "db_classrooms db = Some rs"
    and rs': "remove_last (\<lambda>r. class_key r = trim cid) rs = Some rs'"
    using assms(2) by (auto simp: deleteClassroom_def Let_def split: option.splits)
  have "distinct (map class_key rs)" using assms(1) rs by (simp add: db_inv_def keys_distinct_def)
  then have "rs' = filter (\<lambda>r. class_key r \<noteq> trim cid) rs" using remove_last_filter [OF rs'] by simp
  then show ?thesis
    using rs rs' by (simp add: deleteClassroom_def Let_def sheet_rows_filter)
qed

text \<open>
  C19.  \<open>deleteClassroom\<close> with an id that no classroom row carries is an
  error and changes nothing: \<open>Sheet DB_Classrooms not found\<close> without the
  sheet, \<open>Classroom ID not found: \<close> followed by the trimmed id otherwise.
\<close>

theorem deleteClassroom_not_found:
  assumes "\<forall>r\<in>set (sheet_rows (db_classrooms db)). class_key r \<noteq> trim cid"
  shows "deleteClassroom cid db =
           ((case db_classrooms db of
               None \<Rightarrow> Error ''Sheet DB_Classrooms not found''
             | Some _ \<Rightarrow> Error (''Classroom ID not found: '' @ trim cid)), db)"
proof (cases "db_classrooms db")
  case (Some rs)
  then have "remove_last (\<lambda>r. class_key r = trim cid) rs = None"
    using assms by (simp add: remove_last_None sheet_rows_def)
  then show ?thesis using Some by (simp add: deleteClassroom_def)
qed (simp add: deleteClassroom_def)

text \<open>
  C20.  A student saved with \<open>saveStudent\<close> is among the students that
  \<open>getDashboardData\<close> returns for the same classroom, whenever its JSON parses.
\<close>

theorem saveStudent_getDashboardData:
  assumes "parse (ss_json st) = Some v"
  shows "v \<in> set (fst (getDashboardData parse cid (snd (saveStudent cid st now db))))"
proof -
  let ?db = "snd (saveStudent cid st now db)"
  have m: "students_map ?db (trim cid, trim (ss_id st)) = Some (ss_json st)"
    by (simp add: saveStudent_students_map)
  obtain rs where rs: "db_students ?db = Some rs"
    by (cases "db_students db") (auto simp: saveStudent_def setup_db_def Let_def)
  then have "map_of (map (\<lambda>r. (stu_key r, s_data r)) rs) (trim cid, trim (ss_id st)) = Some (ss_json st)"
    using m by (simp add: students_map_def)
  from map_of_SomeD [OF this] obtain r where "r \<in> set rs" "trim (s_cid r) = trim cid" "s_data r = ss_json st"
    by (auto simp: stu_key_def)
  then show ?thesis
    using rs assms by (auto simp: getDashboardData_def Let_def set_map_filter intro!: bexI [of _ r])
qed


end
