(* ===== verification/Backend.thy ===== *)
theory Backend
  imports SheetStore
begin

text \<open>
  The entry point of the Apps Script backend, \<open>handleRequest\<close> of
  \<open>src/unnamed/part_000\<close> (lines 41-110, reached through \<open>doGet\<close> and
  \<open>doPost\<close>): the action is taken from the URL parameter and, when that is
  missing or empty, from the JSON body; the body's fields are handed to the
  handlers of the SheetStore theory; an unknown action is an error, and an
  exception thrown by a handler becomes an error reply.  The theory also
  models the two phases of \<open>saveStudent\<close> (the scan of the rows and the
  write) so that the interleaving of two requests, which the ignored
  \<open>tryLock\<close> result permits, can be stated.
\<close>

subsection \<open>Requests\<close>

text \<open>
  The parsed JSON body: each field is \<open>None\<close> when the body lacks it (the
  JavaScript \<open>undefined\<close>).  \<open>b_json\<close> is \<open>JSON.stringify\<close> of the body
  without \<open>action\<close> and \<open>sheetId\<close> (what \<open>saveClassroom\<close> stores) and
  \<open>b_data\<close> is \<open>JSON.stringify(body.data)\<close> (what \<open>saveSettings\<close> stores).
\<close>

record body =
  b_action :: "jsstr option"
  b_id :: "jsstr option"
  b_deletedAt :: "jsstr option"
  b_json :: jsstr
  b_classroomId :: "jsstr option"
  b_studentId :: "jsstr option"
  b_student :: "saved_student option"
  b_students :: "saved_student list option"
  b_type :: "jsstr option"
  b_data :: jsstr

text \<open>
  The event \<open>e\<close>: the URL parameters \<open>action\<close> and \<open>classroomId\<close>, and the
  body, \<open>None\<close> when there is no \<open>postData.contents\<close> or \<open>JSON.parse\<close>
  throws (the source then keeps \<open>body = {}\<close>).  \<open>sheetId\<close> selects the
  spreadsheet and is not part of the model, which has one spreadsheet.
\<close>

record request =
  q_action :: "jsstr option"
  q_classroomId :: "jsstr option"
  q_body :: "body option"

text \<open>\<open>{}\<close>: no field is present.\<close>

definition empty_body :: body where
  "empty_body =
     \<lparr>b_action = None, b_id = None, b_deletedAt = None, b_json = ''{}'', b_classroomId = None,
      b_studentId = None, b_student = None, b_students = None, b_type = None, b_data = []\<rparr>"

text \<open>What the dispatcher sends back: a status object, or the data of a read.\<close>

datatype 'j reply =
    Reply response
  | ClassroomList "classroom_obj list"
  | DashboardData "'j list" "'j option" "'j option"

subsection \<open>JavaScript coercions\<close>

text \<open>A string or \<open>undefined\<close> is truthy when it is a non-empty string.\<close>

definition js_truthy :: "jsstr option \<Rightarrow> bool" where
  "js_truthy a = (case a of None \<Rightarrow> False | Some s \<Rightarrow> s \<noteq> [])"

text \<open>\<open>String(x)\<close> and \<open>'...' + x\<close> of a string or \<open>undefined\<close>.\<close>

definition js_String :: "jsstr option \<Rightarrow> jsstr" where
  "js_String a = (case a of None \<Rightarrow> ''undefined'' | Some s \<Rightarrow> s)"

text \<open>\<open>a || b\<close>.\<close>

definition js_or :: "jsstr option \<Rightarrow> jsstr option \<Rightarrow> jsstr option" where
  "js_or a b = (if js_truthy a then a else b)"

subsection \<open>The dispatcher\<close>

text \<open>Steps 1 and 2: \<open>action = e.parameter.action\<close>, replaced by
  \<open>body.action\<close> when it is falsy and \<open>body.action\<close> is truthy.\<close>

definition resolve_action :: "jsstr option \<Rightarrow> body \<Rightarrow> jsstr option" where
  "resolve_action urlAction b =
     (if \<not> js_truthy urlAction \<and> js_truthy (b_action b) then b_action b else urlAction)"

text \<open>\<open>saveClassroom(body)\<close> reads \<open>body.id\<close> through \<open>String(...)\<close>.\<close>

definition classroom_of :: "body \<Rightarrow> classroom_payload" where
  "classroom_of b = \<lparr>cp_id = js_String (b_id b), cp_deletedAt = b_deletedAt b, cp_json = b_json b\<rparr>"

text \<open>
  A handler that sets up the missing sheet and then reads a property of an
  undefined payload field throws a \<open>TypeError\<close>; the catch block of
  \<open>handleRequest\<close> turns it into an error reply, and the sheets that
  \<open>setup\<close> created stay.
\<close>

definition type_error :: "jsstr \<Rightarrow> spreadsheet \<Rightarrow> response \<times> spreadsheet" where
  "type_error prop db =
     (Error (''TypeError: Cannot read properties of undefined (reading '' @ prop @ '')''),
      if db_students db = None then setup_db db else db)"

text \<open>
  \<open>saveSettings\<close> with \<open>payload.type\<close> undefined: \<open>data[i][1] == type\<close>
  holds for no cell, so the loop never matches and the row is appended, with
  an empty type cell, on every call.
\<close>

definition saveSettings_untyped :: "jsstr \<Rightarrow> jsstr \<Rightarrow> jsstr \<Rightarrow> spreadsheet \<Rightarrow> response \<times> spreadsheet" where
  "saveSettings_untyped classroomId json now db0 =
     (let db = (if db_settings db0 = None then setup_db db0 else db0) in
      case db_settings db of
        None \<Rightarrow> (Error ''Failed to create DB_Settings sheet.'', db)
      | Some rs \<Rightarrow>
          (let cid = trim classroomId
           in (Success, updateClassroomTimestamp cid now
                 (db\<lparr>db_settings := Some (rs @ [\<lparr>t_cid = cid, t_type = [], t_data = json, t_updated = now\<rparr>])\<rparr>))))"

text \<open>
  \<open>handleRequest(e)\<close> after the lock: the chain of \<open>action === ...\<close>
  tests, each calling its handler with the body's fields, and the initial
  \<open>Unknown action\<close> result when none matches.  \<open>parse\<close>, \<open>parse_obj\<close> and
  \<open>parse_plans\<close> are the \<open>JSON.parse\<close> readings the read handlers use, and
  \<open>now\<close> the clock.
\<close>

definition handleRequest ::
  "(jsstr \<Rightarrow> 'j option) \<Rightarrow> (jsstr \<Rightarrow> classroom_obj option) \<Rightarrow> (jsstr \<Rightarrow> nat option) \<Rightarrow>
   jsstr \<Rightarrow> request \<Rightarrow> spreadsheet \<Rightarrow> 'j reply \<times> spreadsheet" where
  "handleRequest parse parse_obj parse_plans now e db =
     (let b = (case q_body e of None \<Rightarrow> empty_body | Some b \<Rightarrow> b);
          action = resolve_action (q_action e) b
      in if action = Some ''getClassrooms'' then (ClassroomList (getClassrooms parse_obj parse_plans db), db)
      else if action = Some ''saveClassroom'' then apfst Reply (saveClassroom (classroom_of b) now db)
      else if action = Some ''deleteClassroom'' then apfst Reply (deleteClassroom (js_String (b_id b)) db)
      else if action = Some ''getDashboardData'' then
        (case getDashboardData parse (js_String (js_or (b_classroomId b) (q_classroomId e))) db of
           (studs, plans, subjects) \<Rightarrow> (DashboardData studs plans subjects, db))
      else if action = Some ''saveStudent'' then
        (case b_student b of
           None \<Rightarrow> apfst Reply (type_error ''id'' db)
         | Some st \<Rightarrow> apfst Reply (saveStudent (js_String (b_classroomId b)) st now db))
      else if action = Some ''saveStudents'' then
        (case b_students b of
           None \<Rightarrow> apfst Reply (type_error ''forEach'' db)
         | Some sts \<Rightarrow> apfst Reply (saveStudents (js_String (b_classroomId b)) sts now db))
      else if action = Some ''deleteStudent'' then
        apfst Reply (deleteStudent (js_String (b_classroomId b)) (js_String (b_studentId b)) now db)
      else if action = Some ''saveSettings'' then
        (case b_type b of
           None \<Rightarrow> apfst Reply (saveSettings_untyped (js_String (b_classroomId b)) (b_data b) now db)
         | Some ty \<Rightarrow> apfst Reply (saveSettings (js_String (b_classroomId b)) ty (b_data b) now db))
      else if action = Some ''setup'' then (Reply (SuccessMsg ''Setup completed successfully''), setup_db db)
      else (Reply (Error (''Unknown action: '' @ js_String action)), db))"

text \<open>The action names the dispatcher knows.\<close>

definition known_actions :: "jsstr list" where
  "known_actions = [''getClassrooms'', ''saveClassroom'', ''deleteClassroom'', ''getDashboardData'',
     ''saveStudent'', ''saveStudents'', ''deleteStudent'', ''saveSettings'', ''setup'']"

text \<open>
  The requests the client \<open>api.ts\<close> sends satisfy two conditions the
  dispatcher does not check: a \<open>saveSettings\<close> body carries a \<open>type\<close>, and a
  \<open>saveStudents\<close> body repeats no (trimmed) student id.
\<close>

definition request_ok :: "request \<Rightarrow> bool" where
  "request_ok e =
     (let b = (case q_body e of None \<Rightarrow> empty_body | Some b \<Rightarrow> b);
          action = resolve_action (q_action e) b
      in (action = Some ''saveSettings'' \<longrightarrow> b_type b \<noteq> None) \<and>
         (action = Some ''saveStudents'' \<longrightarrow>
            distinct (map (\<lambda>st. trim (ss_id st)) (case b_students b of None \<Rightarrow> [] | Some sts \<Rightarrow> sts))))"

subsection \<open>The two phases of \<open>saveStudent\<close>\<close>

text \<open>
  \<open>saveStudent\<close> reads all rows with \<open>getValues()\<close>, searches them, and
  then writes: \<open>setValue\<close> on the found row, or \<open>appendRow\<close>.  Between the
  read and the write another request may run, since the result of
  \<open>lock.tryLock(30000)\<close> is not checked.  The scan returns the index of the
  matching row, the commit performs the write and the touch on the sheet as
  it is then.
\<close>

definition saveStudent_scan :: "jsstr \<Rightarrow> saved_student \<Rightarrow> spreadsheet \<Rightarrow> nat option" where
  "saveStudent_scan classroomId st db =
     findIndex (\<lambda>r. stu_key r = (trim classroomId, trim (ss_id st))) (sheet_rows (db_students db))"

definition saveStudent_commit ::
  "jsstr \<Rightarrow> saved_student \<Rightarrow> jsstr \<Rightarrow> nat option \<Rightarrow> spreadsheet \<Rightarrow> spreadsheet" where
  "saveStudent_commit classroomId st now found db =
     (let cid = trim classroomId; rs = sheet_rows (db_students db);
          rs' = (case found of
                   Some i \<Rightarrow> rs[i := (rs ! i)\<lparr>s_data := ss_json st, s_updated := now\<rparr>]
                 | None \<Rightarrow> rs @ [new_stu_row cid st now])
      in updateClassroomTimestamp cid now (db\<lparr>db_students := Some rs'\<rparr>))"

subsection \<open>The effect of a request on the spreadsheet\<close>

text \<open>The spreadsheet after a request, with the replies projected away.\<close>

lemma snd_handleRequest:
  "snd (handleRequest parse parse_obj parse_plans now e db) =
     (let b = (case q_body e of None \<Rightarrow> empty_body | Some b \<Rightarrow> b);
          action = resolve_action (q_action e) b
      in if action = Some ''getClassrooms'' then db
      else if action = Some ''saveClassroom'' then snd (saveClassroom (classroom_of b) now db)
      else if action = Some ''deleteClassroom'' then snd (deleteClassroom (js_String (b_id b)) db)
      else if action = Some ''getDashboardData'' then db
      else if action = Some ''saveStudent'' then
        (case b_student b of
           None \<Rightarrow> snd (type_error ''id'' db)
         | Some st \<Rightarrow> snd (saveStudent (js_String (b_classroomId b)) st now db))
      else if action = Some ''saveStudents'' then
        (case b_students b of
           None \<Rightarrow> snd (type_error ''forEach'' db)
         | Some sts \<Rightarrow> snd (saveStudents (js_String (b_classroomId b)) sts now db))
      else if action = Some ''deleteStudent'' then
        snd (deleteStudent (js_String (b_classroomId b)) (js_String (b_studentId b)) now db)
      else if action = Some ''saveSettings'' then
        (case b_type b of
           None \<Rightarrow> snd (saveSettings_untyped (js_String (b_classroomId b)) (b_data b) now db)
         | Some ty \<Rightarrow> snd (saveSettings (js_String (b_classroomId b)) ty (b_data b) now db))
      else if action = Some ''setup'' then setup_db db
      else db)"
  unfolding handleRequest_def Let_def
  by (simp only: if_distrib [of snd] snd_apfst snd_conv option.case_distrib [of snd]
      prod.case_distrib [of snd] prod.case_eq_if)

lemma type_error_inv: "db_inv db \<Longrightarrow> db_inv (snd (type_error p db))"
  by (simp add: type_error_def setup_db_inv)

lemmas handler_invs = saveClassroom_inv deleteClassroom_inv saveStudent_inv saveStudents_inv
  deleteStudent_inv saveSettings_inv setup_db_inv type_error_inv

lemma update_first_findIndex:
  "update_first P f xs = map_option (\<lambda>i. xs[i := f (xs ! i)]) (findIndex P xs)"
  by (induction xs) (simp_all add: option.map_comp comp_def)

lemma handleRequest_action:
  assumes "resolve_action (q_action e) (case q_body e of None \<Rightarrow> empty_body | Some b \<Rightarrow> b) = a"
  shows "handleRequest parse parse_obj parse_plans now e db =
     (let b = (case q_body e of None \<Rightarrow> empty_body | Some b \<Rightarrow> b)
      in if a = Some ''getClassrooms'' then (ClassroomList (getClassrooms parse_obj parse_plans db), db)
      else if a = Some ''saveClassroom'' then apfst Reply (saveClassroom (classroom_of b) now db)
      else if a = Some ''deleteClassroom'' then apfst Reply (deleteClassroom (js_String (b_id b)) db)
      else if a = Some ''getDashboardData'' then
        (case getDashboardData parse (js_String (js_or (b_classroomId b) (q_classroomId e))) db of
           (studs, plans, subjects) \<Rightarrow> (DashboardData studs plans subjects, db))
      else if a = Some ''saveStudent'' then
        (case b_student b of
           None \<Rightarrow> apfst Reply (type_error ''id'' db)
         | Some st \<Rightarrow> apfst Reply (saveStudent (js_String (b_classroomId b)) st now db))
      else if a = Some ''saveStudents'' then
        (case b_students b of
           None \<Rightarrow> apfst Reply (type_error ''forEach'' db)
         | Some sts \<Rightarrow> apfst Reply (saveStudents (js_String (b_classroomId b)) sts now db))
      else if a = Some ''deleteStudent'' then
        apfst Reply (deleteStudent (js_String (b_classroomId b)) (js_String (b_studentId b)) now db)
      else if a = Some ''saveSettings'' then
        (case b_type b of
           None \<Rightarrow> apfst Reply (saveSettings_untyped (js_String (b_classroomId b)) (b_data b) now db)
         | Some ty \<Rightarrow> apfst Reply (saveSettings (js_String (b_classroomId b)) ty (b_data b) now db))
      else if a = Some ''setup'' then (Reply (SuccessMsg ''Setup completed successfully''), setup_db db)
      else (Reply (Error (''Unknown action: '' @ js_String a)), db))"
  using assms unfolding handleRequest_def Let_def by (simp only:)

lemma saveStudent_scan_None:
  "db_students db = Some rs \<Longrightarrow> (trim cid, trim (ss_id st)) \<notin> stu_key ` set rs \<Longrightarrow>
   saveStudent_scan cid st db = None"
  unfolding saveStudent_scan_def sheet_rows_def by (simp add: image_iff) metis

lemma saveStudent_commit_None:
  "db_students db = Some rs \<Longrightarrow>
   db_students (saveStudent_commit cid st now None db) = Some (rs @ [new_stu_row (trim cid) st now])"
  by (simp add: saveStudent_commit_def sheet_rows_def Let_def)

subsection \<open>Properties of the dispatcher\<close>

text \<open>
  C22.  Every request the client sends (a \<open>saveSettings\<close> with its type, a
  \<open>saveStudents\<close> without repeated ids) keeps the key invariant of the
  spreadsheet, whatever its action, including unknown actions and the
  \<open>TypeError\<close> paths.
\<close>

theorem handleRequest_inv:
  assumes "db_inv db" and "request_ok e"
  shows "db_inv (snd (handleRequest parse parse_obj parse_plans now e db))"
  using assms unfolding snd_handleRequest request_ok_def Let_def
  by (auto simp: handler_invs split: option.splits)

text \<open>
  C23.  A request whose action (the URL parameter, else the body's) is none
  of the nine known names gets the reply \<open>Unknown action: \<close> followed by
  the action, \<open>undefined\<close> when there is none, and changes nothing.
\<close>

theorem handleRequest_unknown:
  assumes "resolve_action (q_action e) (case q_body e of None \<Rightarrow> empty_body | Some b \<Rightarrow> b) \<notin> Some ` set known_actions"
  shows "handleRequest parse parse_obj parse_plans now e db =
           (Reply (Error (''Unknown action: '' @
              js_String (resolve_action (q_action e) (case q_body e of None \<Rightarrow> empty_body | Some b \<Rightarrow> b)))), db)"
proof -
  let ?a = "resolve_action (q_action e) (case q_body e of None \<Rightarrow> empty_body | Some b \<Rightarrow> b)"
  have "?a \<noteq> Some ''getClassrooms'' \<and> ?a \<noteq> Some ''saveClassroom'' \<and> ?a \<noteq> Some ''deleteClassroom'' \<and>
        ?a \<noteq> Some ''getDashboardData'' \<and> ?a \<noteq> Some ''saveStudent'' \<and> ?a \<noteq> Some ''saveStudents'' \<and>
        ?a \<noteq> Some ''deleteStudent'' \<and> ?a \<noteq> Some ''saveSettings'' \<and> ?a \<noteq> Some ''setup''"
    using assms unfolding known_actions_def by (simp only: list.set image_insert image_empty insert_iff empty_iff) blast
  then show ?thesis by (simp only: handleRequest_action [OF refl] Let_def if_False)
qed

text \<open>
  The two read actions \<open>getClassrooms\<close> and \<open>getDashboardData\<close>
  leave the spreadsheet unchanged.
\<close>

theorem handleRequest_read_only:
  assumes "resolve_action (q_action e) (case q_body e of None \<Rightarrow> empty_body | Some b \<Rightarrow> b)
             \<in> {Some ''getClassrooms'', Some ''getDashboardData''}"
  shows "snd (handleRequest parse parse_obj parse_plans now e db) = db"
  using assms unfolding snd_handleRequest Let_def by auto




end
