(* ===== verification/LocalStore.thy ===== *)
theory LocalStore
  imports Prelude
begin

text \<open>
  The browser storage service \<open>storage\<close> of \<open>src/unnamed/part_000\<close>
  (lines 473-600, the module \<open>services/storage.ts\<close>): the administrator
  accounts, the login session, the system configuration and the activity log,
  each kept under one \<open>localStorage\<close> key.  A key holds the
  \<open>JSON.stringify\<close> of a value and is read back with \<open>JSON.parse\<close>; the
  model stores the value itself (\<open>None\<close> for an absent key), which is
  what the round trip of \<open>JSON.stringify\<close> and \<open>JSON.parse\<close> gives for
  these plain records.  The \<open>AdminUser\<close>, \<open>SystemConfig\<close> and
  \<open>ActivityLog\<close> types live in \<open>types.ts\<close>, which is not part of the
  sources; their fields are the ones the module reads and writes.  The Thai
  display name of the default administrator and the Thai error messages are
  rendered in English, as the theory is ASCII.
\<close>

subsection \<open>Data\<close>

record admin_user =
  u_id :: jsstr
  u_username :: jsstr
  u_password :: jsstr
  u_name :: jsstr
  u_role :: jsstr

record system_config =
  scriptUrl :: jsstr
  sheetId :: jsstr
  driveId :: jsstr

record activity_log =
  log_id :: jsstr
  log_userId :: jsstr
  log_userName :: jsstr
  log_userRole :: jsstr
  log_action :: jsstr
  log_details :: jsstr
  log_timestamp :: jsstr

text \<open>The four keys \<open>APP_ADMIN_USERS\<close>, \<open>APP_SYSTEM_CONFIG\<close>,
  \<open>APP_ACTIVITY_LOGS\<close> and \<open>APP_ACTIVE_SESSION\<close>.\<close>

record local_store =
  ls_users :: "admin_user list option"
  ls_config :: "system_config option"
  ls_logs :: "activity_log list option"
  ls_session :: "admin_user option"

text \<open>A method that may \<open>throw new Error(message)\<close>: the message on the
  left, the result on the right.\<close>

type_synonym 'a throws = "jsstr + 'a"

definition DEFAULT_ADMIN :: admin_user where
  "DEFAULT_ADMIN =
     \<lparr>u_id = ''admin-001'', u_username = ''Admin'', u_password = ''@Np123456'',
      u_name = ''Main administrator'', u_role = ''SUPER_ADMIN''\<rparr>"

definition DEFAULT_CONFIG :: system_config where
  "DEFAULT_CONFIG =
     \<lparr>scriptUrl = [], sheetId = ''1ge8sumS3qX7lsw29cIoBQrsW5vNYI5yfr_BPveAiLmc'',
      driveId = ''142UYdJGFhP3TtJ_fSJA2WUW3E8iHTIWW''\<rparr>"

subsection \<open>Session\<close>

definition saveSession :: "admin_user \<Rightarrow> local_store \<Rightarrow> local_store" where
  "saveSession u s = s\<lparr>ls_session := Some u\<rparr>"

definition getSession :: "local_store \<Rightarrow> admin_user option" where
  "getSession s = ls_session s"

definition clearSession :: "local_store \<Rightarrow> local_store" where
  "clearSession s = s\<lparr>ls_session := None\<rparr>"

subsection \<open>Users\<close>

text \<open>\<open>getUsers()\<close> writes the default administrator when the key is
  absent, so even a read changes the store.\<close>

definition getUsers :: "local_store \<Rightarrow> admin_user list \<times> local_store" where
  "getUsers s =
     (case ls_users s of
        None \<Rightarrow> ([DEFAULT_ADMIN], s\<lparr>ls_users := Some [DEFAULT_ADMIN]\<rparr>)
      | Some us \<Rightarrow> (us, s))"

definition saveUsers :: "admin_user list \<Rightarrow> local_store \<Rightarrow> local_store" where
  "saveUsers us s = s\<lparr>ls_users := Some us\<rparr>"

definition addUser :: "admin_user \<Rightarrow> local_store \<Rightarrow> unit throws \<times> local_store" where
  "addUser user s =
     (let (us, s1) = getUsers s in
      if list_ex (\<lambda>u. u_username u = u_username user) us
      then (Inl ''username already exists'', s1)
      else (Inr (), saveUsers (us @ [user]) s1))"

definition updateUser :: "admin_user \<Rightarrow> local_store \<Rightarrow> local_store" where
  "updateUser updated s =
     (let (us, s1) = getUsers s in
      case findIndex (\<lambda>u. u_id u = u_id updated) us of
        None \<Rightarrow> s1
      | Some i \<Rightarrow> saveUsers (us[i := updated]) s1)"

text \<open>\<open>deleteUser(userId)\<close>: the protection looks only at the first user
  with the id (\<open>users.find\<close>), the deletion removes every user with it
  (\<open>users.filter\<close>).\<close>

definition deleteUser :: "jsstr \<Rightarrow> local_store \<Rightarrow> unit throws \<times> local_store" where
  "deleteUser userId s =
     (let (us, s1) = getUsers s;
          target = find (\<lambda>u. u_id u = userId) us
      in if (case target of
               None \<Rightarrow> False
             | Some t \<Rightarrow> u_username t = ''Admin'' \<or> u_id t = ''admin-001'')
         then (Inl ''cannot delete the main Super Admin'', s1)
         else (Inr (), saveUsers (filter (\<lambda>u. u_id u \<noteq> userId) us) s1))"

definition validateUser :: "jsstr \<Rightarrow> jsstr \<Rightarrow> local_store \<Rightarrow> admin_user option \<times> local_store" where
  "validateUser username password s =
     (let (us, s1) = getUsers s
      in (find (\<lambda>u. u_username u = username \<and> u_password u = password) us, s1))"

subsection \<open>Configuration\<close>

definition getConfig :: "local_store \<Rightarrow> system_config" where
  "getConfig s = (case ls_config s of None \<Rightarrow> DEFAULT_CONFIG | Some c \<Rightarrow> c)"

definition saveConfig :: "system_config \<Rightarrow> local_store \<Rightarrow> local_store" where
  "saveConfig c s = s\<lparr>ls_config := Some c\<rparr>"

subsection \<open>Activity log\<close>

definition getLogs :: "local_store \<Rightarrow> activity_log list" where
  "getLogs s = (case ls_logs s of None \<Rightarrow> [] | Some l \<Rightarrow> l)"

text \<open>
  \<open>addLog(user, action, details)\<close>: nothing for an anonymous user;
  otherwise the new entry goes first and the list is cut to 100 entries.
  The entry id (built from \<open>Date.now()\<close> and \<open>Math.random()\<close>) and the
  timestamp are arguments.
\<close>

definition addLog ::
  "admin_user option \<Rightarrow> jsstr \<Rightarrow> jsstr \<Rightarrow> jsstr \<Rightarrow> jsstr \<Rightarrow> local_store \<Rightarrow> local_store" where
  "addLog user action details lid now s =
     (case user of
        None \<Rightarrow> s
      | Some u \<Rightarrow>
          (let newLog = \<lparr>log_id = lid, log_userId = u_id u, log_userName = u_name u,
                         log_userRole = u_role u, log_action = action, log_details = details,
                         log_timestamp = now\<rparr>
           in s\<lparr>ls_logs := Some (take 100 (newLog # getLogs s))\<rparr>))"

subsection \<open>The user list seen by every method\<close>

text \<open>The accounts as \<open>getUsers\<close> returns them.\<close>

definition users_of :: "local_store \<Rightarrow> admin_user list" where
  "users_of s = fst (getUsers s)"

text \<open>Usernames identify accounts: \<open>validateUser\<close> finds the first match.\<close>

definition users_inv :: "local_store \<Rightarrow> bool" where
  "users_inv s \<longleftrightarrow> distinct (map u_username (users_of s))"

subsection \<open>Lemmas\<close>

lemma getUsers_eq: "getUsers s = (users_of s, s\<lparr>ls_users := Some (users_of s)\<rparr>)"
  by (cases "ls_users s") (simp_all add: getUsers_def users_of_def)

lemma users_of_set [simp]: "users_of (s\<lparr>ls_users := Some us\<rparr>) = us"
  by (simp add: users_of_def getUsers_def)

lemma users_of_saveUsers [simp]: "users_of (saveUsers us s) = us"
  by (simp add: saveUsers_def)

lemma users_of_addUser:
  "users_of (snd (addUser user s)) =
     (if list_ex (\<lambda>u. u_username u = u_username user) (users_of s) then users_of s else users_of s @ [user])"
  by (simp add: addUser_def getUsers_eq Let_def)

lemma fst_addUser:
  "fst (addUser user s) =
     (if list_ex (\<lambda>u. u_username u = u_username user) (users_of s) then Inl ''username already exists'' else Inr ())"
  by (simp add: addUser_def getUsers_eq Let_def)

lemma users_of_deleteUser:
  "users_of (snd (deleteUser userId s)) =
     (if (case find (\<lambda>u. u_id u = userId) (users_of s) of
            None \<Rightarrow> False
          | Some t \<Rightarrow> u_username t = ''Admin'' \<or> u_id t = ''admin-001'')
      then users_of s else filter (\<lambda>u. u_id u \<noteq> userId) (users_of s))"
  by (simp add: deleteUser_def getUsers_eq Let_def)

lemma users_of_updateUser:
  "users_of (updateUser updated s) =
     (case findIndex (\<lambda>u. u_id u = u_id updated) (users_of s) of
        None \<Rightarrow> users_of s
      | Some i \<Rightarrow> (users_of s)[i := updated])"
  by (cases "findIndex (\<lambda>u. u_id u = u_id updated) (users_of s)")
     (simp_all del: findIndex_None_iff add: updateUser_def getUsers_eq Let_def)

lemma find_distinct_key:
  "distinct (map k xs) \<Longrightarrow> x \<in> set xs \<Longrightarrow> P x \<Longrightarrow> (\<And>y. P y \<Longrightarrow> k y = k x) \<Longrightarrow> find P xs = Some x"
proof (induction xs)
  case (Cons y ys)
  show ?case
  proof (cases "x = y")
    case False
    then have xs: "x \<in> set ys" using Cons.prems(2) by simp
    have "k y \<notin> k ` set ys" using Cons.prems(1) by simp
    then have "k y \<noteq> k x" using xs by (metis imageI)
    then have "\<not> P y" using Cons.prems(4) by metis
    then show ?thesis using Cons.IH [OF _ xs Cons.prems(3) Cons.prems(4)] Cons.prems(1) by simp
  qed (use Cons.prems(3) in simp)
qed simp

lemma users_inv_addUser: "users_inv s \<Longrightarrow> users_inv (snd (addUser user s))"
  by (auto simp: users_inv_def users_of_addUser list_ex_iff)

lemma users_inv_deleteUser: "users_inv s \<Longrightarrow> users_inv (snd (deleteUser userId s))"
  by (simp add: users_inv_def users_of_deleteUser distinct_map_filter)

subsection \<open>Properties of the account store\<close>

text \<open>
  C28.  \<open>addUser\<close> and \<open>deleteUser\<close> keep the usernames of the accounts
  distinct.
\<close>

theorem users_inv_add_delete:
  assumes "users_inv s"
  shows "users_inv (snd (addUser user s)) \<and> users_inv (snd (deleteUser userId s))"
  using assms by (simp add: users_inv_addUser users_inv_deleteUser)


text \<open>
  C30.  An account that \<open>addUser\<close> accepted logs in: \<open>validateUser\<close> with
  its username and password returns exactly that account.
\<close>

theorem addUser_validateUser:
  assumes "users_inv s" and "fst (addUser user s) = Inr ()"
  shows "fst (validateUser (u_username user) (u_password user) (snd (addUser user s))) = Some user"
proof -
  have new: "\<not> list_ex (\<lambda>u. u_username u = u_username user) (users_of s)"
    using assms(2) by (simp add: fst_addUser split: if_splits)
  then have us: "users_of (snd (addUser user s)) = users_of s @ [user]"
    by (simp add: users_of_addUser)
  have "distinct (map u_username (users_of s @ [user]))"
    using users_inv_addUser [OF assms(1), of user] us by (simp add: users_inv_def)
  then have "find (\<lambda>u. u_username u = u_username user \<and> u_password u = u_password user)
               (users_of s @ [user]) = Some user"
    by (rule find_distinct_key) auto
  then show ?thesis using us by (simp add: validateUser_def getUsers_eq)
qed

text \<open>
  C31.  \<open>addUser\<close> with a username that is taken throws and leaves the
  accounts as they were.
\<close>

theorem addUser_taken:
  assumes "u \<in> set (users_of s)" and "u_username u = u_username user"
  shows "fst (addUser user s) = Inl ''username already exists'' \<and> users_of (snd (addUser user s)) = users_of s"
proof -
  have "list_ex (\<lambda>u. u_username u = u_username user) (users_of s)"
    using assms by (auto simp: list_ex_iff)
  then show ?thesis by (simp add: fst_addUser users_of_addUser)
qed

text \<open>
  C32.  No call of \<open>deleteUser\<close> removes an account with the id
  \<open>admin-001\<close>: the accounts with that id are the same before and after.
\<close>

theorem deleteUser_keeps_admin_id:
  "filter (\<lambda>u. u_id u = ''admin-001'') (users_of (snd (deleteUser userId s))) =
   filter (\<lambda>u. u_id u = ''admin-001'') (users_of s)"
proof (cases "find (\<lambda>u. u_id u = userId) (users_of s)")
  case None
  then have "\<forall>u\<in>set (users_of s). u_id u \<noteq> userId" by (simp add: find_None_iff)
  then show ?thesis using None by (simp add: users_of_deleteUser filter_True)
next
  case (Some t)
  then have "u_id t = userId" by (auto dest: find_Some_in_set)
  then show ?thesis using Some by (auto simp: users_of_deleteUser filter_filter intro: filter_cong)
qed


text \<open>
  C34.  The activity log never exceeds 100 entries after a logged action:
  the new entry comes first, followed by the newest older entries; an
  anonymous action leaves the log as it was.
\<close>

theorem addLog_bounded:
  "length (getLogs (addLog (Some u) action details lid now s)) = min 100 (Suc (length (getLogs s))) \<and>
   hd (getLogs (addLog (Some u) action details lid now s)) =
     \<lparr>log_id = lid, log_userId = u_id u, log_userName = u_name u, log_userRole = u_role u,
      log_action = action, log_details = details, log_timestamp = now\<rparr> \<and>
   tl (getLogs (addLog (Some u) action details lid now s)) = take 99 (getLogs s) \<and>
   getLogs (addLog None action details lid now s) = getLogs s"
  by (simp add: addLog_def getLogs_def Let_def)

end
