(* ===== verification/Api.thy ===== *)
theory Api
  imports Backend LocalStore "HOL-Library.Sublist"
begin

text \<open>
  The client of the backend, \<open>services/api.ts\<close> of \<open>src/unnamed/part_000\<close>
  (lines 602-728): \<open>sendPostRequest\<close> reads the Web App URL and the sheet id
  from the configuration, refuses an unset URL, appends the action as a query
  parameter, posts the data with the action added, and turns an HTTP failure
  or an \<open>error\<close> status into an exception; the \<open>api\<close> methods call it with
  their data.  The transport (\<open>fetch\<close> and the Apps Script web app behind
  it) is a parameter: it receives the request the backend sees, the event
  \<open>e\<close> of \<open>handleRequest\<close>, and returns the HTTP status and the reply.  A
  request is posted and answered before the next one starts, so the
  \<open>async\<close> functions are sequential state passing.  The sheet id that the
  payload carries selects the spreadsheet, which the model fixes.
\<close>

subsection \<open>The Web App URL\<close>

text \<open>\<open>config.scriptUrl ? config.scriptUrl.trim() : ''\<close>.\<close>

definition api_url :: "system_config \<Rightarrow> jsstr" where
  "api_url cfg = trim (scriptUrl cfg)"

text \<open>
  The placeholder of the settings form, the Thai word for "paste"
  followed by \<open>_URL\<close>, as its UTF-8 bytes: a byte string contains
  it exactly when the decoded string does.
\<close>

definition url_placeholder :: jsstr where
  "url_placeholder =
     [CHR 0xE0, CHR 0xB8, CHR 0xA7, CHR 0xE0, CHR 0xB8, CHR 0xB2, CHR 0xE0, CHR 0xB8, CHR 0x87] @ ''_URL''"

text \<open>\<open>!API_URL || API_URL.includes(...) || API_URL === ''\<close>, negated.\<close>

definition url_ok :: "jsstr \<Rightarrow> bool" where
  "url_ok u \<longleftrightarrow> u \<noteq> [] \<and> \<not> sublist url_placeholder u"

definition separator :: "jsstr \<Rightarrow> jsstr" where
  "separator u = (if CHR ''?'' \<in> set u then ''&'' else ''?'')"

definition request_url :: "jsstr \<Rightarrow> jsstr \<Rightarrow> jsstr" where
  "request_url u action = u @ separator u @ ''action='' @ action"

subsection \<open>What the web app reads from the URL\<close>

text \<open>
  \<open>e.parameter\<close>: the query is what follows the first \<open>?\<close> up to a
  \<open>#\<close>; it is split at \<open>&\<close>, and a name gets the value of its first
  occurrence.  The names and values the client sends need no percent
  decoding.
\<close>

fun split_on :: "char \<Rightarrow> jsstr \<Rightarrow> jsstr list" where
  "split_on c [] = [[]]"
| "split_on c (x # xs) =
     (if x = c then [] # split_on c xs
      else (case split_on c xs of [] \<Rightarrow> [[x]] | w # ws \<Rightarrow> (x # w) # ws))"

definition url_query :: "jsstr \<Rightarrow> jsstr" where
  "url_query u =
     (if CHR ''?'' \<in> set u then takeWhile (\<lambda>c. c \<noteq> CHR ''#'') (tl (dropWhile (\<lambda>c. c \<noteq> CHR ''?'') u))
      else [])"

definition url_param :: "jsstr \<Rightarrow> jsstr \<Rightarrow> jsstr option" where
  "url_param k u =
     map_option (\<lambda>kv. drop (Suc (length k)) kv)
       (find (\<lambda>kv. takeWhile (\<lambda>c. c \<noteq> CHR ''='') kv = k) (split_on CHR ''&'' (url_query u)))"

subsection \<open>\<open>sendPostRequest\<close>\<close>

text \<open>The decimal digits of the status in the error message.\<close>

fun show_nat :: "nat \<Rightarrow> jsstr" where
  "show_nat n = (if n < 10 then [char_of (48 + n)] else show_nat (n div 10) @ [char_of (48 + n mod 10)])"

type_synonym ('j, 'st) transport = "request \<Rightarrow> 'st \<Rightarrow> (nat \<times> 'j reply) \<times> 'st"

definition msg_no_url :: jsstr where
  "msg_no_url = ''Web App URL not found: set it in the System Admin menu''"

text \<open>
  The body is the data with \<open>action\<close> added (\<open>{...data, action, sheetId}\<close>);
  the backend reads \<open>action\<close> from the URL first.  \<open>response.ok\<close> is a
  status in 200-299; the JSON reply with \<open>status: 'error'\<close> is an
  \<open>Error\<close> reply of the backend.
\<close>

definition sendPostRequest ::
  "('j, 'st) transport \<Rightarrow> system_config \<Rightarrow> jsstr \<Rightarrow> body \<Rightarrow> 'st \<Rightarrow> 'j reply throws \<times> 'st" where
  "sendPostRequest transport cfg action data st =
     (let u = api_url cfg in
      if \<not> url_ok u then (Inl msg_no_url, st)
      else
        (let url = request_url u action;
             e = \<lparr>q_action = url_param ''action'' url, q_classroomId = url_param ''classroomId'' url,
                  q_body = Some (data\<lparr>b_action := Some action\<rparr>)\<rparr>;
             ((status, r), st') = transport e st
         in if \<not> (200 \<le> status \<and> status < 300)
            then (Inl (''Server responded with status: '' @ show_nat status), st')
            else (case r of
                    Reply (Error m) \<Rightarrow> (Inl (if m = [] then ''Unknown server error'' else m), st')
                  | _ \<Rightarrow> (Inr r, st'))))"

subsection \<open>The \<open>api\<close> methods\<close>

text \<open>The \<open>async ... : Promise<void>\<close> methods: the reply is dropped.\<close>

definition void_call :: "'j reply throws \<times> 'st \<Rightarrow> unit throws \<times> 'st" where
  "void_call r = apfst (map_sum id (\<lambda>_. ())) r"

definition apiGetClassrooms ::
  "('j, 'st) transport \<Rightarrow> system_config \<Rightarrow> 'st \<Rightarrow> classroom_obj list throws \<times> 'st" where
  "apiGetClassrooms transport cfg st =
     apfst (map_sum id (\<lambda>r. case r of ClassroomList cs \<Rightarrow> cs | _ \<Rightarrow> []))
       (sendPostRequest transport cfg ''getClassrooms'' empty_body st)"

definition apiSaveClassroom ::
  "('j, 'st) transport \<Rightarrow> system_config \<Rightarrow> classroom_payload \<Rightarrow> 'st \<Rightarrow> unit throws \<times> 'st" where
  "apiSaveClassroom transport cfg c st =
     void_call (sendPostRequest transport cfg ''saveClassroom''
       (empty_body\<lparr>b_id := Some (cp_id c), b_deletedAt := cp_deletedAt c, b_json := cp_json c\<rparr>) st)"

definition apiDeleteClassroom ::
  "('j, 'st) transport \<Rightarrow> system_config \<Rightarrow> jsstr \<Rightarrow> 'st \<Rightarrow> unit throws \<times> 'st" where
  "apiDeleteClassroom transport cfg cid st =
     void_call (sendPostRequest transport cfg ''deleteClassroom'' (empty_body\<lparr>b_id := Some cid\<rparr>) st)"

text \<open>
  \<open>getDashboardData\<close> swallows every error and returns empty data;
  \<open>is_array\<close> is \<open>Array.isArray\<close> on the parsed settings.
\<close>

definition apiGetDashboardData ::
  "('j \<Rightarrow> bool) \<Rightarrow> ('j, 'st) transport \<Rightarrow> system_config \<Rightarrow> jsstr \<Rightarrow> 'st \<Rightarrow>
   ('j list \<times> 'j option \<times> 'j option) \<times> 'st" where
  "apiGetDashboardData is_array transport cfg cid st =
     (case sendPostRequest transport cfg ''getDashboardData'' (empty_body\<lparr>b_classroomId := Some cid\<rparr>) st of
        (Inr (DashboardData studs plans subjects), st') \<Rightarrow>
          ((studs, (case plans of Some p \<Rightarrow> if is_array p then Some p else None | None \<Rightarrow> None),
                   (case subjects of Some p \<Rightarrow> if is_array p then Some p else None | None \<Rightarrow> None)), st')
      | (_, st') \<Rightarrow> (([], None, None), st'))"

definition apiSaveStudent ::
  "('j, 'st) transport \<Rightarrow> system_config \<Rightarrow> jsstr \<Rightarrow> saved_student \<Rightarrow> 'st \<Rightarrow> unit throws \<times> 'st" where
  "apiSaveStudent transport cfg cid st0 st =
     void_call (sendPostRequest transport cfg ''saveStudent''
       (empty_body\<lparr>b_classroomId := Some cid, b_student := Some st0\<rparr>) st)"

definition apiSaveStudents ::
  "('j, 'st) transport \<Rightarrow> system_config \<Rightarrow> jsstr \<Rightarrow> saved_student list \<Rightarrow> 'st \<Rightarrow> unit throws \<times> 'st" where
  "apiSaveStudents transport cfg cid sts st =
     void_call (sendPostRequest transport cfg ''saveStudents''
       (empty_body\<lparr>b_classroomId := Some cid, b_students := Some sts\<rparr>) st)"

definition apiDeleteStudent ::
  "('j, 'st) transport \<Rightarrow> system_config \<Rightarrow> jsstr \<Rightarrow> jsstr \<Rightarrow> 'st \<Rightarrow> unit throws \<times> 'st" where
  "apiDeleteStudent transport cfg cid sid st =
     void_call (sendPostRequest transport cfg ''deleteStudent''
       (empty_body\<lparr>b_classroomId := Some cid, b_studentId := Some sid\<rparr>) st)"

definition apiSaveSettings ::
  "('j, 'st) transport \<Rightarrow> system_config \<Rightarrow> jsstr \<Rightarrow> jsstr \<Rightarrow> jsstr \<Rightarrow> 'st \<Rightarrow> unit throws \<times> 'st" where
  "apiSaveSettings transport cfg cid ty json st =
     void_call (sendPostRequest transport cfg ''saveSettings''
       (empty_body\<lparr>b_classroomId := Some cid, b_type := Some ty, b_data := json\<rparr>) st)"

definition apiSetupDatabase ::
  "('j, 'st) transport \<Rightarrow> system_config \<Rightarrow> 'st \<Rightarrow> unit throws \<times> 'st" where
  "apiSetupDatabase transport cfg st = void_call (sendPostRequest transport cfg ''setup'' empty_body st)"

subsection \<open>The deployed transport\<close>

text \<open>The Apps Script web app answers every request with status 200 and the
  reply of \<open>handleRequest\<close>.\<close>

definition web_app ::
  "(jsstr \<Rightarrow> 'j option) \<Rightarrow> (jsstr \<Rightarrow> classroom_obj option) \<Rightarrow> (jsstr \<Rightarrow> nat option) \<Rightarrow> jsstr \<Rightarrow>
   ('j, spreadsheet) transport" where
  "web_app parse parse_obj parse_plans now e db =
     apfst (Pair 200) (handleRequest parse parse_obj parse_plans now e db)"

text \<open>A configured client: a usable URL, without a fragment or an \<open>action\<close>
  parameter of its own, so that the appended action is the one the web app reads.\<close>

definition api_configured :: "system_config \<Rightarrow> bool" where
  "api_configured cfg \<longleftrightarrow>
     url_ok (api_url cfg) \<and> CHR ''#'' \<notin> set (api_url cfg) \<and> url_param ''action'' (api_url cfg) = None"

subsection \<open>The query the web app reads back\<close>

lemma split_on_ne [simp]: "split_on c xs \<noteq> []"
  by (induction xs) (auto split: list.splits)

lemma split_on_no_sep: "c \<notin> set xs \<Longrightarrow> split_on c xs = [xs]"
  by (induction xs) auto

lemma split_on_append: "split_on c (xs @ c # ys) = split_on c xs @ split_on c ys"
proof (induction xs)
  case (Cons x xs)
  obtain w ws where "split_on c xs = w # ws" by (cases "split_on c xs") auto
  then show ?case using Cons by simp
qed simp

lemma find_append_None: "find P xs = None \<Longrightarrow> find P (xs @ ys) = find P ys"
  by (induction xs) (auto split: if_splits)

lemma url_query_no_query:
  "CHR ''?'' \<notin> set u \<Longrightarrow> url_query (u @ CHR ''?'' # v) = takeWhile (\<lambda>c. c \<noteq> CHR ''#'') v"
  unfolding url_query_def by (subst dropWhile_append2) auto

lemma url_query_append:
  assumes "CHR ''?'' \<in> set u" and "CHR ''#'' \<notin> set u"
  shows "url_query (u @ v) = url_query u @ takeWhile (\<lambda>c. c \<noteq> CHR ''#'') v"
proof -
  let ?d = "dropWhile (\<lambda>c. c \<noteq> CHR ''?'') u"
  have ne: "?d \<noteq> []" using assms(1) by (simp add: dropWhile_eq_Nil_conv)
  have "\<forall>c\<in>set (tl ?d). c \<noteq> CHR ''#''"
    using assms(2) by (metis list.set_sel(2) ne set_dropWhileD)
  then have "takeWhile (\<lambda>c. c \<noteq> CHR ''#'') (tl ?d @ v) = tl ?d @ takeWhile (\<lambda>c. c \<noteq> CHR ''#'') v"
    by (intro takeWhile_append2) blast
  moreover have "takeWhile (\<lambda>c. c \<noteq> CHR ''#'') (tl ?d) = tl ?d"
    using \<open>\<forall>c\<in>set (tl ?d). c \<noteq> CHR ''#''\<close> by (simp add: takeWhile_eq_all_conv)
  moreover have "dropWhile (\<lambda>c. c \<noteq> CHR ''?'') (u @ v) = ?d @ v"
    using assms(1) by (intro dropWhile_append1) auto
  ultimately show ?thesis
    using assms(1) ne by (simp only: url_query_def if_True set_append Un_iff simp_thms tl_append2)
qed

text \<open>
  The action the client appends is the action the web app reads, when the
  configured URL has no fragment and no \<open>action\<close> parameter of its own and
  the action contains neither \<open>&\<close> nor \<open>#\<close>.
\<close>

lemma url_param_request_url:
  assumes "CHR ''#'' \<notin> set u" and "url_param ''action'' u = None"
    and "CHR ''&'' \<notin> set a" and "CHR ''#'' \<notin> set a"
  shows "url_param ''action'' (request_url u a) = Some a"
proof (cases "CHR ''?'' \<in> set u")
  case True
  have "takeWhile (\<lambda>c. c \<noteq> CHR ''#'') (CHR ''&'' # ''action='' @ a) = CHR ''&'' # ''action='' @ a"
    using assms(4) by (auto simp: takeWhile_eq_all_conv)
  then have "url_query (request_url u a) = url_query u @ CHR ''&'' # ''action='' @ a"
    using url_query_append [OF True assms(1)] by (simp add: request_url_def separator_def True)
  moreover have "find (\<lambda>kv. takeWhile (\<lambda>c. c \<noteq> CHR ''='') kv = ''action'') (split_on CHR ''&'' (url_query u)) = None"
    using assms(2) by (simp add: url_param_def)
  ultimately show ?thesis
    using assms(3) by (simp add: url_param_def split_on_append split_on_no_sep find_append_None)
next
  case False
  have "takeWhile (\<lambda>c. c \<noteq> CHR ''#'') (''action='' @ a) = ''action='' @ a"
    using assms(4) by (auto simp: takeWhile_eq_all_conv)
  then have "url_query (request_url u a) = ''action='' @ a"
    using url_query_no_query [OF False] by (simp add: request_url_def separator_def False)
  then show ?thesis using assms(3) by (simp add: url_param_def split_on_no_sep)
qed

subsection \<open>Client and web app together\<close>

lemma resolve_action_url: "a \<noteq> [] \<Longrightarrow> resolve_action (Some a) b = Some a"
  by (simp add: resolve_action_def js_truthy_def)

text \<open>On a configured client, a request for an action made of plain
  characters reaches \<open>handleRequest\<close> with that action.\<close>

lemma sendPostRequest_web_app:
  assumes "api_configured cfg" and "CHR ''&'' \<notin> set a" and "CHR ''#'' \<notin> set a"
  shows "sendPostRequest (web_app parse parse_obj parse_plans now) cfg a data db =
     (case handleRequest parse parse_obj parse_plans now
             \<lparr>q_action = Some a, q_classroomId = url_param ''classroomId'' (request_url (api_url cfg) a),
              q_body = Some (data\<lparr>b_action := Some a\<rparr>)\<rparr> db of
        (r, db') \<Rightarrow> ((case r of Reply (Error m) \<Rightarrow> Inl (if m = [] then ''Unknown server error'' else m)
                              | _ \<Rightarrow> Inr r), db'))"
proof -
  have "url_param ''action'' (request_url (api_url cfg) a) = Some a"
    using assms by (intro url_param_request_url) (simp_all add: api_configured_def)
  then show ?thesis
    using assms(1)
    by (simp add: sendPostRequest_def api_configured_def web_app_def Let_def split: prod.splits reply.splits response.splits)
qed

lemma saveStudent_Success: "fst (saveStudent cid st now db) = Success"
  by (simp add: saveStudent_def setup_db_def Let_def split: option.splits)

text \<open>A \<open>Promise<void>\<close> method on a configured client returns what the
  handler's status says, and leaves the spreadsheet the handler leaves.\<close>

lemma void_call_web_app:
  assumes "api_configured cfg" and "CHR ''&'' \<notin> set a" and "CHR ''#'' \<notin> set a"
    and "\<And>c. handleRequest parse parse_obj parse_plans now
           \<lparr>q_action = Some a, q_classroomId = c, q_body = Some (data\<lparr>b_action := Some a\<rparr>)\<rparr> db = (Reply resp, db')"
  shows "void_call (sendPostRequest (web_app parse parse_obj parse_plans now) cfg a data db) =
           ((case resp of Error m \<Rightarrow> Inl (if m = [] then ''Unknown server error'' else m) | _ \<Rightarrow> Inr ()), db')"
  apply (subst sendPostRequest_web_app [OF assms(1-3)])
  apply (simp only: assms(4))
  by (simp add: void_call_def split: response.splits)

end
