(* ===== verification/Ranking.thy ===== *)
theory Ranking
  imports Prelude
begin

text \<open>
  The Score Aggregator and the Ranker of \<open>src/unnamed/part_001\<close>
  (the \<open>rankingService\<close> module): the \<open>Student\<close> and \<open>RankedStudent\<close>
  shapes, \<open>calculateTotal\<close>, \<open>tieBreaker\<close>, the comparator passed to
  \<open>processed.sort\<close>, and the positional rank assignment.  The theory proves
  that the comparator is a total preorder given by a lexicographic key, that
  the sort is the library's stable \<open>sort_key\<close> and hence independent of the
  sorting algorithm, and that ranks are exactly \<open>1..N\<close>.
\<close>

subsection \<open>Data\<close>

text \<open>
  \<open>Student.scores\<close> is read by \<open>calculateTotal\<close> through the five fixed
  fields \<open>math, science, thai, english, social\<close>; the record below is that
  typed view.  (What happens when a configured subject set lacks one of these
  keys is the subject of the Scores theory.)
\<close>

record exam_scores =
  math :: int
  science :: int
  thai :: int
  english :: int
  social :: int

record student =
  stu_id :: jsstr
  title :: jsstr
  firstName :: jsstr
  lastName :: jsstr
  preferredStreams :: "jsstr list"
  scores :: exam_scores

text \<open>\<open>RankedStudent\<close> extends \<open>Student\<close> exactly as the object spread does.\<close>

record ranked_student = student +
  totalScore :: int
  rank :: nat
  qualifiedStream :: "jsstr option"

subsection \<open>Operations\<close>

definition calculateTotal :: "'a student_scheme \<Rightarrow> int" where
  "calculateTotal s =
     (let sc = scores s in math sc + science sc + thai sc + english sc + social sc)"

text \<open>Negative when \<open>a\<close> should come first; the five fixed tie-break keys in order.\<close>

definition tieBreaker :: "'a student_scheme \<Rightarrow> 'a student_scheme \<Rightarrow> int" where
  "tieBreaker a b =
     (let sa = scores a; sb = scores b in
      if science sa \<noteq> science sb then science sb - science sa
      else if math sa \<noteq> math sb then math sb - math sa
      else if english sa \<noteq> english sb then english sb - english sa
      else if thai sa \<noteq> thai sb then thai sb - thai sa
      else social sb - social sa)"

text \<open>The comparator given to \<open>processed.sort\<close> in \<open>rankStudents\<close>.\<close>

definition compareRanked :: "'a ranked_student_scheme \<Rightarrow> 'a ranked_student_scheme \<Rightarrow> int" where
  "compareRanked a b =
     (if totalScore b \<noteq> totalScore a then totalScore b - totalScore a
      else tieBreaker a b)"

text \<open>Step 1 of \<open>rankStudents\<close>: spread each student, adding the total,
  rank 0 and no stream.\<close>

definition toRanked :: "student \<Rightarrow> ranked_student" where
  "toRanked s = student.extend s
     (ranked_student.fields (calculateTotal s) 0 None)"

text \<open>Step 3: \<open>processed.map((s, index) => ({...s, rank: index + 1}))\<close>.\<close>

fun assignRanks :: "nat \<Rightarrow> 'a ranked_student_scheme list \<Rightarrow> 'a ranked_student_scheme list" where
  "assignRanks i [] = []"
| "assignRanks i (s # ss) = s\<lparr>rank := i + 1\<rparr> # assignRanks (Suc i) ss"

text \<open>Steps 1 to 3 of \<open>rankStudents\<close>, before the allocation.\<close>

definition rankOrder :: "student list \<Rightarrow> ranked_student list" where
  "rankOrder students = assignRanks 0 (array_sort compareRanked (map toRanked students))"

subsection \<open>The comparator as a key order\<close>

text \<open>
  The key the comparator orders by: total, then science, math, english, thai,
  social, each descending.  Negation turns descending into the ascending
  lexicographic order of \<open>Product_Lexorder\<close>.
\<close>

definition score_key :: "exam_scores \<Rightarrow> int \<times> int \<times> int \<times> int \<times> int" where
  "score_key sc = (- science sc, - math sc, - english sc, - thai sc, - social sc)"

definition rank_key :: "'a ranked_student_scheme \<Rightarrow> int \<times> int \<times> int \<times> int \<times> int \<times> int" where
  "rank_key r = (- totalScore r, score_key (scores r))"

text \<open>The same key read off a plain student: the reference order of the ranker.\<close>

definition student_key :: "student \<Rightarrow> int \<times> int \<times> int \<times> int \<times> int \<times> int" where
  "student_key s = (- calculateTotal s, score_key (scores s))"

lemma tieBreaker_le_iff: "tieBreaker a b \<le> 0 \<longleftrightarrow> score_key (scores a) \<le> score_key (scores b)"
  by (auto simp: tieBreaker_def score_key_def Let_def)

lemma tieBreaker_eq_iff: "tieBreaker a b = 0 \<longleftrightarrow> score_key (scores a) = score_key (scores b)"
  by (auto simp: tieBreaker_def score_key_def Let_def)

lemma compareRanked_le_iff: "compareRanked a b \<le> 0 \<longleftrightarrow> rank_key a \<le> rank_key b"
  by (auto simp: compareRanked_def rank_key_def tieBreaker_le_iff)

lemma compareRanked_eq_iff: "compareRanked a b = 0 \<longleftrightarrow> rank_key a = rank_key b"
  by (auto simp: compareRanked_def rank_key_def tieBreaker_eq_iff)

lemma compareRanked_antisym: "compareRanked a b = - compareRanked b a"
  by (simp add: compareRanked_def tieBreaker_def Let_def)

lemma array_sort_compareRanked:
  "array_sort compareRanked xs = sort_key rank_key xs"
  by (rule array_sort_eq_sort_key) (rule compareRanked_le_iff)

subsection \<open>Rank assignment\<close>

lemma length_assignRanks [simp]: "length (assignRanks i xs) = length xs"
  by (induction i xs rule: assignRanks.induct) auto

lemma map_rank_assignRanks: "map rank (assignRanks i xs) = [Suc i..<Suc i + length xs]"
  by (induction i xs rule: assignRanks.induct) (auto simp: upt_rec)

lemma assignRanks_nth:
  "k < length xs \<Longrightarrow> assignRanks i xs ! k = (xs ! k)\<lparr>rank := i + k + 1\<rparr>"
  by (induction i xs arbitrary: k rule: assignRanks.induct) (auto simp: nth_Cons split: nat.splits)

lemma map_clear_rank_assignRanks:
  "map (\<lambda>r. r\<lparr>rank := 0\<rparr>) (assignRanks i xs) = map (\<lambda>r. r\<lparr>rank := 0\<rparr>) xs"
  by (induction i xs rule: assignRanks.induct) auto

lemma toRanked_truncate [simp]: "student.truncate (toRanked s) = s"
  by (simp add: toRanked_def student.defs ranked_student.defs)

lemma toRanked_fields [simp]:
  "totalScore (toRanked s) = calculateTotal s"
  "scores (toRanked s) = scores s"
  "preferredStreams (toRanked s) = preferredStreams s"
  "qualifiedStream (toRanked s) = None"
  by (simp_all add: toRanked_def student.defs ranked_student.defs)

lemma rank_key_toRanked: "(\<lambda>s. rank_key (toRanked s)) = student_key"
  by (simp add: fun_eq_iff rank_key_def student_key_def)

lemma map_truncate_assignRanks:
  "map student.truncate (assignRanks i xs) = map student.truncate xs"
  by (induction i xs rule: assignRanks.induct) (simp_all add: student.defs)

lemma assignRanks_totals:
  "\<forall>r\<in>set xs. totalScore r = calculateTotal r \<Longrightarrow>
   \<forall>r\<in>set (assignRanks i xs). totalScore r = calculateTotal r"
  by (induction i xs rule: assignRanks.induct) (simp_all add: calculateTotal_def)

lemma map_prefs_assignRanks:
  "map preferredStreams (assignRanks i xs) = map preferredStreams xs"
  by (induction i xs rule: assignRanks.induct) simp_all

subsection \<open>The rank order\<close>

lemma rankOrder_sort_key:
  "map student.truncate (rankOrder students) = sort_key student_key students"
proof -
  have "map student.truncate (rankOrder students) =
          map student.truncate (sort_key rank_key (map toRanked students))"
    by (simp add: rankOrder_def map_truncate_assignRanks array_sort_compareRanked)
  also have "\<dots> = sort_key student_key students"
    by (simp add: sort_key_map rank_key_toRanked comp_def)
  finally show ?thesis .
qed

lemma length_rankOrder [simp]: "length (rankOrder students) = length students"
  by (simp add: rankOrder_def array_sort_compareRanked)

lemma map_rank_rankOrder: "map rank (rankOrder students) = [1..<Suc (length students)]"
  by (simp add: rankOrder_def map_rank_assignRanks array_sort_compareRanked)

lemma rankOrder_totals: "\<forall>r\<in>set (rankOrder students). totalScore r = calculateTotal r"
  unfolding rankOrder_def
  by (rule assignRanks_totals) (auto simp: array_sort_compareRanked calculateTotal_def)

end
