(* ===== verification/Allocation.thy ===== *)
theory Allocation
  imports Ranking
begin

text \<open>
  The Allocator of \<open>src/unnamed/part_001\<close> (step 4 of \<open>rankStudents\<close>):
  the two lookup objects \<open>quotaUsage\<close> and \<open>planQuotas\<close> built by
  \<open>plans.forEach\<close>, the preference scan with its \<open>break\<close>, and the
  \<open>processed.map\<close> that threads the shared \<open>quotaUsage\<close> through the
  students in rank order.  The JavaScript objects are maps
  \<open>string \<rightharpoonup> int\<close>; an absent key is \<open>undefined\<close>.  The theory
  proves that the scan returns the first preferred plan with room, that
  usage only grows and counts exactly the students placed, and that a
  student's result depends only on the students ranked above.
\<close>

record study_plan =
  plan_id :: jsstr
  name :: jsstr
  quota :: int

type_synonym usage_map = "jsstr \<rightharpoonup> int"
type_synonym quota_map = "jsstr \<rightharpoonup> int"

subsection \<open>Operations\<close>

text \<open>\<open>plans.forEach(p => planQuotas[p.name] = p.quota)\<close>: a later plan with
  the same name overwrites the earlier one.\<close>

definition planQuotas :: "study_plan list \<Rightarrow> quota_map" where
  "planQuotas plans = fold (\<lambda>p m. m(name p \<mapsto> quota p)) plans Map.empty"

text \<open>\<open>plans.forEach(p => { quotaUsage[p.name] = 0; })\<close>.\<close>

definition initUsage :: "study_plan list \<Rightarrow> usage_map" where
  "initUsage plans = fold (\<lambda>p m. m(name p \<mapsto> 0)) plans Map.empty"

text \<open>
  The loop body's test: the plan is known (\<open>planQuotas[planName] !== undefined\<close>)
  and \<open>currentUsage < planQuotas[planName]\<close>, where \<open>undefined < n\<close> is false.
\<close>

definition available :: "quota_map \<Rightarrow> usage_map \<Rightarrow> jsstr \<Rightarrow> bool" where
  "available q u p =
     (case q p of
        None \<Rightarrow> False
      | Some qt \<Rightarrow> (case u p of None \<Rightarrow> False | Some c \<Rightarrow> c < qt))"

text \<open>
  \<open>for (const planName of student.preferredStreams)\<close>: the first plan that
  passes the test is assigned, its usage incremented, and the loop left.
\<close>

fun pickPlan :: "quota_map \<Rightarrow> usage_map \<Rightarrow> jsstr list \<Rightarrow> jsstr option \<times> usage_map" where
  "pickPlan q u [] = (None, u)"
| "pickPlan q u (p # ps) =
     (case q p of
        None \<Rightarrow> pickPlan q u ps
      | Some qt \<Rightarrow>
          (case u p of
             None \<Rightarrow> pickPlan q u ps
           | Some c \<Rightarrow> if c < qt then (Some p, u(p \<mapsto> c + 1)) else pickPlan q u ps))"

text \<open>\<open>processed.map(student => ...)\<close> with the shared \<open>quotaUsage\<close> as state.\<close>

fun allocate :: "quota_map \<Rightarrow> usage_map \<Rightarrow> 'a ranked_student_scheme list
                 \<Rightarrow> 'a ranked_student_scheme list \<times> usage_map" where
  "allocate q u [] = ([], u)"
| "allocate q u (s # ss) =
     (let (a, u1) = pickPlan q u (preferredStreams s);
          (rs, u2) = allocate q u1 ss
      in (s\<lparr>qualifiedStream := a\<rparr> # rs, u2))"

text \<open>The whole of \<open>rankStudents(students, plans)\<close>.\<close>

definition rankStudents :: "student list \<Rightarrow> study_plan list \<Rightarrow> ranked_student list" where
  "rankStudents students plans =
     fst (allocate (planQuotas plans) (initUsage plans) (rankOrder students))"

subsection \<open>The preference scan\<close>

lemma pickPlan_find:
  "pickPlan q u ps =
     (case find (available q u) ps of
        None \<Rightarrow> (None, u)
      | Some p \<Rightarrow> (Some p, u(p \<mapsto> the (u p) + 1)))"
  by (induction ps) (auto simp: available_def split: option.splits)

lemma fst_pickPlan: "fst (pickPlan q u ps) = find (available q u) ps"
  by (simp add: pickPlan_find split: option.splits)

lemma snd_pickPlan_at:
  "snd (pickPlan q u ps) n =
     (if fst (pickPlan q u ps) = Some n then map_option (\<lambda>c. c + 1) (u n) else u n)"
  by (auto simp: pickPlan_find available_def dest!: find_Some_in_set split: option.splits)

subsection \<open>Frame and state threading\<close>

abbreviation clearStream :: "'a ranked_student_scheme \<Rightarrow> 'a ranked_student_scheme" where
  "clearStream r \<equiv> r\<lparr>qualifiedStream := None\<rparr>"

lemma allocate_frame: "map clearStream (fst (allocate q u rs)) = map clearStream rs"
  by (induction q u rs rule: allocate.induct) (auto split: prod.splits)

lemma length_allocate [simp]: "length (fst (allocate q u rs)) = length rs"
  using arg_cong [OF allocate_frame, of length] by simp

lemma length_allocate_pair: "allocate q u rs = (rs', u') \<Longrightarrow> length rs' = length rs"
  using length_allocate [of q u rs] by simp

lemma allocate_append:
  "allocate q u (xs @ ys) =
     (let (rs1, u1) = allocate q u xs; (rs2, u2) = allocate q u1 ys in (rs1 @ rs2, u2))"
  by (induction q u xs rule: allocate.induct) (auto split: prod.splits)

lemma snd_allocate_append:
  "snd (allocate q u (xs @ ys)) = snd (allocate q (snd (allocate q u xs)) ys)"
  by (simp add: allocate_append split: prod.splits)

lemma allocate_prefix:
  "take (length xs) (fst (allocate q u (xs @ ys))) = fst (allocate q u xs)"
  by (auto simp: allocate_append dest!: length_allocate_pair split: prod.splits)

lemma allocate_nth:
  assumes "i < length rs"
  shows "fst (allocate q u rs) ! i =
           (rs ! i)\<lparr>qualifiedStream :=
              find (available q (snd (allocate q u (take i rs)))) (preferredStreams (rs ! i))\<rparr>"
proof -
  have rs: "rs = take i rs @ (rs ! i) # drop (Suc i) rs"
    using assms by (simp add: Cons_nth_drop_Suc)
  have "fst (allocate q u (take i rs @ (rs ! i) # drop (Suc i) rs)) ! i =
          (rs ! i)\<lparr>qualifiedStream :=
              find (available q (snd (allocate q u (take i rs)))) (preferredStreams (rs ! i))\<rparr>"
    using assms
    by (auto simp: allocate_append nth_append fst_pickPlan [symmetric]
        dest!: length_allocate_pair split: prod.splits)
  then show ?thesis using rs by metis
qed

subsection \<open>Usage accounting\<close>

definition count_assigned :: "jsstr \<Rightarrow> 'a ranked_student_scheme list \<Rightarrow> nat" where
  "count_assigned n rs = length (filter (\<lambda>r. qualifiedStream r = Some n) rs)"

lemma count_assigned_simps [simp]:
  "count_assigned n [] = 0"
  "count_assigned n (r # rs) =
     (if qualifiedStream r = Some n then Suc (count_assigned n rs) else count_assigned n rs)"
  by (simp_all add: count_assigned_def)

lemma count_assigned_two:
  assumes "i < j" "j < length rs"
    and "qualifiedStream (rs ! i) = Some n" "qualifiedStream (rs ! j) = Some n"
  shows "2 \<le> count_assigned n rs"
proof -
  have "{i, j} \<subseteq> {k. k < length rs \<and> qualifiedStream (rs ! k) = Some n}"
    using assms by auto
  then have "card {i, j} \<le> card {k. k < length rs \<and> qualifiedStream (rs ! k) = Some n}"
    by (rule card_mono [rotated]) simp
  then show ?thesis
    using assms(1) by (simp add: count_assigned_def length_filter_conv_card)
qed

lemma allocate_prefs_nth:
  "i < length rs \<Longrightarrow> preferredStreams (fst (allocate q u rs) ! i) = preferredStreams (rs ! i)"
  by (simp add: allocate_nth)

lemma pickPlan_picks_known:
  "fst (pickPlan q u ps) = Some n \<Longrightarrow> n \<in> set ps \<and> available q u n"
  by (simp add: fst_pickPlan find_Some_in_set)

text \<open>The usage counter of a plan grows by exactly the number of students placed in it.\<close>

lemma allocate_usage:
  "snd (allocate q u rs) n = map_option (\<lambda>c. c + int (count_assigned n (fst (allocate q u rs)))) (u n)"
proof (induction q u rs rule: allocate.induct)
  case (1 q u)
  then show ?case by (simp add: option.map_ident)
next
  case (2 q u s ss)
  obtain a u1 where p: "pickPlan q u (preferredStreams s) = (a, u1)" by fastforce
  have u1: "u1 n = (if a = Some n then map_option (\<lambda>c. c + 1) (u n) else u n)"
    using snd_pickPlan_at [of q u "preferredStreams s" n] p by simp
  have "a = Some n \<Longrightarrow> u n \<noteq> None"
    using pickPlan_picks_known [of q u "preferredStreams s" n] p
    by (auto simp: available_def split: option.splits)
  then show ?case
    using "2.IH" [OF p [symmetric] refl] u1 p
    by (auto simp: option.map_comp comp_def split: prod.splits)
qed

text \<open>A plan is only ever incremented while it is below its quota.\<close>

lemma allocate_usage_bound:
  assumes "q n = Some qt" and "u n = Some c"
  shows "\<exists>c'. snd (allocate q u rs) n = Some c' \<and> c' \<le> max c qt"
  using assms
proof (induction q u rs arbitrary: c rule: allocate.induct)
  case (1 q u)
  then show ?case by simp
next
  case (2 q u s ss)
  obtain a u1 where p: "pickPlan q u (preferredStreams s) = (a, u1)" by fastforce
  have u1: "u1 n = (if a = Some n then Some (c + 1) else Some c)"
    using snd_pickPlan_at [of q u "preferredStreams s" n] p "2.prems" by simp
  have lt: "a = Some n \<Longrightarrow> c < qt"
    using pickPlan_picks_known [of q u "preferredStreams s" n] p "2.prems"
    by (simp add: available_def)
  obtain c' where "snd (allocate q u1 ss) n = Some c'" and "c' \<le> max (the (u1 n)) qt"
    using "2.IH" [OF p [symmetric] refl "2.prems"(1)] u1 by (cases "a = Some n") auto
  then show ?case
    using p u1 lt by (cases "a = Some n") (auto split: prod.splits)
qed

lemma allocate_unknown_plan:
  "q n = None \<Longrightarrow> count_assigned n (fst (allocate q u rs)) = 0"
proof (induction q u rs rule: allocate.induct)
  case (2 q u s ss)
  then show ?case
    using pickPlan_picks_known [of q u "preferredStreams s" n]
    by (auto simp: available_def split: prod.splits)
qed simp

text \<open>Usage never decreases, so a plan with room later had room earlier.\<close>

lemma allocate_usage_mono:
  "snd (allocate q u rs) n = Some c' \<Longrightarrow> \<exists>c. u n = Some c \<and> c \<le> c'"
  using allocate_usage [of q u rs n] by auto

lemma available_allocate_earlier:
  "available q (snd (allocate q u rs)) p \<Longrightarrow> available q u p"
  by (auto simp: available_def split: option.splits dest!: allocate_usage_mono)

subsection \<open>Initial state and the whole allocation\<close>

lemma dom_planQuotas: "dom (planQuotas plans) = name ` set plans"
  by (simp add: planQuotas_def fold_map_upd_dom)

lemma initUsage_at:
  "initUsage plans n = (if n \<in> dom (planQuotas plans) then Some 0 else None)"
  by (simp add: initUsage_def fold_map_upd_const dom_planQuotas)

lemma allocate_count_bound:
  assumes "\<And>n. u n = (if n \<in> dom q then Some 0 else None)"
  shows "count_assigned n (fst (allocate q u rs)) \<le> (case q n of None \<Rightarrow> 0 | Some qt \<Rightarrow> nat qt)"
proof (cases "q n")
  case None
  then show ?thesis by (simp add: allocate_unknown_plan)
next
  case (Some qt)
  then have u0: "u n = Some 0" using assms [of n] by auto
  obtain c' where "snd (allocate q u rs) n = Some c'" and "c' \<le> max 0 qt"
    using allocate_usage_bound [of q n qt u 0 rs] Some u0 by blast
  then show ?thesis
    using allocate_usage [of q u rs n] u0 Some by auto
qed

lemma allocate_stream_in_prefs:
  "r \<in> set (fst (allocate q u rs)) \<Longrightarrow> qualifiedStream r = Some p \<Longrightarrow>
     p \<in> set (preferredStreams r) \<and> p \<in> dom q"
proof (induction q u rs rule: allocate.induct)
  case (2 q u s ss)
  then show ?case
    using pickPlan_picks_known [of q u "preferredStreams s" p]
    by (auto simp: available_def split: prod.splits option.splits)
qed simp

lemma map_rank_allocate: "map rank (fst (allocate q u rs)) = map rank rs"
  using arg_cong [OF allocate_frame, of "map rank"] by (simp add: comp_def)

lemma map_truncate_allocate:
  "map student.truncate (fst (allocate q u rs)) = map student.truncate rs"
  by (induction q u rs rule: allocate.induct) (auto simp: student.defs split: prod.splits)

lemma allocate_totals:
  "\<forall>r\<in>set rs. totalScore r = calculateTotal r \<Longrightarrow>
   \<forall>r\<in>set (fst (allocate q u rs)). totalScore r = calculateTotal r"
  by (induction q u rs rule: allocate.induct) (auto simp: calculateTotal_def split: prod.splits)

text \<open>
  No justified envy: if a lower-ranked student got plan \<open>p\<close>, every
  higher-ranked student who listed \<open>p\<close> got \<open>p\<close> or a plan listed before it.
\<close>

lemma allocate_no_envy:
  assumes ij: "i < j" "j < length rs"
    and got: "qualifiedStream (fst (allocate q u rs) ! j) = Some p"
    and listed: "p \<in> set (preferredStreams (rs ! i))"
  shows "\<exists>p'. qualifiedStream (fst (allocate q u rs) ! i) = Some p' \<and>
               p' \<in> set (takeWhile (\<lambda>x. x \<noteq> p) (preferredStreams (rs ! i)) @ [p])"
proof -
  let ?U = "\<lambda>k. snd (allocate q u (take k rs))"
  have "find (available q (?U j)) (preferredStreams (rs ! j)) = Some p"
    using got allocate_nth [OF ij(2)] by simp
  then have avj: "available q (?U j) p" by (simp add: find_Some_in_set)
  have "take j rs = take i rs @ drop i (take j rs)"
    by (metis append_take_drop_id ij(1) less_imp_le_nat min.absorb1 take_take)
  then have "?U j = snd (allocate q u (take i rs @ drop i (take j rs)))"
    by metis
  also have "\<dots> = snd (allocate q (?U i) (drop i (take j rs)))"
    by (rule snd_allocate_append)
  finally have "?U j = snd (allocate q (?U i) (drop i (take j rs)))" .
  with avj have "available q (?U i) p"
    using available_allocate_earlier by metis
  then show ?thesis
    using find_at_or_before [OF _ listed] allocate_nth [of i rs] ij by auto
qed

end
