(* ===== verification/Dashboard.thy ===== *)
theory Dashboard
  imports Api Allocation
begin

text \<open>
  The \<open>Dashboard\<close> component and the settings editor of
  \<open>src/components/SettingsPage.tsx\<close>: the screen that holds the students,
  plans and subjects of one classroom, loads them with \<open>api.getDashboardData\<close>,
  saves every change through the \<open>api\<close> client, records it in the activity
  log of the browser storage, and shows \<open>rankStudents\<close> of its lists.  The
  React state of the component is a record; a handler maps the state and the
  world (the spreadsheet behind the web app and the browser storage) to the
  new state and world, awaiting each call in order as the \<open>async\<close> code
  does.  \<open>enc\<close> is \<open>JSON.stringify\<close> of a student and \<open>enc_plans\<close>,
  \<open>enc_subjects\<close> that of the settings lists; \<open>as_student\<close>,
  \<open>as_plans\<close> and \<open>as_subjects\<close> are the TypeScript casts of the parsed
  JSON that \<open>loadData\<close> stores.  An \<open>alert\<close> is not state.
\<close>

subsection \<open>Data\<close>

text \<open>\<open>ExamSubject\<close>, with the fields of \<open>DEFAULT_SUBJECTS\<close>.\<close>

record exam_subject =
  sub_id :: jsstr
  sub_name :: jsstr
  maxScore :: int

text \<open>The fields of the \<open>classroom\<close> prop the component reads.\<close>

record classroom_view =
  cl_id :: jsstr
  cl_name :: jsstr
  cl_updatedAt :: "jsstr option"

record dash_state =
  d_students :: "student list"
  d_plans :: "study_plan list"
  d_subjects :: "exam_subject list"
  d_updatedAt :: "jsstr option"
  d_loading :: bool

record world =
  w_db :: spreadsheet
  w_ls :: local_store

definition DEFAULT_PLANS :: "study_plan list" where
  "DEFAULT_PLANS =
     [\<lparr>plan_id = ''1'', name = ''SCI_MATH'', quota = 10\<rparr>, \<lparr>plan_id = ''2'', name = ''ARTS_MATH'', quota = 10\<rparr>,
      \<lparr>plan_id = ''3'', name = ''ARTS_LANG'', quota = 10\<rparr>, \<lparr>plan_id = ''4'', name = ''ARTS_SOC'', quota = 10\<rparr>,
      \<lparr>plan_id = ''5'', name = ''SPECIAL'', quota = 10\<rparr>]"

definition DEFAULT_SUBJECTS :: "exam_subject list" where
  "DEFAULT_SUBJECTS =
     [\<lparr>sub_id = ''math'', sub_name = ''Math'', maxScore = 100\<rparr>,
      \<lparr>sub_id = ''science'', sub_name = ''Science'', maxScore = 100\<rparr>,
      \<lparr>sub_id = ''thai'', sub_name = ''Thai'', maxScore = 100\<rparr>,
      \<lparr>sub_id = ''english'', sub_name = ''English'', maxScore = 100\<rparr>,
      \<lparr>sub_id = ''social'', sub_name = ''Social'', maxScore = 100\<rparr>]"

text \<open>The initial state: no students, the default settings, \<open>loading\<close>.\<close>

definition dash_init :: "classroom_view \<Rightarrow> dash_state" where
  "dash_init cl =
     \<lparr>d_students = [], d_plans = DEFAULT_PLANS, d_subjects = DEFAULT_SUBJECTS,
      d_updatedAt = cl_updatedAt cl, d_loading = True\<rparr>"

text \<open>\<open>currentUser?.role === 'VIEWER'\<close>.\<close>

definition isViewer :: "admin_user option \<Rightarrow> bool" where
  "isViewer u = (case u of None \<Rightarrow> False | Some v \<Rightarrow> u_role v = ''VIEWER'')"

definition to_saved :: "(student \<Rightarrow> jsstr) \<Rightarrow> student \<Rightarrow> saved_student" where
  "to_saved enc s = \<lparr>ss_id = stu_id s, ss_json = enc s\<rparr>"

subsection \<open>Loading\<close>

text \<open>
  \<open>loadData\<close>: the students are always replaced (an array is truthy, even
  when empty), the plans and subjects only when the backend has them.
  \<open>api.getDashboardData\<close> never throws.
\<close>

definition loadData ::
  "('j \<Rightarrow> bool) \<Rightarrow> ('j \<Rightarrow> student) \<Rightarrow> ('j \<Rightarrow> study_plan list) \<Rightarrow> ('j \<Rightarrow> exam_subject list) \<Rightarrow>
   ('j, spreadsheet) transport \<Rightarrow> classroom_view \<Rightarrow> dash_state \<times> world \<Rightarrow> dash_state \<times> world" where
  "loadData is_array as_student as_plans as_subjects T cl dw =
     (let (d, w) = dw;
          ((studs, plans, subjects), db') =
            apiGetDashboardData is_array T (getConfig (w_ls w)) (cl_id cl) (w_db w);
          d1 = d\<lparr>d_students := map as_student studs\<rparr>;
          d2 = (case plans of None \<Rightarrow> d1 | Some p \<Rightarrow> d1\<lparr>d_plans := as_plans p\<rparr>);
          d3 = (case subjects of None \<Rightarrow> d2 | Some p \<Rightarrow> d2\<lparr>d_subjects := as_subjects p\<rparr>)
      in (d3\<lparr>d_loading := False\<rparr>, w\<lparr>w_db := db'\<rparr>))"

subsection \<open>The student handlers\<close>

text \<open>The merge of \<open>handleAddStudents\<close>: a new student replaces the first
  student with its id, or is appended.\<close>

definition merge_student :: "student \<Rightarrow> student list \<Rightarrow> student list" where
  "merge_student n l =
     (case findIndex (\<lambda>s. stu_id s = stu_id n) l of Some i \<Rightarrow> l[i := n] | None \<Rightarrow> l @ [n])"

definition mergeStudents :: "student list \<Rightarrow> student list \<Rightarrow> student list" where
  "mergeStudents l news = fold merge_student news l"

text \<open>\<open>storage.addLog\<close> and \<open>refreshTimestamp\<close> after a successful save.\<close>

definition after_save ::
  "admin_user option \<Rightarrow> jsstr \<Rightarrow> jsstr \<Rightarrow> jsstr \<Rightarrow> jsstr \<Rightarrow> dash_state \<times> world \<Rightarrow> dash_state \<times> world" where
  "after_save user action details lid now dw =
     (let (d, w) = dw
      in (d\<lparr>d_updatedAt := Some now\<rparr>, w\<lparr>w_ls := addLog user action details lid now (w_ls w)\<rparr>))"

definition handleAddStudents ::
  "(student \<Rightarrow> jsstr) \<Rightarrow> ('j, spreadsheet) transport \<Rightarrow> admin_user option \<Rightarrow> classroom_view \<Rightarrow>
   jsstr \<Rightarrow> jsstr \<Rightarrow> student list \<Rightarrow> dash_state \<times> world \<Rightarrow> dash_state \<times> world" where
  "handleAddStudents enc T user cl lid now news dw =
     (let (d, w) = dw in
      if isViewer user then dw
      else
        (let d1 = d\<lparr>d_students := mergeStudents (d_students d) news\<rparr>;
             (r, db') = apiSaveStudents T (getConfig (w_ls w)) (cl_id cl) (map (to_saved enc) news) (w_db w);
             w1 = w\<lparr>w_db := db'\<rparr>
         in case r of
              Inl _ \<Rightarrow> (d1, w1)
            | Inr _ \<Rightarrow> after_save user ''ADD_STUDENTS''
                        (''Added '' @ show_nat (length news) @ '' students to '' @ cl_name cl) lid now (d1, w1)))"

text \<open>
  \<open>handleEditStudent(updated, originalId)\<close>: the list replaces every
  student with the id \<open>originalId || updated.id\<close>; when the id changed the
  old id is deleted first, and a failure of either call skips the rest.
\<close>

definition handleEditStudent ::
  "(student \<Rightarrow> jsstr) \<Rightarrow> ('j, spreadsheet) transport \<Rightarrow> admin_user option \<Rightarrow> classroom_view \<Rightarrow>
   jsstr \<Rightarrow> jsstr \<Rightarrow> student \<Rightarrow> jsstr option \<Rightarrow> dash_state \<times> world \<Rightarrow> dash_state \<times> world" where
  "handleEditStudent enc T user cl lid now upd originalId dw =
     (let (d, w) = dw in
      if isViewer user then dw
      else
        (let key = (if js_truthy originalId then the originalId else stu_id upd);
             d1 = d\<lparr>d_students := map (\<lambda>s. if stu_id s = key then upd else s) (d_students d)\<rparr>;
             cfg = getConfig (w_ls w);
             (r0, db0) = (if js_truthy originalId \<and> the originalId \<noteq> stu_id upd
                          then apiDeleteStudent T cfg (cl_id cl) (the originalId) (w_db w)
                          else (Inr (), w_db w))
         in case r0 of
              Inl _ \<Rightarrow> (d1, w\<lparr>w_db := db0\<rparr>)
            | Inr _ \<Rightarrow>
                (let (r1, db1) = apiSaveStudent T cfg (cl_id cl) (to_saved enc upd) db0;
                     w1 = w\<lparr>w_db := db1\<rparr>
                 in case r1 of
                      Inl _ \<Rightarrow> (d1, w1)
                    | Inr _ \<Rightarrow> after_save user ''EDIT_STUDENT'' (''Edited student: '' @ stu_id upd) lid now (d1, w1))))"

definition handleDeleteStudent ::
  "('j, spreadsheet) transport \<Rightarrow> admin_user option \<Rightarrow> classroom_view \<Rightarrow>
   jsstr \<Rightarrow> jsstr \<Rightarrow> jsstr \<Rightarrow> dash_state \<times> world \<Rightarrow> dash_state \<times> world" where
  "handleDeleteStudent T user cl lid now sid dw =
     (let (d, w) = dw in
      if isViewer user then dw
      else
        (let target = find (\<lambda>s. stu_id s = sid) (d_students d);
             d1 = d\<lparr>d_students := filter (\<lambda>s. stu_id s \<noteq> sid) (d_students d)\<rparr>;
             (r, db') = apiDeleteStudent T (getConfig (w_ls w)) (cl_id cl) sid (w_db w);
             w1 = w\<lparr>w_db := db'\<rparr>
         in case r of
              Inl _ \<Rightarrow> (d1, w1)
            | Inr _ \<Rightarrow> after_save user ''DELETE_STUDENT''
                        (''Deleted student: '' @ sid @ '' ('' @
                           (case target of None \<Rightarrow> ''undefined'' | Some t \<Rightarrow> firstName t) @ '')'')
                        lid now (d1, w1)))"

subsection \<open>The settings handlers\<close>

text \<open>
  \<open>handleUpdatePlans\<close> and \<open>handleUpdateSubjects\<close> have no \<open>try\<close>: a failed
  save rejects the promise, so the log entry and the timestamp are skipped,
  and the error reaches \<open>handleConfirmSave\<close>.  The result says whether the
  promise resolved.
\<close>

definition handleUpdatePlans ::
  "(study_plan list \<Rightarrow> jsstr) \<Rightarrow> ('j, spreadsheet) transport \<Rightarrow> admin_user option \<Rightarrow> classroom_view \<Rightarrow>
   jsstr \<Rightarrow> jsstr \<Rightarrow> study_plan list \<Rightarrow> dash_state \<times> world \<Rightarrow> bool \<times> dash_state \<times> world" where
  "handleUpdatePlans enc_plans T user cl lid now newPlans dw =
     (let (d, w) = dw in
      if isViewer user then (True, dw)
      else
        (let d1 = d\<lparr>d_plans := newPlans\<rparr>;
             (r, db') = apiSaveSettings T (getConfig (w_ls w)) (cl_id cl) ''PLANS'' (enc_plans newPlans) (w_db w);
             w1 = w\<lparr>w_db := db'\<rparr>
         in case r of
              Inl _ \<Rightarrow> (False, d1, w1)
            | Inr _ \<Rightarrow> (True, after_save user ''UPDATE_PLANS'' (''Updated study plans for '' @ cl_name cl)
                                lid now (d1, w1))))"

definition handleUpdateSubjects ::
  "(exam_subject list \<Rightarrow> jsstr) \<Rightarrow> ('j, spreadsheet) transport \<Rightarrow> admin_user option \<Rightarrow> classroom_view \<Rightarrow>
   jsstr \<Rightarrow> jsstr \<Rightarrow> exam_subject list \<Rightarrow> dash_state \<times> world \<Rightarrow> bool \<times> dash_state \<times> world" where
  "handleUpdateSubjects enc_subjects T user cl lid now newSubjects dw =
     (let (d, w) = dw in
      if isViewer user then (True, dw)
      else
        (let d1 = d\<lparr>d_subjects := newSubjects\<rparr>;
             (r, db') = apiSaveSettings T (getConfig (w_ls w)) (cl_id cl) ''SUBJECTS'' (enc_subjects newSubjects) (w_db w);
             w1 = w\<lparr>w_db := db'\<rparr>
         in case r of
              Inl _ \<Rightarrow> (False, d1, w1)
            | Inr _ \<Rightarrow> (True, after_save user ''UPDATE_SUBJECTS'' (''Updated exam subjects for '' @ cl_name cl)
                                lid now (d1, w1))))"

text \<open>\<open>handleResetData\<close> empties the list on the screen only: no call reaches
  the backend.\<close>

definition handleResetData ::
  "admin_user option \<Rightarrow> classroom_view \<Rightarrow> jsstr \<Rightarrow> jsstr \<Rightarrow> dash_state \<times> world \<Rightarrow> dash_state \<times> world" where
  "handleResetData user cl lid now dw =
     (let (d, w) = dw in
      if isViewer user then dw
      else after_save user ''RESET_DATA'' (''Reset all student data for '' @ cl_name cl) lid now
             (d\<lparr>d_students := []\<rparr>, w))"

text \<open>The ranking the dashboard shows.\<close>

definition rankedStudents :: "dash_state \<Rightarrow> ranked_student list" where
  "rankedStudents d = rankStudents (d_students d) (d_plans d)"

subsection \<open>The screen and the spreadsheet in step\<close>

text \<open>
  The list on the screen read as a map from student id to JSON, the
  students sheet read as the same map for one classroom, and the two in step:
  ids on the screen are distinct and both maps agree.
\<close>

definition front_map :: "(student \<Rightarrow> jsstr) \<Rightarrow> student list \<Rightarrow> (jsstr \<rightharpoonup> jsstr)" where
  "front_map enc l = map_of (map (\<lambda>s. (stu_id s, enc s)) l)"

definition back_map :: "jsstr \<Rightarrow> spreadsheet \<Rightarrow> (jsstr \<rightharpoonup> jsstr)" where
  "back_map cid db = (\<lambda>sid. students_map db (cid, sid))"

definition in_sync :: "(student \<Rightarrow> jsstr) \<Rightarrow> jsstr \<Rightarrow> student list \<Rightarrow> spreadsheet \<Rightarrow> bool" where
  "in_sync enc cid l db \<longleftrightarrow> distinct (map stu_id l) \<and> front_map enc l = back_map cid db"

subsection \<open>Lemmas\<close>

lemma update_first_map_of_match:
  assumes "update_first (\<lambda>r. k r = a) f xs = Some ys"
    and "\<And>x. k x = a \<Longrightarrow> k (f x) = a" and "\<And>x. k x = a \<Longrightarrow> d (f x) = v"
  shows "map_of (map (\<lambda>r. (k r, d r)) ys) = (map_of (map (\<lambda>r. (k r, d r)) xs))(a \<mapsto> v)"
  using assms(1)
proof (induction xs arbitrary: ys)
  case (Cons x xs)
  then show ?case using assms(2,3) by (auto split: if_splits simp: fun_upd_twist)
qed simp

lemma update_first_keys_match:
  "update_first (\<lambda>r. k r = a) f xs = Some ys \<Longrightarrow> (\<And>x. k x = a \<Longrightarrow> k (f x) = a) \<Longrightarrow> map k ys = map k xs"
  by (induction xs arbitrary: ys) (auto split: if_splits)

lemma merge_student_update_first:
  "merge_student n l =
     (case update_first (\<lambda>s. stu_id s = stu_id n) (\<lambda>_. n) l of Some l' \<Rightarrow> l' | None \<Rightarrow> l @ [n])"
  by (cases "findIndex (\<lambda>s. stu_id s = stu_id n) l")
     (simp_all del: findIndex_None_iff add: merge_student_def update_first_findIndex)

lemma front_map_merge_student:
  "map_of (map (\<lambda>s. (stu_id s, enc s)) (merge_student n l)) = (map_of (map (\<lambda>s. (stu_id s, enc s)) l))(stu_id n \<mapsto> enc n)"
proof (cases "update_first (\<lambda>s. stu_id s = stu_id n) (\<lambda>_. n) l")
  case None
  then have "map_of (map (\<lambda>s. (stu_id s, enc s)) l) (stu_id n) = None"
    by (auto simp: update_first_None map_of_eq_None_iff)
  then show ?thesis
    using None by (auto simp: merge_student_update_first map_add_def fun_eq_iff split: option.splits)
next
  case (Some l')
  then show ?thesis
    by (simp add: merge_student_update_first update_first_map_of_match [OF Some])
qed

lemma distinct_merge_student:
  "distinct (map stu_id l) \<Longrightarrow> distinct (map stu_id (merge_student n l))"
proof (cases "update_first (\<lambda>s. stu_id s = stu_id n) (\<lambda>_. n) l")
  case None
  have "\<forall>x\<in>set l. stu_id x \<noteq> stu_id n" using None by (simp add: update_first_None)
  then show "distinct (map stu_id l) \<Longrightarrow> ?thesis"
    using None by (auto simp: merge_student_update_first)
next
  case (Some l')
  then show "distinct (map stu_id l) \<Longrightarrow> ?thesis"
    using update_first_keys_match [OF Some] by (simp add: merge_student_update_first)
qed

lemma front_map_mergeStudents:
  "front_map enc (mergeStudents l news) = fold (\<lambda>n m. m(stu_id n \<mapsto> enc n)) news (front_map enc l)"
  unfolding mergeStudents_def front_map_def
  by (induction news arbitrary: l) (simp_all add: front_map_merge_student)

lemma distinct_mergeStudents:
  "distinct (map stu_id l) \<Longrightarrow> distinct (map stu_id (mergeStudents l news))"
  unfolding mergeStudents_def
  by (induction news arbitrary: l) (simp_all add: distinct_merge_student)

lemma map_of_fold_upsert_student:
  "map_of (map (\<lambda>r. (stu_key r, s_data r)) (fold (\<lambda>st rows. upsert_student (trim cid) st now rows) sts rs)) =
   fold (\<lambda>st m. m((trim cid, trim (ss_id st)) \<mapsto> ss_json st)) sts (map_of (map (\<lambda>r. (stu_key r, s_data r)) rs))"
proof (induction sts arbitrary: rs)
  case (Cons st sts)
  have "map_of (map (\<lambda>r. (stu_key r, s_data r)) (upsert_student (trim cid) st now rs)) =
        (map_of (map (\<lambda>r. (stu_key r, s_data r)) rs))((trim cid, trim (ss_id st)) \<mapsto> ss_json st)"
    unfolding upsert_student_def by (rule upsert_map_of) (simp_all add: stu_key_def new_stu_row_def)
  then show ?case using Cons.IH by simp
qed simp

lemma fold_upd_pair:
  "fold (\<lambda>n m. m((c, k n) \<mapsto> v n)) xs M (c, sid) = fold (\<lambda>n m. m(k n \<mapsto> v n)) xs (\<lambda>s. M (c, s)) sid"
  by (induction xs arbitrary: M) (simp_all add: fun_upd_def)

lemma fst_saveStudents: "fst (saveStudents cid sts now db) = SuccessCount (length sts)"
  by (simp add: saveStudents_def setup_db_def Let_def split: option.splits prod.splits)

lemma back_map_saveStudents:
  assumes "db_inv db" and "distinct (map (\<lambda>st. trim (ss_id st)) sts)" and "trim cid = cid"
  shows "back_map cid (snd (saveStudents cid sts now db)) =
           fold (\<lambda>st m. m(trim (ss_id st) \<mapsto> ss_json st)) sts (back_map cid db)"
proof -
  define db' where "db' = (if db_students db = None then setup_db db else db)"
  have m: "students_map db' = students_map db" by (simp add: db'_def)
  obtain rs where rs: "db_students db' = Some rs"
    by (cases "db_students db") (auto simp: db'_def setup_db_def)
  have "students_map (snd (saveStudents cid sts now db)) =
          fold (\<lambda>st m. m((trim cid, trim (ss_id st)) \<mapsto> ss_json st)) sts (students_map db')"
    using saveStudents_fold_upserts [OF assms(1,2) db'_def] rs
    by (simp add: students_map_def map_of_fold_upsert_student sheet_rows_def)
  then show ?thesis
    using m assms(3) by (simp add: back_map_def fun_eq_iff fold_upd_pair [where k = "\<lambda>st. trim (ss_id st)"])
qed

lemma after_save_fields [simp]:
  "d_students (fst (after_save user a t lid now dw)) = d_students (fst dw)"
  "w_db (snd (after_save user a t lid now dw)) = w_db (snd dw)"
  by (simp_all add: after_save_def split: prod.splits)

lemma apiSaveStudents_web_app:
  assumes "api_configured cfg"
  shows "apiSaveStudents (web_app parse parse_obj parse_plans tnow) cfg cid sts db =
           (Inr (), snd (saveStudents cid sts tnow db))"
proof -
  obtain db' where sv: "saveStudents cid sts tnow db = (SuccessCount (length sts), db')"
    using fst_saveStudents by (metis prod.collapse)
  have h: "handleRequest parse parse_obj parse_plans tnow
          \<lparr>q_action = Some ''saveStudents'', q_classroomId = c,
           q_body = Some ((empty_body\<lparr>b_classroomId := Some cid, b_students := Some sts\<rparr>)\<lparr>b_action := Some ''saveStudents''\<rparr>)\<rparr> db =
        (Reply (SuccessCount (length sts)), db')" for c
    using sv by (simp add: handleRequest_def Let_def resolve_action_url js_String_def)
  show ?thesis
    using void_call_web_app [OF assms _ _ h] sv by (simp add: apiSaveStudents_def)
qed

subsection \<open>Properties of the dashboard\<close>

text \<open>
  C37.  Adding students on the dashboard keeps the screen and the
  spreadsheet in step: if before the call the list on the screen holds
  exactly the classroom's students of the sheet (by id and JSON), ids are
  trimmed, the new students carry distinct ids, and the client is configured,
  then after \<open>handleAddStudents\<close> posts them to the web app the merged list on
  the screen is again exactly what the sheet holds for the classroom.
\<close>

theorem handleAddStudents_in_sync:
  assumes cfg: "api_configured (getConfig (w_ls w))" and inv: "db_inv (w_db w)"
    and viewer: "\<not> isViewer user" and cid: "trim (cl_id cl) = cl_id cl"
    and trimmed: "\<forall>s\<in>set news. trim (stu_id s) = stu_id s" and ids: "distinct (map stu_id news)"
    and sync: "in_sync enc (cl_id cl) (d_students d) (w_db w)"
  shows "in_sync enc (cl_id cl)
           (d_students (fst (handleAddStudents enc (web_app parse parse_obj parse_plans tnow) user cl lid now news (d, w))))
           (w_db (snd (handleAddStudents enc (web_app parse parse_obj parse_plans tnow) user cl lid now news (d, w))))"
proof -
  let ?sts = "map (to_saved enc) news"
  have tr: "map (\<lambda>st. trim (ss_id st)) ?sts = map stu_id news"
    using trimmed by (simp add: to_saved_def)
  have "distinct (map (\<lambda>st. trim (ss_id st)) ?sts)" using ids by (simp only: tr)
  then have bk: "back_map (cl_id cl) (snd (saveStudents (cl_id cl) ?sts tnow (w_db w))) =
      fold (\<lambda>st m. m(trim (ss_id st) \<mapsto> ss_json st)) ?sts (back_map (cl_id cl) (w_db w))"
    by (rule back_map_saveStudents [OF inv _ cid])
  have "fold (\<lambda>st m. m(trim (ss_id st) \<mapsto> ss_json st)) ?sts M = fold (\<lambda>n m. m(stu_id n \<mapsto> enc n)) news M" for M
    using trimmed unfolding fold_map to_saved_def comp_def by (intro fold_cong) auto
  then have "front_map enc (mergeStudents (d_students d) news) =
             back_map (cl_id cl) (snd (saveStudents (cl_id cl) ?sts tnow (w_db w)))"
    using sync bk by (simp add: in_sync_def front_map_mergeStudents)
  moreover have "distinct (map stu_id (mergeStudents (d_students d) news))"
    using sync distinct_mergeStudents by (simp add: in_sync_def)
  ultimately show ?thesis
    using viewer apiSaveStudents_web_app [OF cfg, of parse parse_obj parse_plans tnow "cl_id cl" ?sts "w_db w"]
    by (simp add: handleAddStudents_def in_sync_def)
qed

end
