(* ===== verification/Views.thy ===== *)
theory Views
  imports Dashboard "HOL-Library.Sublist"
begin

text \<open>
  Two views of the front end.  The top-level screen switch of
  \<open>src/App.tsx\<close>: which screen is shown, who is signed in, which classroom
  is open, and the logout dialog, as a state machine whose events are the
  callbacks the rendered screen offers.  The student table of
  \<open>src/components/StudentList.tsx\<close>: the filters, the search, the sort and
  the pagination of the ranked students, and the page state that the filters
  reset.
\<close>

subsection \<open>The screen switch of \<open>App\<close>\<close>

datatype view_state = LANDING | CLASSROOMS | SYSTEM_ADMIN | DASHBOARD

record app_state =
  a_user :: "admin_user option"
  a_view :: view_state
  a_selected :: "classroom_view option"
  a_showLogout :: bool
  a_store :: local_store

text \<open>The lazy initial state: both the user and the screen come from the
  stored session.\<close>

definition app_init :: "local_store \<Rightarrow> app_state" where
  "app_init ls =
     \<lparr>a_user = getSession ls, a_view = (if getSession ls \<noteq> None then CLASSROOMS else LANDING),
      a_selected = None, a_showLogout = False, a_store = ls\<rparr>"

text \<open>
  The callbacks: \<open>onLoginSuccess\<close> of the landing page, \<open>onSelect\<close>,
  \<open>onOpenSystemAdmin\<close> and \<open>onLogout\<close> of the classroom list, \<open>onBack\<close> of
  the admin page and of the dashboard, \<open>onLogout\<close> of the dashboard, and the
  two buttons (and the backdrop) of the logout dialog.
\<close>

datatype app_event =
    LoginSuccess admin_user
  | SelectClassroom classroom_view
  | OpenSystemAdmin
  | AdminBack
  | DashboardBack
  | LogoutRequest
  | CancelLogout
  | ConfirmLogout

text \<open>A screen is rendered when \<open>view\<close> names it (the dashboard also needs a
  selected classroom); an event is possible only while the screen that owns
  its callback is rendered.  The logout dialog is a full-screen overlay
  (\<open>fixed inset-0\<close>), so while it is open only its own buttons and its
  backdrop receive clicks.\<close>

definition dashboard_shown :: "app_state \<Rightarrow> bool" where
  "dashboard_shown s \<longleftrightarrow> a_view s = DASHBOARD \<and> a_selected s \<noteq> None"

definition screen_on :: "view_state \<Rightarrow> app_state \<Rightarrow> bool" where
  "screen_on v s \<longleftrightarrow> \<not> a_showLogout s \<and> a_view s = v"

fun app_step :: "app_event \<Rightarrow> app_state \<Rightarrow> app_state option" where
  "app_step (LoginSuccess u) s =
     (if screen_on LANDING s then Some (s\<lparr>a_user := Some u, a_view := CLASSROOMS\<rparr>) else None)"
| "app_step (SelectClassroom c) s =
     (if screen_on CLASSROOMS s then Some (s\<lparr>a_selected := Some c, a_view := DASHBOARD\<rparr>) else None)"
| "app_step OpenSystemAdmin s =
     (if screen_on CLASSROOMS s then Some (s\<lparr>a_view := SYSTEM_ADMIN\<rparr>) else None)"
| "app_step AdminBack s =
     (if screen_on SYSTEM_ADMIN s then Some (s\<lparr>a_view := CLASSROOMS\<rparr>) else None)"
| "app_step DashboardBack s =
     (if \<not> a_showLogout s \<and> dashboard_shown s then Some (s\<lparr>a_view := CLASSROOMS, a_selected := None\<rparr>) else None)"
| "app_step LogoutRequest s =
     (if screen_on CLASSROOMS s \<or> \<not> a_showLogout s \<and> dashboard_shown s then Some (s\<lparr>a_showLogout := True\<rparr>) else None)"
| "app_step CancelLogout s =
     (if a_showLogout s then Some (s\<lparr>a_showLogout := False\<rparr>) else None)"
| "app_step ConfirmLogout s =
     (if a_showLogout s
      then Some (s\<lparr>a_store := clearSession (a_store s), a_view := LANDING, a_selected := None,
                   a_user := None, a_showLogout := False\<rparr>)
      else None)"

text \<open>A sequence of callbacks, each enabled in the state the previous one left.\<close>

fun app_run :: "app_event list \<Rightarrow> app_state \<Rightarrow> app_state option" where
  "app_run [] s = Some s"
| "app_run (e # es) s = (case app_step e s of None \<Rightarrow> None | Some t \<Rightarrow> app_run es t)"

inductive app_reachable :: "local_store \<Rightarrow> app_state \<Rightarrow> bool" for ls where
  init: "app_reachable ls (app_init ls)"
| step: "app_reachable ls s \<Longrightarrow> app_step e s = Some t \<Longrightarrow> app_reachable ls t"

text \<open>The invariant of the screen switch: the landing page is shown exactly
  when nobody is signed in, and then no session is stored; the dashboard
  view always has its classroom; the logout dialog opens only over the
  classroom list or the dashboard.  (The session the landing page may store
  belongs to \<open>LandingPage\<close>, which is not in the repository; the store
  changes here only by \<open>App\<close>'s own \<open>clearSession\<close>.)\<close>

definition app_inv :: "app_state \<Rightarrow> bool" where
  "app_inv s \<longleftrightarrow>
     (a_view s = LANDING \<longleftrightarrow> a_user s = None) \<and>
     (a_view s = LANDING \<longrightarrow> getSession (a_store s) = None) \<and>
     (a_view s = DASHBOARD \<longrightarrow> a_selected s \<noteq> None) \<and>
     (a_showLogout s \<longrightarrow> a_view s = CLASSROOMS \<or> a_view s = DASHBOARD)"

subsection \<open>The student table\<close>

definition ITEMS_PER_PAGE :: nat where
  "ITEMS_PER_PAGE = 100"

text \<open>\<open>toLowerCase\<close> of the ASCII letters.\<close>

definition js_lower :: "jsstr \<Rightarrow> jsstr" where
  "js_lower s = map (\<lambda>c. if 65 \<le> (of_char c :: nat) \<and> (of_char c :: nat) \<le> 90 then char_of (of_char c + 32 :: nat) else c) s"

text \<open>\<open>a.scores[sortSubject] || 0\<close> on the five fields of the scores.\<close>

definition score_of :: "exam_scores \<Rightarrow> jsstr \<Rightarrow> int" where
  "score_of sc k =
     (if k = ''math'' then math sc else if k = ''science'' then science sc
      else if k = ''thai'' then thai sc else if k = ''english'' then english sc
      else if k = ''social'' then social sc else 0)"

record list_state =
  filterStream :: jsstr
  filterPreferred :: jsstr
  searchTerm :: jsstr
  sortSubject :: jsstr
  sortDirection :: jsstr
  currentPage :: nat

definition list_init :: list_state where
  "list_init =
     \<lparr>filterStream = ''ALL'', filterPreferred = ''ALL'', searchTerm = [], sortSubject = ''TOTAL'',
      sortDirection = ''DESC'', currentPage = 1\<rparr>"

definition matches :: "list_state \<Rightarrow> ranked_student \<Rightarrow> bool" where
  "matches f s \<longleftrightarrow>
     (filterStream f = ''ALL'' \<or> qualifiedStream s = Some (filterStream f)) \<and>
     (filterPreferred f = ''ALL'' \<or> (preferredStreams s \<noteq> [] \<and> hd (preferredStreams s) = filterPreferred f)) \<and>
     (sublist (js_lower (searchTerm f)) (js_lower (firstName s)) \<or>
      sublist (js_lower (searchTerm f)) (js_lower (lastName s)) \<or>
      sublist (js_lower (searchTerm f)) (js_lower (stu_id s)))"

text \<open>\<open>filteredStudents\<close>: the filter, then the stable sort by the chosen
  subject or by rank, in the chosen direction.\<close>

definition filteredStudents :: "list_state \<Rightarrow> ranked_student list \<Rightarrow> ranked_student list" where
  "filteredStudents f students =
     (let result = filter (matches f) students;
          isDesc = (sortDirection f = ''DESC'')
      in if sortSubject f \<noteq> ''TOTAL'' then
           array_sort (\<lambda>a b. let sa = score_of (scores a) (sortSubject f); sb = score_of (scores b) (sortSubject f)
                             in if isDesc then sb - sa else sa - sb) result
         else if isDesc then array_sort (\<lambda>a b. int (rank a) - int (rank b)) result
         else array_sort (\<lambda>a b. int (rank b) - int (rank a)) result)"

text \<open>\<open>Math.ceil(length / ITEMS_PER_PAGE)\<close>.\<close>

definition totalPages :: "nat \<Rightarrow> nat" where
  "totalPages n = (n + ITEMS_PER_PAGE - 1) div ITEMS_PER_PAGE"

definition paginate :: "'a list \<Rightarrow> nat \<Rightarrow> 'a list" where
  "paginate xs page = take ITEMS_PER_PAGE (drop ((page - 1) * ITEMS_PER_PAGE) xs)"

text \<open>The table and its page buttons as rendered: the rows of the current page,
  and the controls only when there is more than one page.\<close>

definition shown_rows :: "list_state \<Rightarrow> ranked_student list \<Rightarrow> ranked_student list" where
  "shown_rows f students = paginate (filteredStudents f students) (currentPage f)"

definition controls_shown :: "list_state \<Rightarrow> ranked_student list \<Rightarrow> bool" where
  "controls_shown f students \<longleftrightarrow> 1 < totalPages (length (filteredStudents f students))"

text \<open>
  The events of the table: a change of a filter, the search or the sort
  (each resets the page, the \<open>useEffect\<close>), \<open>goToPage\<close> (ignored outside
  \<open>1..totalPages\<close>), and a new \<open>students\<close> prop, which is not among the
  effect's dependencies and so keeps the page.
\<close>

datatype list_event =
    SetFilterStream jsstr
  | SetFilterPreferred jsstr
  | SetSearch jsstr
  | SetSortSubject jsstr
  | SetSortDirection jsstr
  | GoToPage nat
  | NewStudents "ranked_student list"

fun list_step :: "list_event \<Rightarrow> list_state \<times> ranked_student list \<Rightarrow> list_state \<times> ranked_student list" where
  "list_step (SetFilterStream v) (f, xs) = (f\<lparr>filterStream := v, currentPage := 1\<rparr>, xs)"
| "list_step (SetFilterPreferred v) (f, xs) = (f\<lparr>filterPreferred := v, currentPage := 1\<rparr>, xs)"
| "list_step (SetSearch v) (f, xs) = (f\<lparr>searchTerm := v, currentPage := 1\<rparr>, xs)"
| "list_step (SetSortSubject v) (f, xs) = (f\<lparr>sortSubject := v, currentPage := 1\<rparr>, xs)"
| "list_step (SetSortDirection v) (f, xs) = (f\<lparr>sortDirection := v, currentPage := 1\<rparr>, xs)"
| "list_step (GoToPage p) (f, xs) =
     (if 1 \<le> p \<and> p \<le> totalPages (length (filteredStudents f xs)) then (f\<lparr>currentPage := p\<rparr>, xs) else (f, xs))"
| "list_step (NewStudents ys) (f, xs) = (f, ys)"


lemma app_inv_init: "app_inv (app_init ls)"
  by (simp add: app_inv_def app_init_def)

lemma app_inv_step:
  assumes "app_inv s" "app_step e s = Some t"
  shows "app_inv t"
  using assms
  by (cases e) (auto simp: app_inv_def screen_on_def dashboard_shown_def clearSession_def getSession_def
                    split: if_splits)

text \<open>
  C38.  Screen-switch invariant: in every state the callbacks of \<open>App\<close> can
  reach from the stored session, the landing page is shown exactly when nobody
  is signed in (and then no session is stored), the dashboard view has a
  selected classroom, and the logout dialog is open only over the classroom
  list or the dashboard.
\<close>

theorem app_reachable_inv: "app_reachable ls s \<Longrightarrow> app_inv s"
proof (induction rule: app_reachable.induct)
  case init
  then show ?case by (rule app_inv_init)
next
  case (step s e t)
  then show ?case by (blast intro: app_inv_step)
qed

text \<open>
  C39.  Sign-out is always possible: from every state satisfying the
  invariant, at most three enabled callbacks (back from the admin page, the
  logout button, the confirmation) lead to the landing page with nobody
  signed in and no stored session.
\<close>

theorem app_signout:
  assumes "app_inv s"
  shows "\<exists>es t. length es \<le> 3 \<and> app_run es s = Some t \<and>
           a_view t = LANDING \<and> a_user t = None \<and> getSession (a_store t) = None"
proof -
  note inv = assms
  show ?thesis
  proof (cases "a_showLogout s")
    case True
    then show ?thesis
      by (intro exI [of _ "[ConfirmLogout]"]) (simp add: getSession_def clearSession_def)
  next
    case off: False
    show ?thesis
    proof (cases "a_view s")
      case LANDING
      then show ?thesis using inv by (intro exI [of _ "[]"]) (simp add: app_inv_def)
    next
      case CLASSROOMS
      then show ?thesis using off
        by (intro exI [of _ "[LogoutRequest, ConfirmLogout]"])
           (simp add: screen_on_def getSession_def clearSession_def)
    next
      case SYSTEM_ADMIN
      then show ?thesis using off
        by (intro exI [of _ "[AdminBack, LogoutRequest, ConfirmLogout]"])
           (simp add: screen_on_def getSession_def clearSession_def)
    next
      case DASHBOARD
      then show ?thesis using off inv
        by (intro exI [of _ "[LogoutRequest, ConfirmLogout]"])
           (simp add: app_inv_def screen_on_def dashboard_shown_def getSession_def clearSession_def)
    qed
  qed
qed

lemma mset_array_sort_insert: "mset (array_sort_insert cmp x ys) = add_mset x (mset ys)"
  by (induction ys) auto

lemma mset_array_sort: "mset (array_sort cmp xs) = mset xs"
  by (induction xs) (simp_all add: mset_array_sort_insert)

lemma mset_filteredStudents: "mset (filteredStudents f xs) = mset (filter (matches f) xs)"
  by (simp add: filteredStudents_def Let_def mset_array_sort)

lemma length_filteredStudents: "length (filteredStudents f xs) = length (filter (matches f) xs)"
  by (metis mset_filteredStudents size_mset)

lemma matches_currentPage [simp]: "matches (f\<lparr>currentPage := p\<rparr>) = matches f"
  by (simp add: fun_eq_iff matches_def)

lemma filteredStudents_currentPage [simp]:
  "filteredStudents (f\<lparr>currentPage := p\<rparr>) = filteredStudents f"
  by (simp add: fun_eq_iff filteredStudents_def Let_def)

lemma matches_list_init [simp]: "matches list_init s"
  by (simp add: matches_def list_init_def js_lower_def)

lemma concat_pages_take:
  "concat (map (\<lambda>i. take k (drop (i * k) xs)) [0..<n]) = take (n * k) xs"
proof (induction n)
  case 0
  then show ?case by simp
next
  case (Suc n)
  have "take (Suc n * k) xs = take (n * k) xs @ take k (drop (n * k) xs)"
    by (metis add.commute mult_Suc take_add)
  then show ?case using Suc.IH by simp
qed

lemma totalPages_covers: "n \<le> totalPages n * ITEMS_PER_PAGE"
  by (simp add: totalPages_def ITEMS_PER_PAGE_def)

lemma pages_partition:
  "concat (map (paginate xs) [1..<Suc (totalPages (length xs))]) = xs"
proof -
  have up: "[1..<Suc (totalPages (length xs))] = map Suc [0..<totalPages (length xs)]"
    by (simp add: map_Suc_upt)
  have "map (paginate xs) [1..<Suc (totalPages (length xs))] =
        map (\<lambda>i. take ITEMS_PER_PAGE (drop (i * ITEMS_PER_PAGE) xs)) [0..<totalPages (length xs)]"
    unfolding up map_map by (simp add: paginate_def comp_def)
  then show ?thesis
    using totalPages_covers [of "length xs"] by (simp add: concat_pages_take)
qed

text \<open>
  C40.  A stranded page: the page number survives a new \<open>students\<close> prop
  (the reset effect depends only on the filters and the sort).  On page 2 of
  a filtered list of more than 100 rows, a new list whose filtered rows fit
  on one page shows no row at all, and the page buttons, drawn only when
  there is more than one page, are gone, although rows match the filters.
\<close>

theorem list_page_stranded:
  assumes "ITEMS_PER_PAGE < length (filteredStudents f xs)"
    and "filteredStudents f ys \<noteq> []" and "length (filteredStudents f ys) \<le> ITEMS_PER_PAGE"
  shows "case list_step (NewStudents ys) (list_step (GoToPage 2) (f, xs)) of (g, zs) \<Rightarrow>
           currentPage g = 2 \<and> filteredStudents g zs \<noteq> [] \<and> shown_rows g zs = [] \<and> \<not> controls_shown g zs"
proof -
  have "(200::nat) div 100 \<le> (length (filteredStudents f xs) + 99) div 100"
    using assms(1) unfolding ITEMS_PER_PAGE_def by (intro div_le_mono) simp
  then have "2 \<le> totalPages (length (filteredStudents f xs))"
    by (simp add: totalPages_def ITEMS_PER_PAGE_def)
  have "(length (filteredStudents f ys) + 99) div 100 \<le> (199::nat) div 100"
    using assms(3) unfolding ITEMS_PER_PAGE_def by (intro div_le_mono) simp
  then have "totalPages (length (filteredStudents f ys)) < 2"
    by (simp add: totalPages_def ITEMS_PER_PAGE_def)
  with \<open>2 \<le> totalPages (length (filteredStudents f xs))\<close> show ?thesis
    using assms by (simp add: shown_rows_def controls_shown_def paginate_def ITEMS_PER_PAGE_def)
qed

end
