(* ===== verification/DataEntry.thy ===== *)
theory DataEntry
  imports Dashboard
begin

text \<open>
  The student forms of \<open>src/unnamed/part_002\<close>: the data-entry component
  (\<open>DataEntry\<close>: a manual form and a spreadsheet import) and the edit form
  (\<open>EditStudentForm\<close>).  Both build a JavaScript \<open>Student\<close> whose
  \<open>scores\<close> object is keyed by the configured subjects, while
  \<open>calculateTotal\<close> of \<open>src/unnamed/part_001\<close> reads five fixed keys.
  Numbers here are JavaScript numbers, \<open>NaN\<close> included; \<open>Number\<close> applied
  to a non-empty string is a parameter \<open>str_num\<close> (it gives \<open>0\<close> for white
  space), since the grammar of numeric string literals is not modelled;
  \<open>Number('')\<close> is \<open>0\<close>.
\<close>

subsection \<open>JavaScript numbers and score objects\<close>

datatype jsnum = Num int | NaN

text \<open>\<open>+\<close> on numbers: \<open>NaN\<close> absorbs.\<close>

fun js_add :: "jsnum \<Rightarrow> jsnum \<Rightarrow> jsnum" where
  "js_add (Num a) (Num b) = Num (a + b)"
| "js_add _ _ = NaN"

text \<open>\<open>x || 0\<close> on a number: \<open>0\<close> and \<open>NaN\<close> are falsy.\<close>

fun js_or_zero :: "jsnum \<Rightarrow> int" where
  "js_or_zero (Num n) = n"
| "js_or_zero NaN = 0"

text \<open>A \<open>Record<string, number>\<close>; reading an absent key in arithmetic
  gives \<open>undefined\<close>, which converts to \<open>NaN\<close>.\<close>

type_synonym score_obj = "jsstr \<rightharpoonup> jsnum"

definition score_get :: "score_obj \<Rightarrow> jsstr \<Rightarrow> jsnum" where
  "score_get m k = (case m k of None \<Rightarrow> NaN | Some v \<Rightarrow> v)"

record js_student =
  j_id :: jsstr
  j_title :: jsstr
  j_firstName :: jsstr
  j_lastName :: jsstr
  j_preferredStreams :: "jsstr list"
  j_scores :: score_obj

text \<open>\<open>calculateTotal\<close>: destructures \<open>math, science, thai, english,
  social\<close> and adds them left to right; the \<open>subjects\<close> argument is unused.\<close>

definition fixed_keys :: "jsstr list" where
  "fixed_keys = [''math'', ''science'', ''thai'', ''english'', ''social'']"

definition calculateTotal_js :: "score_obj \<Rightarrow> jsnum" where
  "calculateTotal_js m =
     js_add (js_add (js_add (js_add (score_get m ''math'') (score_get m ''science''))
       (score_get m ''thai'')) (score_get m ''english'')) (score_get m ''social'')"

text \<open>The object the typed model's \<open>exam_scores\<close> stands for, and back: a
  JavaScript student is a typed one when the five keys hold numbers.\<close>

definition scores_obj :: "exam_scores \<Rightarrow> score_obj" where
  "scores_obj sc =
     [''math'' \<mapsto> Num (math sc), ''science'' \<mapsto> Num (science sc), ''thai'' \<mapsto> Num (thai sc),
      ''english'' \<mapsto> Num (english sc), ''social'' \<mapsto> Num (social sc)]"

definition to_student :: "js_student \<Rightarrow> student option" where
  "to_student s =
     (case (score_get (j_scores s) ''math'', score_get (j_scores s) ''science'', score_get (j_scores s) ''thai'',
            score_get (j_scores s) ''english'', score_get (j_scores s) ''social'') of
        (Num m, Num sc, Num t, Num e, Num so) \<Rightarrow>
          Some \<lparr>stu_id = j_id s, title = j_title s, firstName = j_firstName s, lastName = j_lastName s,
                preferredStreams = j_preferredStreams s,
                scores = \<lparr>math = m, science = sc, thai = t, english = e, social = so\<rparr>\<rparr>
      | _ \<Rightarrow> None)"

text \<open>\<open>subjects.forEach(subj => { obj[subj.id] = f(subj) })\<close>: a later
  subject with the same id overwrites an earlier one.\<close>

definition subject_obj :: "exam_subject list \<Rightarrow> (exam_subject \<Rightarrow> 'v) \<Rightarrow> jsstr \<rightharpoonup> 'v" where
  "subject_obj subjects f = fold (\<lambda>subj m. m(sub_id subj \<mapsto> f subj)) subjects Map.empty"

subsection \<open>The manual form\<close>

text \<open>The form keeps every score as the string typed into its field.\<close>

record entry_form =
  f_id :: jsstr
  f_title :: jsstr
  f_firstName :: jsstr
  f_lastName :: jsstr
  f_streams :: "jsstr list"
  f_scores :: "jsstr \<rightharpoonup> jsstr"

text \<open>\<open>Number(scores[subj.id] || 0)\<close>: an absent or empty field is \<open>0\<close>.\<close>

definition field_number :: "(jsstr \<Rightarrow> jsnum) \<Rightarrow> jsstr option \<Rightarrow> jsnum" where
  "field_number str_num v = (case v of None \<Rightarrow> Num 0 | Some s \<Rightarrow> if s = [] then Num 0 else str_num s)"

text \<open>\<open>handleConfirm\<close> of both forms: empty preference slots are dropped and
  one score is read per configured subject.\<close>

definition form_student :: "(jsstr \<Rightarrow> jsnum) \<Rightarrow> exam_subject list \<Rightarrow> entry_form \<Rightarrow> js_student" where
  "form_student str_num subjects f =
     \<lparr>j_id = f_id f, j_title = f_title f, j_firstName = f_firstName f, j_lastName = f_lastName f,
      j_preferredStreams = filter (\<lambda>s. s \<noteq> []) (f_streams f),
      j_scores = subject_obj subjects (\<lambda>subj. field_number str_num (f_scores f (sub_id subj)))\<rparr>"

text \<open>\<open>handleConfirm\<close> of \<open>DataEntry\<close>: the students handed to
  \<open>onAddStudents\<close>, the form's one student or the imported list.\<close>

datatype entry_mode = MANUAL | BULK

definition handleConfirm ::
  "(jsstr \<Rightarrow> jsnum) \<Rightarrow> exam_subject list \<Rightarrow> entry_mode \<Rightarrow> entry_form \<Rightarrow> js_student list \<Rightarrow> js_student list" where
  "handleConfirm str_num subjects mode f imported =
     (if mode = MANUAL then [form_student str_num subjects f] else imported)"

text \<open>\<open>String(n)\<close> for a whole number.\<close>

definition show_int :: "int \<Rightarrow> jsstr" where
  "show_int i = (if i < 0 then ''-'' @ show_nat (nat (- i)) else show_nat (nat i))"

text \<open>\<open>String(student.scores[subj.id] || '')\<close>: a zero, \<open>NaN\<close> or absent
  score opens as an empty field.\<close>

definition score_field :: "score_obj \<Rightarrow> jsstr \<Rightarrow> jsstr" where
  "score_field m k = (case m k of Some (Num n) \<Rightarrow> if n = 0 then [] else show_int n | _ \<Rightarrow> [])"

text \<open>The effect of \<open>EditStudentForm\<close> that fills the form from the student:
  one field per configured subject, and the preferences copied into
  \<open>studyPlans.length\<close> slots, the rest dropped.\<close>

definition edit_init :: "nat \<Rightarrow> exam_subject list \<Rightarrow> js_student \<Rightarrow> entry_form" where
  "edit_init nplans subjects s =
     \<lparr>f_id = j_id s, f_title = j_title s, f_firstName = j_firstName s, f_lastName = j_lastName s,
      f_streams = take nplans (j_preferredStreams s) @ replicate (nplans - length (j_preferredStreams s)) [],
      f_scores = subject_obj subjects (\<lambda>subj. score_field (j_scores s) (sub_id subj))\<rparr>"

subsection \<open>Filling in the form\<close>

text \<open>The two effects of \<open>DataEntry\<close>: one score field per configured
  subject, keeping what was typed (\<open>prev[subj.id] || ''\<close>), and one empty
  preference slot per plan once the plans are known and no slot exists.\<close>

definition scores_effect :: "exam_subject list \<Rightarrow> entry_form \<Rightarrow> entry_form" where
  "scores_effect subjects f =
     f\<lparr>f_scores := subject_obj subjects (\<lambda>subj. case f_scores f (sub_id subj) of Some v \<Rightarrow> v | None \<Rightarrow> [])\<rparr>"

definition streams_effect :: "nat \<Rightarrow> entry_form \<Rightarrow> entry_form" where
  "streams_effect nplans f = (if 0 < nplans \<and> f_streams f = [] then f\<lparr>f_streams := replicate nplans []\<rparr> else f)"

text \<open>\<open>handleManualStreamChange\<close> / \<open>handleStreamChange\<close>,
  \<open>handleManualScoreChange\<close> / \<open>handleScoreChange\<close>, and the reset button
  of the preference slots.\<close>

definition handleStreamChange :: "nat \<Rightarrow> jsstr \<Rightarrow> entry_form \<Rightarrow> entry_form" where
  "handleStreamChange i v f = f\<lparr>f_streams := (f_streams f)[i := v]\<rparr>"

definition handleScoreChange :: "jsstr \<Rightarrow> jsstr \<Rightarrow> entry_form \<Rightarrow> entry_form" where
  "handleScoreChange k v f = f\<lparr>f_scores := (f_scores f)(k \<mapsto> v)\<rparr>"

definition resetStreams :: "nat \<Rightarrow> entry_form \<Rightarrow> entry_form" where
  "resetStreams nplans f = f\<lparr>f_streams := replicate nplans []\<rparr>"

text \<open>The select of slot \<open>i\<close> offers the empty choice and every plan name;
  a name chosen in another slot is \<open>disabled\<close> (\<open>isSelectedElsewhere\<close>).\<close>

definition stream_choice_ok :: "study_plan list \<Rightarrow> jsstr list \<Rightarrow> nat \<Rightarrow> jsstr \<Rightarrow> bool" where
  "stream_choice_ok plans xs i v \<longleftrightarrow>
     i < length plans \<and>
     (v = [] \<or> v \<in> set (map name plans) \<and> \<not> (\<exists>j<length xs. xs ! j = v \<and> j \<noteq> i))"

datatype form_event =
    ChangeStream nat jsstr | ChangeScore jsstr jsstr | ResetSlots
  | SetId jsstr | SetTitle jsstr | SetFirstName jsstr | SetLastName jsstr

fun form_step :: "study_plan list \<Rightarrow> exam_subject list \<Rightarrow> form_event \<Rightarrow> entry_form \<Rightarrow> entry_form option" where
  "form_step plans subjects (ChangeStream i v) f =
     (if stream_choice_ok plans (f_streams f) i v then Some (handleStreamChange i v f) else None)"
| "form_step plans subjects (ChangeScore k v) f =
     (if k \<in> set (map sub_id subjects) then Some (handleScoreChange k v f) else None)"
| "form_step plans subjects ResetSlots f = Some (resetStreams (length plans) f)"
| "form_step plans subjects (SetId v) f = Some (f\<lparr>f_id := v\<rparr>)"
| "form_step plans subjects (SetTitle v) f = Some (f\<lparr>f_title := v\<rparr>)"
| "form_step plans subjects (SetFirstName v) f = Some (f\<lparr>f_firstName := v\<rparr>)"
| "form_step plans subjects (SetLastName v) f = Some (f\<lparr>f_lastName := v\<rparr>)"

fun form_run :: "study_plan list \<Rightarrow> exam_subject list \<Rightarrow> form_event list \<Rightarrow> entry_form \<Rightarrow> entry_form option" where
  "form_run plans subjects [] f = Some f"
| "form_run plans subjects (ev # evs) f =
     (case form_step plans subjects ev f of None \<Rightarrow> None | Some g \<Rightarrow> form_run plans subjects evs g)"

text \<open>The form's invariant: the chosen (non-empty) preferences are distinct
  plan names.\<close>

definition streams_ok :: "study_plan list \<Rightarrow> jsstr list \<Rightarrow> bool" where
  "streams_ok plans xs \<longleftrightarrow>
     distinct (filter (\<lambda>v. v \<noteq> []) xs) \<and> list_all (\<lambda>v. v = [] \<or> v \<in> set (map name plans)) xs"


subsection \<open>The spreadsheet import\<close>

text \<open>An ExcelJS cell value: empty, a number, a string, or another object
  (a formula, rich text, a hyperlink), whose \<open>String\<close> is
  \<open>[object Object]\<close> and whose \<open>Number\<close> is \<open>NaN\<close>.\<close>

datatype cell = CEmpty | CNum int | CText jsstr | CObj

text \<open>\<open>getVal\<close>: \<open>val ? String(val).trim() : ''\<close>.\<close>

definition getVal :: "cell \<Rightarrow> jsstr" where
  "getVal c = (case c of CEmpty \<Rightarrow> [] | CNum n \<Rightarrow> if n = 0 then [] else show_int n
               | CText s \<Rightarrow> trim s | CObj \<Rightarrow> ''[object Object]'')"

text \<open>\<open>Number(val) || 0\<close>.\<close>

definition cell_score :: "(jsstr \<Rightarrow> jsnum) \<Rightarrow> cell \<Rightarrow> int" where
  "cell_score str_num c =
     js_or_zero (case c of CEmpty \<Rightarrow> Num 0 | CNum n \<Rightarrow> Num n
                 | CText s \<Rightarrow> if s = [] then Num 0 else str_num s | CObj \<Rightarrow> NaN)"

text \<open>The \<open>eachRow\<close> callback on a data row (columns from 1): id, title and
  names in columns 1-4, one preference column per plan from column 5, then
  one score column per subject.\<close>

definition parse_row :: "(jsstr \<Rightarrow> jsnum) \<Rightarrow> nat \<Rightarrow> exam_subject list \<Rightarrow> (nat \<Rightarrow> cell) \<Rightarrow> js_student option" where
  "parse_row str_num nplans subjects row =
     (let sid = getVal (row 1) in
      if sid = [] then None
      else Some \<lparr>j_id = sid, j_title = getVal (row 2), j_firstName = getVal (row 3), j_lastName = getVal (row 4),
                 j_preferredStreams = filter (\<lambda>v. v \<noteq> []) (map (\<lambda>i. getVal (row (5 + i))) [0..<nplans]),
                 j_scores = fold (\<lambda>(subj, i) m. m(sub_id subj \<mapsto> Num (cell_score str_num (row (5 + nplans + i)))))
                              (zip subjects [0..<length subjects]) Map.empty\<rparr>)"

definition msg_read_error :: jsstr where
  "msg_read_error = map char_of ([
      224, 185, 128, 224, 184, 129, 224, 184, 180, 224, 184, 148, 224, 184, 130, 224,
      185, 137, 224, 184, 173, 224, 184, 156, 224, 184, 180, 224, 184, 148, 224, 184,
      158, 224, 184, 165, 224, 184, 178, 224, 184, 148, 224, 185, 131, 224, 184, 153,
      224, 184, 129, 224, 184, 178, 224, 184, 163, 224, 184, 173, 224, 185, 136, 224,
      184, 178, 224, 184, 153, 224, 185, 132, 224, 184, 159, 224, 184, 165, 224, 185,
      140]::nat list)"

definition msg_no_data :: jsstr where
  "msg_no_data = map char_of ([
      224, 185, 132, 224, 184, 161, 224, 185, 136, 224, 184, 158, 224, 184, 154, 224,
      184, 130, 224, 185, 137, 224, 184, 173, 224, 184, 161, 224, 184, 185, 224, 184,
      165, 224, 185, 131, 224, 184, 153, 224, 185, 132, 224, 184, 159, 224, 184, 165,
      224, 185, 140, 32, 224, 184, 171, 224, 184, 163, 224, 184, 183, 224, 184, 173,
      224, 184, 163, 224, 184, 185, 224, 184, 155, 224, 185, 129, 224, 184, 154, 224,
      184, 154, 224, 185, 132, 224, 184, 159, 224, 184, 165, 224, 185, 140, 224, 185,
      132, 224, 184, 161, 224, 185, 136, 224, 184, 150, 224, 184, 185, 224, 184, 129,
      224, 184, 149, 224, 185, 137, 224, 184, 173, 224, 184, 135]::nat list)"

record import_state =
  importData :: "js_student list"
  importError :: "jsstr option"
  isProcessingFile :: bool

text \<open>
  \<open>handleFileUpload\<close>: no file leaves the state as it is; otherwise
  \<open>None\<close> when the workbook fails to load or has no first worksheet (both
  throw inside the \<open>try\<close>, and the \<open>catch\<close> replaces the message by the
  generic one), or the rows of the first worksheet with their row numbers,
  of which the header row 1 is skipped.
\<close>

definition handleFileUpload ::
  "(jsstr \<Rightarrow> jsnum) \<Rightarrow> nat \<Rightarrow> exam_subject list \<Rightarrow> (nat \<times> (nat \<Rightarrow> cell)) list option option \<Rightarrow>
   import_state \<Rightarrow> import_state" where
  "handleFileUpload str_num nplans subjects file st =
     (case file of
        None \<Rightarrow> st
      | Some None \<Rightarrow> \<lparr>importData = [], importError = Some msg_read_error, isProcessingFile = False\<rparr>
      | Some (Some rows) \<Rightarrow>
          (let parsed = List.map_filter (\<lambda>(n, row). if n = 1 then None else parse_row str_num nplans subjects row) rows
           in if parsed = [] then \<lparr>importData = [], importError = Some msg_no_data, isProcessingFile = False\<rparr>
              else \<lparr>importData = parsed, importError = None, isProcessingFile = False\<rparr>))"


subsection \<open>Well-typed students\<close>

text \<open>What the \<open>Student\<close> type promises of a form's result: an id, non-empty
  preference names, at most one per plan, and a number under every
  configured subject.\<close>

definition wt_student :: "nat \<Rightarrow> exam_subject list \<Rightarrow> js_student \<Rightarrow> bool" where
  "wt_student nplans subjects s \<longleftrightarrow>
     j_id s \<noteq> [] \<and> list_all (\<lambda>v. v \<noteq> []) (j_preferredStreams s) \<and> length (j_preferredStreams s) \<le> nplans \<and>
     list_all (\<lambda>subj. case j_scores s (sub_id subj) of Some (Num _) \<Rightarrow> True | _ \<Rightarrow> False) subjects"

lemma js_add_Num_iff: "js_add a b = Num n \<longleftrightarrow> (\<exists>x y. a = Num x \<and> b = Num y \<and> n = x + y)"
  by (cases a; cases b) auto

lemma js_add_NaN [simp]: "js_add NaN b = NaN" "js_add a NaN = NaN"
  by (cases a; simp)+

lemma calculateTotal_js_scores_obj:
  "calculateTotal_js (scores_obj (scores s)) = Num (calculateTotal s)"
  by (simp add: calculateTotal_js_def scores_obj_def score_get_def calculateTotal_def Let_def)

lemma to_student_total:
  assumes "to_student s = Some t"
  shows "calculateTotal_js (j_scores s) = Num (calculateTotal t)"
  using assms
  by (auto simp: to_student_def calculateTotal_js_def calculateTotal_def split: jsnum.splits)

lemma calculateTotal_js_missing:
  assumes "k \<in> set fixed_keys" "j_scores s k = None"
  shows "calculateTotal_js (j_scores s) = NaN"
  using assms by (auto simp: fixed_keys_def calculateTotal_js_def score_get_def)

lemma subject_obj_key:
  "subject_obj subjects (\<lambda>subj. g (sub_id subj)) k = (if k \<in> sub_id ` set subjects then Some (g k) else None)"
  unfolding subject_obj_def by (simp add: fold_map_upd_key)

lemma dom_subject_obj: "dom (subject_obj subjects f) = sub_id ` set subjects"
  unfolding subject_obj_def by (simp add: fold_map_upd_dom)

lemma dom_form_student: "dom (j_scores (form_student str_num subjects f)) = sub_id ` set subjects"
  by (simp add: form_student_def dom_subject_obj)

lemma dom_fold_subject_pairs:
  "dom (fold (\<lambda>(subj, i) m. m(sub_id subj \<mapsto> v subj i)) ps m) = dom m \<union> sub_id ` fst ` set ps"
  by (induction ps arbitrary: m) auto

lemma dom_parse_row:
  assumes "parse_row str_num nplans subjects row = Some s"
  shows "dom (j_scores s) = sub_id ` set subjects"
proof -
  have z: "fst ` set (zip subjects [0..<length subjects]) = set subjects"
    by (metis diff_zero length_upt map_fst_zip set_map)
  have "j_scores s = fold (\<lambda>(subj, i) m. m(sub_id subj \<mapsto> Num (cell_score str_num (row (5 + nplans + i)))))
                       (zip subjects [0..<length subjects]) Map.empty"
    using assms by (auto simp: parse_row_def Let_def split: if_splits)
  then show ?thesis by (simp add: dom_fold_subject_pairs z)
qed

lemma importData_parse_row:
  assumes "s \<in> set (importData (handleFileUpload str_num nplans subjects (Some sheet) st))"
  shows "\<exists>row. parse_row str_num nplans subjects row = Some s"
  using assms
  by (auto simp: handleFileUpload_def Let_def set_map_filter split: option.splits if_splits)

lemma show_nat_ne [simp]: "show_nat n \<noteq> []"
  by (subst show_nat.simps) (simp del: show_nat.simps)

lemma show_int_ne [simp]: "show_int i \<noteq> []"
  by (simp add: show_int_def del: show_nat.simps)

lemma field_number_score_field:
  assumes "\<forall>n. m k = Some (Num n) \<longrightarrow> n \<noteq> 0 \<longrightarrow> str_num (show_int n) = Num n"
  shows "field_number str_num (Some (score_field m k)) = Num (case m k of Some (Num n) \<Rightarrow> n | _ \<Rightarrow> 0)"
  using assms
  by (auto simp: field_number_def score_field_def split: option.splits jsnum.splits)

text \<open>
  C14.  Editing round trip: opening a student in \<open>EditStudentForm\<close> and
  confirming without a change gives back the student with its preferences cut
  to the number of plans (empty ones dropped) and its scores reduced to the
  configured subjects, a zero, \<open>NaN\<close> or absent score becoming \<open>0\<close>;
  every score under a key that is not a configured subject is lost.  This
  holds for every \<open>Number\<close> that reads back the whole numbers it prints.
\<close>

theorem edit_confirm_roundtrip:
  assumes "\<forall>k n. j_scores s k = Some (Num n) \<longrightarrow> n \<noteq> 0 \<longrightarrow> str_num (show_int n) = Num n"
  shows "form_student str_num subjects (edit_init nplans subjects s) =
           s\<lparr>j_preferredStreams := filter (\<lambda>v. v \<noteq> []) (take nplans (j_preferredStreams s)),
             j_scores := (\<lambda>k. if k \<in> sub_id ` set subjects
                              then Some (Num (case j_scores s k of Some (Num n) \<Rightarrow> n | _ \<Rightarrow> 0)) else None)\<rparr>"
proof -
  let ?S = "sub_id ` set subjects"
  let ?fields = "subject_obj subjects (\<lambda>subj. score_field (j_scores s) (sub_id subj))"
  have outer: "subject_obj subjects (\<lambda>subj. field_number str_num (?fields (sub_id subj))) k =
               (if k \<in> ?S then Some (field_number str_num (?fields k)) else None)" for k
    by (rule subject_obj_key)
  have inner: "k \<in> ?S \<Longrightarrow> ?fields k = Some (score_field (j_scores s) k)" for k
    by (simp add: subject_obj_key)
  have "subject_obj subjects (\<lambda>subj. field_number str_num (?fields (sub_id subj))) =
        (\<lambda>k. if k \<in> ?S then Some (Num (case j_scores s k of Some (Num n) \<Rightarrow> n | _ \<Rightarrow> 0)) else None)"
  proof
    fix k
    show "subject_obj subjects (\<lambda>subj. field_number str_num (?fields (sub_id subj))) k =
          (if k \<in> ?S then Some (Num (case j_scores s k of Some (Num n) \<Rightarrow> n | _ \<Rightarrow> 0)) else None)"
      unfolding outer using assms by (simp add: inner field_number_score_field)
  qed
  then show ?thesis
    by (simp add: form_student_def edit_init_def)
qed

lemma form_student_total_NaN:
  assumes "k \<in> set fixed_keys" "k \<notin> sub_id ` set subjects"
  shows "calculateTotal_js (j_scores (form_student str_num subjects f)) = NaN"
proof -
  have "k \<notin> dom (j_scores (form_student str_num subjects f))"
    using assms(2) by (simp add: dom_form_student)
  then show ?thesis
    by (intro calculateTotal_js_missing [OF assms(1)]) (simp add: domIff)
qed

lemma import_total_NaN:
  assumes "k \<in> set fixed_keys" "k \<notin> sub_id ` set subjects"
    and "s \<in> set (importData (handleFileUpload str_num nplans subjects (Some sheet) st))"
  shows "calculateTotal_js (j_scores s) = NaN"
proof -
  obtain row where "parse_row str_num nplans subjects row = Some s"
    using importData_parse_row [OF assms(3)] by blast
  then have "dom (j_scores s) = sub_id ` set subjects" by (rule dom_parse_row)
  then have "k \<notin> dom (j_scores s)" using assms(2) by simp
  then show ?thesis
    by (intro calculateTotal_js_missing [OF assms(1)]) (simp add: domIff)
qed

text \<open>
  C16.  The entered total is \<open>NaN\<close>: when one of the five keys that
  \<open>calculateTotal\<close> reads is not a configured subject, every student that
  \<open>handleConfirm\<close> hands on, from the manual form or from a spreadsheet
  import, has the total \<open>NaN\<close>, whereas the specification sums the
  configured subjects.
\<close>

theorem entry_total_NaN:
  assumes "k \<in> set fixed_keys" "k \<notin> sub_id ` set subjects"
  shows "\<forall>s \<in> set (handleConfirm str_num subjects mode f
                      (importData (handleFileUpload str_num nplans subjects (Some sheet) st))).
           calculateTotal_js (j_scores s) = NaN"
  using form_student_total_NaN [OF assms] import_total_NaN [OF assms]
  by (simp add: handleConfirm_def)

lemma fold_subject_pairs_Num:
  "fold (\<lambda>(subj, i) m. m(sub_id subj \<mapsto> Num (v subj i))) ps m k = Some x \<Longrightarrow>
   (\<exists>n. x = Num n) \<or> m k = Some x"
proof (induction ps arbitrary: m)
  case Nil
  then show ?case by simp
next
  case (Cons p ps)
  obtain a b where p: "p = (a, b)" by (cases p)
  show ?case
    using Cons.IH [of "m(sub_id a \<mapsto> Num (v a b))"] Cons.prems p by (auto split: if_splits)
qed

lemma parse_row_fields:
  assumes "parse_row str_num nplans subjects row = Some s"
  shows "j_id s \<noteq> []"
    and "j_preferredStreams s = filter (\<lambda>v. v \<noteq> []) (map (\<lambda>i. getVal (row (5 + i))) [0..<nplans])"
    and "j_scores s = fold (\<lambda>(subj, i) m. m(sub_id subj \<mapsto> Num (cell_score str_num (row (5 + nplans + i)))))
                       (zip subjects [0..<length subjects]) Map.empty"
  using assms by (auto simp: parse_row_def Let_def split: if_splits)

lemma parse_row_wt:
  assumes "parse_row str_num nplans subjects row = Some s"
  shows "wt_student nplans subjects s"
proof -
  have dom: "dom (j_scores s) = sub_id ` set subjects" by (rule dom_parse_row [OF assms])
  note f = parse_row_fields [OF assms]
  have num: "case j_scores s (sub_id subj) of Some (Num _) \<Rightarrow> True | _ \<Rightarrow> False" if "subj \<in> set subjects" for subj
  proof -
    have "sub_id subj \<in> dom (j_scores s)" using that unfolding dom by (rule imageI)
    then obtain x where x: "j_scores s (sub_id subj) = Some x" by auto
    have "(\<exists>n. x = Num n) \<or> Map.empty (sub_id subj) = Some x"
      by (rule fold_subject_pairs_Num) (use x f(3) in simp)
    then obtain n where "x = Num n" by auto
    then show ?thesis using x by simp
  qed
  have len: "length (j_preferredStreams s) \<le> nplans"
    unfolding f(2) by (rule order_trans [OF length_filter_le]) simp
  show ?thesis
    unfolding wt_student_def list_all_iff using f(1) len num by (simp add: f(2))
qed

text \<open>
  C12.  The import produces well-typed students: every student that
  \<open>handleFileUpload\<close> stores has a non-empty id, non-empty preferences, at
  most one per plan, and a number (never \<open>NaN\<close>, by \<open>|| 0\<close>) under
  exactly the configured subjects' ids.  The manual form has no such
  guarantee: a field \<open>Number\<close> cannot read gives \<open>NaN\<close>.
\<close>

theorem import_well_typed:
  "\<forall>s \<in> set (importData (handleFileUpload str_num nplans subjects (Some sheet) st)).
     wt_student nplans subjects s \<and> dom (j_scores s) = sub_id ` set subjects"
proof
  fix s
  assume "s \<in> set (importData (handleFileUpload str_num nplans subjects (Some sheet) st))"
  then obtain row where r: "parse_row str_num nplans subjects row = Some s"
    using importData_parse_row by blast
  show "wt_student nplans subjects s \<and> dom (j_scores s) = sub_id ` set subjects"
    using parse_row_wt [OF r] dom_parse_row [OF r] by simp
qed

lemma form_not_well_typed:
  "\<not> wt_student 0 [\<lparr>sub_id = ''math'', sub_name = [], maxScore = 100\<rparr>]
     (form_student (\<lambda>_. NaN) [\<lparr>sub_id = ''math'', sub_name = [], maxScore = 100\<rparr>]
       \<lparr>f_id = ''s1'', f_title = [], f_firstName = [], f_lastName = [], f_streams = [],
        f_scores = [''math'' \<mapsto> ''abc'']\<rparr>)"
  by (simp add: wt_student_def form_student_def subject_obj_def field_number_def)


subsection \<open>The form submits distinct plan names\<close>

lemma distinct_filter_update:
  assumes "distinct (filter P xs)" "P v \<Longrightarrow> \<forall>j<length xs. j \<noteq> i \<longrightarrow> xs ! j \<noteq> v"
  shows "distinct (filter P (xs[i := v]))"
  using assms
proof (induction xs arbitrary: i)
  case Nil
  then show ?case by simp
next
  case (Cons x xs)
  show ?case
  proof (cases i)
    case 0
    have nv: "P v \<Longrightarrow> v \<notin> set xs"
      using Cons.prems(2) 0 by (auto simp: in_set_conv_nth)
    have "distinct (filter P xs)" using Cons.prems(1) by (simp split: if_splits)
    then show ?thesis using nv 0 by simp
  next
    case (Suc k)
    have ih: "distinct (filter P (xs[k := v]))"
      using Cons.prems Suc by (intro Cons.IH) (auto split: if_splits)
    have "P x \<Longrightarrow> x \<notin> set (filter P (xs[k := v]))"
    proof -
      assume px: "P x"
      have "x \<notin> set (filter P xs)" using Cons.prems(1) px by simp
      moreover have "P v \<Longrightarrow> v \<noteq> x" using Cons.prems(2) Suc by fastforce
      ultimately show ?thesis using set_update_subset_insert [of xs k v] by auto
    qed
    then show ?thesis using ih Suc by auto
  qed
qed

lemma streams_ok_step:
  assumes "streams_ok plans (f_streams f)" "form_step plans subjects ev f = Some g"
  shows "streams_ok plans (f_streams g)"
proof (cases ev)
  case (ChangeStream i v)
  then have ok: "stream_choice_ok plans (f_streams f) i v" and g: "g = handleStreamChange i v f"
    using assms(2) by (auto split: if_splits)
  have "distinct (filter (\<lambda>v. v \<noteq> []) ((f_streams f)[i := v]))"
    using assms(1) ok by (intro distinct_filter_update) (auto simp: streams_ok_def stream_choice_ok_def)
  moreover have "list_all (\<lambda>v. v = [] \<or> v \<in> set (map name plans)) ((f_streams f)[i := v])"
    using assms(1) ok by (auto simp: streams_ok_def stream_choice_ok_def list_all_iff dest: set_update_subset_insert [THEN subsetD])
  ultimately show ?thesis using g by (simp add: streams_ok_def handleStreamChange_def)
next
  case ResetSlots
  then show ?thesis using assms(2) by (auto simp: streams_ok_def resetStreams_def list_all_iff)
qed (use assms in \<open>auto simp: handleScoreChange_def split: if_splits\<close>)

lemma form_run_distinct_preferences:
  assumes "streams_ok plans (f_streams f)" "form_run plans subjects evs f = Some g"
  shows "distinct (j_preferredStreams (form_student str_num subjects g)) \<and>
         set (j_preferredStreams (form_student str_num subjects g)) \<subseteq> set (map name plans)"
proof -
  have "streams_ok plans (f_streams g)"
    using assms
  proof (induction evs arbitrary: f)
    case Nil
    then show ?case by simp
  next
    case (Cons ev evs)
    then obtain h where h: "form_step plans subjects ev f = Some h" and r: "form_run plans subjects evs h = Some g"
      by (auto split: option.splits)
    show ?case by (rule Cons.IH [OF streams_ok_step [OF Cons.prems(1) h] r])
  qed
  then show ?thesis by (auto simp: streams_ok_def form_student_def list_all_iff)
qed

end
