(* ===== verification/Settings.thy ===== *)
theory Settings
  imports Dashboard
begin

text \<open>
  The settings editor of \<open>src/components/SettingsPage.tsx\<close> (lines 1-484):
  three modals that edit a copy of the study plans, the exam subjects or the
  selection rules, and the destructive confirmation that saves plans or
  subjects through the dashboard handlers \<open>onUpdatePlans\<close> /
  \<open>onUpdateSubjects\<close> and then calls \<open>onResetData\<close>.  The editor state and
  the dashboard state move together in one step function over the callbacks
  the rendered screen offers.
\<close>

datatype edit_mode = NONE | PLANS | SUBJECTS | RULES

text \<open>The component's state; \<open>stored_rules\<close> is the \<open>localStorage\<close> item
  \<open>APP_SELECTION_RULES\<close> (\<open>None\<close> when absent).\<close>

record editor =
  editMode :: edit_mode
  tempPlans :: "study_plan list"
  tempSubjects :: "exam_subject list"
  tempRules :: "jsstr list"
  rules :: "jsstr list"
  showConfirm :: bool
  deleteConfirmation :: jsstr
  isSaving :: bool
  stored_rules :: "jsstr list option"

text \<open>What the dashboard passes in, and the parameters of its handlers.\<close>

record 'j settings_ctx =
  x_enc_plans :: "study_plan list \<Rightarrow> jsstr"
  x_enc_subjects :: "exam_subject list \<Rightarrow> jsstr"
  x_T :: "('j, spreadsheet) transport"
  x_user :: "admin_user option"
  x_cl :: classroom_view
  x_lid :: jsstr
  x_now :: jsstr

text \<open>The first render and the rules effect: the rules are the saved item
  when there is one, else the default rules, whose first line is formatted
  from the subjects (an argument here).\<close>

definition editor_init :: "jsstr list option \<Rightarrow> jsstr list \<Rightarrow> editor" where
  "editor_init saved defaults =
     \<lparr>editMode = NONE, tempPlans = [], tempSubjects = [], tempRules = [],
      rules = (case saved of Some r \<Rightarrow> r | None \<Rightarrow> defaults),
      showConfirm = False, deleteConfirmation = [], isSaving = False, stored_rules = saved\<rparr>"

text \<open>The default names of a new plan, subject and rule, as UTF-8 bytes.\<close>

definition NEW_PLAN_NAME :: jsstr where
  "NEW_PLAN_NAME = map char_of ([224, 185, 129, 224, 184, 156, 224, 184, 153, 224, 184, 129, 224, 184, 178,
     224, 184, 163, 224, 185, 128, 224, 184, 163, 224, 184, 181, 224, 184, 162, 224, 184, 153, 224, 185, 131,
     224, 184, 171, 224, 184, 161, 224, 185, 136] :: nat list)"

definition NEW_SUBJECT_NAME :: jsstr where
  "NEW_SUBJECT_NAME = map char_of ([224, 184, 167, 224, 184, 180, 224, 184, 138, 224, 184, 178, 224, 185, 131,
     224, 184, 171, 224, 184, 161, 224, 185, 136] :: nat list)"

definition NEW_RULE :: jsstr where
  "NEW_RULE = map char_of ([224, 184, 130, 224, 185, 137, 224, 184, 173, 224, 184, 129, 224, 184, 179, 224, 184,
     171, 224, 184, 153, 224, 184, 148, 224, 185, 131, 224, 184, 171, 224, 184, 161, 224, 185, 136, 46, 46, 46] :: nat list)"

subsection \<open>Opening, closing and saving\<close>

text \<open>\<open>JSON.parse(JSON.stringify(plans))\<close> is a deep copy: the editor works
  on a value of its own.\<close>

definition handleOpenEditPlans :: "study_plan list \<Rightarrow> editor \<Rightarrow> editor" where
  "handleOpenEditPlans plans e = e\<lparr>tempPlans := plans, editMode := PLANS\<rparr>"

definition handleOpenEditSubjects :: "exam_subject list \<Rightarrow> editor \<Rightarrow> editor" where
  "handleOpenEditSubjects subjects e = e\<lparr>tempSubjects := subjects, editMode := SUBJECTS\<rparr>"

definition handleOpenEditRules :: "editor \<Rightarrow> editor" where
  "handleOpenEditRules e = e\<lparr>tempRules := rules e, editMode := RULES\<rparr>"

definition handleClose :: "editor \<Rightarrow> editor" where
  "handleClose e = e\<lparr>editMode := NONE, showConfirm := False, deleteConfirmation := []\<rparr>"

definition handleSaveRules :: "editor \<Rightarrow> editor" where
  "handleSaveRules e = handleClose (e\<lparr>rules := tempRules e, stored_rules := Some (tempRules e)\<rparr>)"

definition handleRequestSave :: "editor \<Rightarrow> editor" where
  "handleRequestSave e = (if editMode e = RULES then handleSaveRules e else e\<lparr>showConfirm := True\<rparr>)"

text \<open>
  \<open>handleConfirmSave\<close>: nothing unless \<open>delete\<close> was typed; otherwise the
  dashboard handler of the mode runs, and when its promise resolves the
  students are reset and the editor closes; a rejection is caught (an
  \<open>alert\<close>), leaving the editor open.  \<open>isSaving\<close> is back to \<open>False\<close> in
  the \<open>finally\<close>.
\<close>

definition handleConfirmSave ::
  "'j settings_ctx \<Rightarrow> editor \<Rightarrow> dash_state \<times> world \<Rightarrow> editor \<times> dash_state \<times> world" where
  "handleConfirmSave x e dw =
     (if deleteConfirmation e \<noteq> ''delete'' then (e, dw)
      else
        (let (ok, dw1) =
           (if editMode e = PLANS
            then handleUpdatePlans (x_enc_plans x) (x_T x) (x_user x) (x_cl x) (x_lid x) (x_now x) (tempPlans e) dw
            else if editMode e = SUBJECTS
            then handleUpdateSubjects (x_enc_subjects x) (x_T x) (x_user x) (x_cl x) (x_lid x) (x_now x)
                   (tempSubjects e) dw
            else (True, dw))
         in if ok then (handleClose (e\<lparr>isSaving := False\<rparr>), handleResetData (x_user x) (x_cl x) (x_lid x) (x_now x) dw1)
            else (e\<lparr>isSaving := False\<rparr>, dw1)))"

subsection \<open>Editing the copies\<close>

datatype plan_field = PlanName jsstr | PlanQuota int

datatype subject_field = SubjectName jsstr | SubjectMaxScore int

fun set_plan_field :: "plan_field \<Rightarrow> study_plan \<Rightarrow> study_plan" where
  "set_plan_field (PlanName v) p = p\<lparr>name := v\<rparr>"
| "set_plan_field (PlanQuota v) p = p\<lparr>quota := v\<rparr>"

fun set_subject_field :: "subject_field \<Rightarrow> exam_subject \<Rightarrow> exam_subject" where
  "set_subject_field (SubjectName v) s = s\<lparr>sub_name := v\<rparr>"
| "set_subject_field (SubjectMaxScore v) s = s\<lparr>maxScore := v\<rparr>"

text \<open>\<open>PLAN-${Date.now()}\<close>: the time stamp is the argument \<open>now\<close>.\<close>

definition handleAddTempPlan :: "jsstr \<Rightarrow> editor \<Rightarrow> editor" where
  "handleAddTempPlan now e =
     e\<lparr>tempPlans := tempPlans e @ [\<lparr>plan_id = ''PLAN-'' @ now, name = NEW_PLAN_NAME, quota = 10\<rparr>]\<rparr>"

definition handleChangeTempPlan :: "jsstr \<Rightarrow> plan_field \<Rightarrow> editor \<Rightarrow> editor" where
  "handleChangeTempPlan pid fld e =
     e\<lparr>tempPlans := map (\<lambda>p. if plan_id p = pid then set_plan_field fld p else p) (tempPlans e)\<rparr>"

definition handleDeleteTempPlan :: "jsstr \<Rightarrow> editor \<Rightarrow> editor" where
  "handleDeleteTempPlan pid e = e\<lparr>tempPlans := filter (\<lambda>p. plan_id p \<noteq> pid) (tempPlans e)\<rparr>"

definition handleAddTempSubject :: "jsstr \<Rightarrow> editor \<Rightarrow> editor" where
  "handleAddTempSubject now e =
     e\<lparr>tempSubjects := tempSubjects e @ [\<lparr>sub_id = ''SUBJ-'' @ now, sub_name = NEW_SUBJECT_NAME, maxScore = 100\<rparr>]\<rparr>"

definition handleChangeTempSubject :: "jsstr \<Rightarrow> subject_field \<Rightarrow> editor \<Rightarrow> editor" where
  "handleChangeTempSubject sid fld e =
     e\<lparr>tempSubjects := map (\<lambda>s. if sub_id s = sid then set_subject_field fld s else s) (tempSubjects e)\<rparr>"

definition handleDeleteTempSubject :: "jsstr \<Rightarrow> editor \<Rightarrow> editor" where
  "handleDeleteTempSubject sid e = e\<lparr>tempSubjects := filter (\<lambda>s. sub_id s \<noteq> sid) (tempSubjects e)\<rparr>"

definition handleAddTempRule :: "editor \<Rightarrow> editor" where
  "handleAddTempRule e = e\<lparr>tempRules := tempRules e @ [NEW_RULE]\<rparr>"

text \<open>\<open>updated[index] = value\<close> and \<open>updated.splice(index, 1)\<close>; the screen
  passes only indices of rendered rules, below the length.\<close>

definition handleChangeTempRule :: "nat \<Rightarrow> jsstr \<Rightarrow> editor \<Rightarrow> editor" where
  "handleChangeTempRule i v e = e\<lparr>tempRules := (tempRules e)[i := v]\<rparr>"

definition handleDeleteTempRule :: "nat \<Rightarrow> editor \<Rightarrow> editor" where
  "handleDeleteTempRule i e = e\<lparr>tempRules := take i (tempRules e) @ drop (Suc i) (tempRules e)\<rparr>"

subsection \<open>The callbacks of the rendered screen\<close>

text \<open>
  The edit buttons of the page, the controls of the open modal, and the
  controls of the confirmation overlay.  The modal is a full-screen overlay,
  so the page's buttons work only while no modal is open; the confirmation
  covers the modal's box, so while it shows only its own controls and the
  backdrop outside the box (\<open>handleClose\<close>) receive clicks.  The confirm
  button is disabled unless \<open>delete\<close> was typed and no save runs.
\<close>

datatype settings_event =
    OpenPlans | OpenSubjects | OpenRules
  | Close | RequestSave
  | AddPlan jsstr | ChangePlan jsstr plan_field | DeletePlan jsstr
  | AddSubject jsstr | ChangeSubject jsstr subject_field | DeleteSubject jsstr
  | AddRule | ChangeRule nat jsstr | DeleteRule nat
  | TypeConfirmation jsstr | CancelConfirm | ConfirmSave

definition modal_on :: "edit_mode \<Rightarrow> editor \<Rightarrow> bool" where
  "modal_on m e \<longleftrightarrow> editMode e = m \<and> \<not> showConfirm e"

fun settings_step ::
  "'j settings_ctx \<Rightarrow> settings_event \<Rightarrow> editor \<times> dash_state \<times> world \<Rightarrow> (editor \<times> dash_state \<times> world) option" where
  "settings_step x OpenPlans (e, dw) =
     (if editMode e = NONE then Some (handleOpenEditPlans (d_plans (fst dw)) e, dw) else None)"
| "settings_step x OpenSubjects (e, dw) =
     (if editMode e = NONE then Some (handleOpenEditSubjects (d_subjects (fst dw)) e, dw) else None)"
| "settings_step x OpenRules (e, dw) =
     (if editMode e = NONE then Some (handleOpenEditRules e, dw) else None)"
| "settings_step x Close (e, dw) = (if editMode e \<noteq> NONE then Some (handleClose e, dw) else None)"
| "settings_step x RequestSave (e, dw) =
     (if editMode e \<noteq> NONE \<and> \<not> showConfirm e then Some (handleRequestSave e, dw) else None)"
| "settings_step x (AddPlan now) (e, dw) =
     (if modal_on PLANS e then Some (handleAddTempPlan now e, dw) else None)"
| "settings_step x (ChangePlan pid fld) (e, dw) =
     (if modal_on PLANS e then Some (handleChangeTempPlan pid fld e, dw) else None)"
| "settings_step x (DeletePlan pid) (e, dw) =
     (if modal_on PLANS e then Some (handleDeleteTempPlan pid e, dw) else None)"
| "settings_step x (AddSubject now) (e, dw) =
     (if modal_on SUBJECTS e then Some (handleAddTempSubject now e, dw) else None)"
| "settings_step x (ChangeSubject sid fld) (e, dw) =
     (if modal_on SUBJECTS e then Some (handleChangeTempSubject sid fld e, dw) else None)"
| "settings_step x (DeleteSubject sid) (e, dw) =
     (if modal_on SUBJECTS e then Some (handleDeleteTempSubject sid e, dw) else None)"
| "settings_step x AddRule (e, dw) = (if modal_on RULES e then Some (handleAddTempRule e, dw) else None)"
| "settings_step x (ChangeRule i v) (e, dw) =
     (if modal_on RULES e \<and> i < length (tempRules e) then Some (handleChangeTempRule i v e, dw) else None)"
| "settings_step x (DeleteRule i) (e, dw) =
     (if modal_on RULES e \<and> i < length (tempRules e) then Some (handleDeleteTempRule i e, dw) else None)"
| "settings_step x (TypeConfirmation v) (e, dw) =
     (if editMode e \<noteq> NONE \<and> showConfirm e then Some (e\<lparr>deleteConfirmation := v\<rparr>, dw) else None)"
| "settings_step x CancelConfirm (e, dw) =
     (if editMode e \<noteq> NONE \<and> showConfirm e then Some (e\<lparr>showConfirm := False\<rparr>, dw) else None)"
| "settings_step x ConfirmSave (e, dw) =
     (if editMode e \<noteq> NONE \<and> showConfirm e \<and> deleteConfirmation e = ''delete'' \<and> \<not> isSaving e
      then Some (handleConfirmSave x e dw) else None)"

fun settings_run ::
  "'j settings_ctx \<Rightarrow> settings_event list \<Rightarrow> editor \<times> dash_state \<times> world \<Rightarrow> (editor \<times> dash_state \<times> world) option" where
  "settings_run x [] s = Some s"
| "settings_run x (ev # evs) s = (case settings_step x ev s of None \<Rightarrow> None | Some t \<Rightarrow> settings_run x evs t)"

lemma settings_step_dash:
  assumes "settings_step x ev (e, dw) = Some (e', dw')" "ev \<noteq> ConfirmSave"
  shows "dw' = dw"
  using assms by (cases ev) (auto split: if_splits)

lemma handleUpdatePlans_result:
  assumes "\<not> isViewer u"
    and "apiSaveSettings T (getConfig (w_ls w)) (cl_id cl) ''PLANS'' (enc ps) (w_db w) = (r, db')"
  shows "handleUpdatePlans enc T u cl lid now ps (d, w) =
           (case r of Inl _ \<Rightarrow> (False, d\<lparr>d_plans := ps\<rparr>, w\<lparr>w_db := db'\<rparr>)
            | Inr _ \<Rightarrow> (True, after_save u ''UPDATE_PLANS'' (''Updated study plans for '' @ cl_name cl) lid now
                              (d\<lparr>d_plans := ps\<rparr>, w\<lparr>w_db := db'\<rparr>)))"
  using assms by (simp add: handleUpdatePlans_def Let_def)

lemma confirm_save_plans:
  assumes "\<not> isViewer (x_user x)" "editMode e = PLANS" "deleteConfirmation e = ''delete''"
    and "apiSaveSettings (x_T x) (getConfig (w_ls w)) (cl_id (x_cl x)) ''PLANS''
           (x_enc_plans x (tempPlans e)) (w_db w) = (r, db')"
  shows "handleConfirmSave x e (d, w) =
           (case r of
              Inl _ \<Rightarrow> (e\<lparr>isSaving := False\<rparr>, d\<lparr>d_plans := tempPlans e\<rparr>, w\<lparr>w_db := db'\<rparr>)
            | Inr _ \<Rightarrow> (handleClose (e\<lparr>isSaving := False\<rparr>),
                       handleResetData (x_user x) (x_cl x) (x_lid x) (x_now x)
                         (after_save (x_user x) ''UPDATE_PLANS'' (''Updated study plans for '' @ cl_name (x_cl x))
                            (x_lid x) (x_now x) (d\<lparr>d_plans := tempPlans e\<rparr>, w\<lparr>w_db := db'\<rparr>))))"
  using assms
  by (simp add: handleConfirmSave_def handleUpdatePlans_result [where enc = "x_enc_plans x" and ps = "tempPlans e", OF assms(1) assms(4)] split: sum.split)

lemma confirm_save_plans_ok:
  assumes "\<not> isViewer (x_user x)" "editMode e = PLANS" "deleteConfirmation e = ''delete''"
    and "apiSaveSettings (x_T x) (getConfig (w_ls w)) (cl_id (x_cl x)) ''PLANS''
           (x_enc_plans x (tempPlans e)) (w_db w) = (Inr u, db')"
  shows "case handleConfirmSave x e (d, w) of (e', d', w') \<Rightarrow>
           editMode e' = NONE \<and> d_plans d' = tempPlans e \<and> d_students d' = [] \<and> w_db w' = db'"
  by (simp add: confirm_save_plans [OF assms] handleResetData_def handleClose_def after_save_def assms(1))


lemma saveSettings_Success: "fst (saveSettings cid ty json now db) = Success"
  by (simp add: saveSettings_def setup_db_def Let_def split: option.splits)

lemma students_map_saveSettings: "students_map (snd (saveSettings cid ty json now db)) = students_map db"
proof -
  have "db_students (snd (saveSettings cid ty json now db)) = Some (the (db_students (setup_db db))) \<or>
        db_students (snd (saveSettings cid ty json now db)) = db_students db"
    by (auto simp: saveSettings_def Let_def setup_db_def split: option.splits)
  then show ?thesis
    by (auto simp: students_map_def setup_db_def split: option.splits)
qed

lemma apiSaveSettings_web_app:
  assumes "api_configured cfg"
  shows "apiSaveSettings (web_app parse parse_obj parse_plans now) cfg cid ty json db =
           (Inr (), snd (saveSettings cid ty json now db))"
proof -
  obtain db' where sv: "saveSettings cid ty json now db = (Success, db')"
    using saveSettings_Success by (metis prod.collapse)
  have h: "handleRequest parse parse_obj parse_plans now
          \<lparr>q_action = Some ''saveSettings'', q_classroomId = c,
           q_body = Some ((empty_body\<lparr>b_classroomId := Some cid, b_type := Some ty, b_data := json\<rparr>)
                            \<lparr>b_action := Some ''saveSettings''\<rparr>)\<rparr> db =
        (Reply Success, db')" for c
    using sv by (simp add: handleRequest_def Let_def resolve_action_url js_String_def)
  show ?thesis
    using void_call_web_app [OF assms _ _ h] sv
    by (simp add: apiSaveSettings_def)
qed

text \<open>
  C13.  Saving edited plans resets the screen only: when an admin confirms
  with \<open>delete\<close> and the configured backend answers, the editor closes,
  the dashboard shows the edited plans and no student, but the students
  sheet still holds every student row it held before, so the next load
  brings them all back.
\<close>

theorem confirm_plans_reset_screen_only:
  assumes "api_configured (getConfig (w_ls w))" "\<not> isViewer (x_user x)"
    and "x_T x = web_app parse parse_obj parse_plans now"
    and "editMode e = PLANS" "deleteConfirmation e = ''delete''"
  shows "case handleConfirmSave x e (d, w) of (e', d', w') \<Rightarrow>
           editMode e' = NONE \<and> d_plans d' = tempPlans e \<and> d_students d' = [] \<and>
           students_map (w_db w') = students_map (w_db w)"
proof -
  let ?db' = "snd (saveSettings (cl_id (x_cl x)) ''PLANS'' (x_enc_plans x (tempPlans e)) now (w_db w))"
  have api: "apiSaveSettings (x_T x) (getConfig (w_ls w)) (cl_id (x_cl x)) ''PLANS''
               (x_enc_plans x (tempPlans e)) (w_db w) = (Inr (), ?db')"
    unfolding assms(3) by (rule apiSaveSettings_web_app [OF assms(1)])
  have "case handleConfirmSave x e (d, w) of (e', d', w') \<Rightarrow>
          editMode e' = NONE \<and> d_plans d' = tempPlans e \<and> d_students d' = [] \<and> w_db w' = ?db'"
    by (rule confirm_save_plans_ok [OF assms(2) assms(4) assms(5) api])
  then show ?thesis
    by (simp add: students_map_saveSettings split: prod.splits)
qed


end
