(* ===== verification/SheetLoops.thy ===== *)
theory SheetLoops
  imports SheetStore
begin

text \<open>
  The index loops of the backend (\<open>src/unnamed/part_000\<close>) as they are
  written: \<open>data = sheet.getDataRange().getValues()\<close> is the header row
  followed by the data rows, the loop variable is an index into it, and a
  write goes to the sheet.  \<open>SheetStore\<close> models the same loops on the data
  rows by list recursion; the lemmas here show that the two agree, so the
  list models are the loops.  The loops are \<open>function\<close>s whose termination
  is proved by a measure on the index.
\<close>

subsection \<open>The forward loop with \<open>break\<close>\<close>

text \<open>\<open>for (let i = 1; i < data.length; i++) if (P(data[i])) { write(i); break; }\<close>,
  as in \<open>updateClassroomTimestamp\<close>: the first matching row is rewritten;
  \<open>None\<close> when the loop runs out.\<close>

function update_loop :: "('a \<Rightarrow> bool) \<Rightarrow> ('a \<Rightarrow> 'a) \<Rightarrow> 'a list \<Rightarrow> nat \<Rightarrow> 'a list option" where
  "update_loop P f data i =
     (if i < length data
      then (if P (data ! i) then Some (data[i := f (data ! i)]) else update_loop P f data (Suc i))
      else None)"
  by pat_completeness auto
termination by (relation "measure (\<lambda>(P, f, data, i). length data - i)") auto

declare update_loop.simps [simp del]

subsection \<open>The backward loop with \<open>break\<close>\<close>

text \<open>\<open>for (let i = data.length - 1; i >= 1; i--) if (P(data[i])) { sheet.deleteRow(i + 1); break; }\<close>,
  the first loop of \<open>deleteClassroom\<close>: the last matching row is deleted.\<close>

function delete_back_loop :: "('a \<Rightarrow> bool) \<Rightarrow> 'a list \<Rightarrow> nat \<Rightarrow> 'a list option" where
  "delete_back_loop P data i =
     (if 1 \<le> i \<and> i < length data
      then (if P (data ! i) then Some (take i data @ drop (Suc i) data) else delete_back_loop P data (i - 1))
      else None)"
  by pat_completeness auto
termination by (relation "measure (\<lambda>(P, data, i). i)") auto

declare delete_back_loop.simps [simp del]

subsection \<open>The backward cascade without \<open>break\<close>\<close>

text \<open>
  The cascade loops of \<open>deleteClassroom\<close>: the indices come from the
  snapshot \<open>stuData\<close> taken before the loop, while every \<open>deleteRow\<close>
  changes the sheet.  Walking backwards, a deletion only moves rows above
  the current index, so the snapshot's indices stay right: the comment
  "Iterate backwards to safely delete".
\<close>

function cascade_loop :: "('a \<Rightarrow> bool) \<Rightarrow> 'a list \<Rightarrow> 'a list \<Rightarrow> nat \<Rightarrow> 'a list" where
  "cascade_loop P data sheet i =
     (if 1 \<le> i \<and> i < length data
      then cascade_loop P data (if P (data ! i) then take i sheet @ drop (Suc i) sheet else sheet) (i - 1)
      else sheet)"
  by pat_completeness auto
termination by (relation "measure (\<lambda>(P, data, sheet, i). i)") auto

declare cascade_loop.simps [simp del]

subsection \<open>Two handlers as written\<close>

text \<open>\<open>updateClassroomTimestamp\<close> with its loop; \<open>hc\<close> is the header row.\<close>

definition updateClassroomTimestamp_loop :: "class_row \<Rightarrow> jsstr \<Rightarrow> jsstr \<Rightarrow> spreadsheet \<Rightarrow> spreadsheet" where
  "updateClassroomTimestamp_loop hc classroomId now db =
     (case db_classrooms db of
        None \<Rightarrow> db
      | Some rs \<Rightarrow>
          (let id = trim classroomId in
           case update_loop (\<lambda>r. class_key r = id) (\<lambda>r. r\<lparr>c_updated := now\<rparr>) (hc # rs) 1 of
             None \<Rightarrow> db
           | Some data' \<Rightarrow> db\<lparr>db_classrooms := Some (tl data')\<rparr>))"

text \<open>
  The handler with its three loops over the sheets' value arrays; \<open>hc\<close>,
  \<open>hs\<close> and \<open>ht\<close> are the header rows, which no loop tests.
\<close>

definition deleteClassroom_loops ::
  "class_row \<Rightarrow> stu_row \<Rightarrow> set_row \<Rightarrow> jsstr \<Rightarrow> spreadsheet \<Rightarrow> response \<times> spreadsheet" where
  "deleteClassroom_loops hc hs ht cid db =
     (case db_classrooms db of
        None \<Rightarrow> (Error ''Sheet DB_Classrooms not found'', db)
      | Some rs \<Rightarrow>
          (let targetId = trim cid; data = hc # rs in
           case delete_back_loop (\<lambda>r. class_key r = targetId) data (length data - 1) of
             None \<Rightarrow> (Error (''Classroom ID not found: '' @ targetId), db)
           | Some data' \<Rightarrow>
               (Success,
                \<lparr>db_classrooms = Some (tl data'),
                 db_students = map_option (\<lambda>sr. tl (cascade_loop (\<lambda>r. trim (s_cid r) = targetId)
                                                       (hs # sr) (hs # sr) (length (hs # sr) - 1)))
                                 (db_students db),
                 db_settings = map_option (\<lambda>tr. tl (cascade_loop (\<lambda>r. trim (t_cid r) = targetId)
                                                       (ht # tr) (ht # tr) (length (ht # tr) - 1)))
                                 (db_settings db)\<rparr>)))"

subsection \<open>The loops are the list model\<close>

lemma update_loop_eq:
  "i \<le> length data \<Longrightarrow>
   update_loop P f data i = map_option (\<lambda>ys. take i data @ ys) (update_first P f (drop i data))"
proof (induction P f data i rule: update_loop.induct)
  case (1 P f data i)
  show ?case
  proof (cases "i < length data")
    case True
    then have d: "drop i data = data ! i # drop (Suc i) data" by (rule Cons_nth_drop_Suc [symmetric])
    show ?thesis
    proof (cases "P (data ! i)")
      case p: True
      then show ?thesis
        using True by (subst update_loop.simps) (simp add: d upd_conv_take_nth_drop)
    next
      case np: False
      have "update_loop P f data i = update_loop P f data (Suc i)"
        using True np by (subst update_loop.simps) simp
      also have "\<dots> = map_option (\<lambda>ys. take (Suc i) data @ ys) (update_first P f (drop (Suc i) data))"
        using 1 True np by simp
      finally show ?thesis
        using True np by (simp add: d take_Suc_conv_app_nth option.map_comp comp_def)
    qed
  next
    case False
    then show ?thesis using "1.prems" by (subst update_loop.simps) simp
  qed
qed


lemma update_loop_rows: "update_loop P f (h # rows) (Suc 0) = map_option (Cons h) (update_first P f rows)"
  by (simp add: update_loop_eq)

lemma remove_last_snoc:
  "remove_last P (xs @ [x]) = (if P x then Some xs else map_option (\<lambda>ys. ys @ [x]) (remove_last P xs))"
  by (simp add: remove_last_def option.map_comp comp_def)

lemma delete_back_loop_0 [simp]: "delete_back_loop P data 0 = None"
  by (subst delete_back_loop.simps) simp

lemma delete_back_loop_eq:
  "i \<le> length rows \<Longrightarrow>
   delete_back_loop P (h # rows) i = map_option (\<lambda>ys. h # ys @ drop i rows) (remove_last P (take i rows))"
proof (induction i)
  case 0
  then show ?case by (simp add: remove_last_def)
next
  case (Suc j)
  have j: "j < length rows" using Suc.prems by simp
  have t: "take (Suc j) rows = take j rows @ [rows ! j]" using j by (rule take_Suc_conv_app_nth)
  have d: "drop j rows = rows ! j # drop (Suc j) rows" using j by (rule Cons_nth_drop_Suc [symmetric])
  show ?case
  proof (cases "P (rows ! j)")
    case True
    then show ?thesis
      using j by (subst delete_back_loop.simps) (simp add: t remove_last_snoc)
  next
    case False
    have "delete_back_loop P (h # rows) (Suc j) = delete_back_loop P (h # rows) j"
    proof (cases j)
      case 0
      then show ?thesis using False j
        by (subst delete_back_loop.simps) simp
    next
      case (Suc k)
      then show ?thesis using False j by (subst delete_back_loop.simps) simp
    qed
    then show ?thesis
      using Suc.IH j False by (simp add: t d remove_last_snoc option.map_comp comp_def)
  qed
qed

lemma delete_back_rows:
  "delete_back_loop P (h # rows) (length rows) = map_option (Cons h) (remove_last P rows)"
  by (simp add: delete_back_loop_eq)

lemma cascade_loop_eq:
  "i \<le> length rows \<Longrightarrow>
   cascade_loop P (h # rows) (h # take i rows @ rest) i = h # filter (\<lambda>r. \<not> P r) (take i rows) @ rest"
proof (induction i arbitrary: rest)
  case 0
  then show ?case by (subst cascade_loop.simps) simp
next
  case (Suc j)
  have j: "j < length rows" using Suc.prems by simp
  have t: "take (Suc j) rows = take j rows @ [rows ! j]" using j by (rule take_Suc_conv_app_nth)
  have step: "cascade_loop P (h # rows) (h # take (Suc j) rows @ rest) (Suc j) =
              cascade_loop P (h # rows)
                (if P (rows ! j) then h # take j rows @ rest else h # take j rows @ (rows ! j # rest)) j"
    using j by (subst cascade_loop.simps) (simp add: t)
  show ?case
  proof (cases "P (rows ! j)")
    case True
    then show ?thesis using step Suc.IH [of rest] j by (simp add: t)
  next
    case False
    then show ?thesis using step Suc.IH [of "rows ! j # rest"] j by (simp add: t)
  qed
qed

lemma cascade_rows:
  "cascade_loop P (h # rows) (h # rows) (length rows) = h # filter (\<lambda>r. \<not> P r) rows"
  using cascade_loop_eq [of "length rows" rows P h "[]"] by simp


text \<open>
  C24.  The delete loops terminate and are the list model: the backward
  \<open>for\<close> loops of \<open>deleteClassroom\<close>, run on the sheets' value arrays with
  the header row and indices from a snapshot (each loop a \<open>function\<close> whose
  termination is proved by the measure \<open>i\<close>), compute exactly the
  \<open>deleteClassroom\<close> of \<open>SheetStore\<close>: the last matching classroom row
  goes, and the cascades leave the other student and settings rows in order.
\<close>

theorem deleteClassroom_loops_eq:
  "deleteClassroom_loops hc hs ht cid db = deleteClassroom cid db"
proof -
  have stu: "(\<lambda>sr. tl (cascade_loop (\<lambda>r. trim (s_cid r) = t) (hs # sr) (hs # sr) (length sr))) =
             filter (\<lambda>r. trim (s_cid r) \<noteq> t)" for t
    by (simp only: cascade_rows list.sel(3) fun_eq_iff) simp
  have set: "(\<lambda>tr. tl (cascade_loop (\<lambda>r. trim (t_cid r) = t) (ht # tr) (ht # tr) (length tr))) =
             filter (\<lambda>r. trim (t_cid r) \<noteq> t)" for t
    by (simp only: cascade_rows list.sel(3) fun_eq_iff) simp
  show ?thesis
    by (simp add: deleteClassroom_loops_def deleteClassroom_def delete_back_rows stu set Let_def
             split: option.split)
qed


lemma updateClassroomTimestamp_loop_eq:
  "updateClassroomTimestamp_loop hc cid now db = updateClassroomTimestamp cid now db"
  by (simp add: updateClassroomTimestamp_loop_def updateClassroomTimestamp_def update_loop_rows
           split: option.split)

end
