(* ===== verification/TableModals.thy ===== *)
theory TableModals
  imports Views
begin

text \<open>
  The modals of the student table (\<open>src/components/StudentList.tsx\<close>):
  the entry modal (add, or edit the clicked student), the delete
  confirmation and the detail view, with the handlers that open and close
  them and the calls they make to the dashboard (\<open>onAddStudents\<close>,
  \<open>onEditStudent\<close>, \<open>onDeleteStudent\<close>).  The dashboard is a parameter:
  its state \<open>'s\<close> and its three handlers, so the lemmas hold for any
  implementation of them.
\<close>

record table_modals =
  showEntryModal :: bool
  editingStudent :: "ranked_student option"
  deletingId :: "jsstr option"
  selectedDetail :: "ranked_student option"

definition table_init :: table_modals where
  "table_init = \<lparr>showEntryModal = False, editingStudent = None, deletingId = None, selectedDetail = None\<rparr>"

text \<open>The dashboard's handlers as the table receives them; \<open>'js\<close> is the
  student object a form produces.\<close>

record ('js, 's) table_props =
  onAddStudents :: "'js list \<Rightarrow> 's \<Rightarrow> 's"
  onEditStudent :: "'js \<Rightarrow> jsstr \<Rightarrow> 's \<Rightarrow> 's"
  onDeleteStudent :: "jsstr \<Rightarrow> 's \<Rightarrow> 's"
  readOnly :: bool

definition handleEditClick :: "bool \<Rightarrow> ranked_student \<Rightarrow> table_modals \<Rightarrow> table_modals" where
  "handleEditClick ro st m = (if ro then m else m\<lparr>editingStudent := Some st, showEntryModal := True\<rparr>)"

definition handleDeleteClick :: "bool \<Rightarrow> jsstr \<Rightarrow> table_modals \<Rightarrow> table_modals" where
  "handleDeleteClick ro sid m = (if ro then m else m\<lparr>deletingId := Some sid\<rparr>)"

text \<open>\<open>if (deletingId)\<close>: an empty id is falsy.\<close>

definition handleConfirmDelete :: "(jsstr \<Rightarrow> 's \<Rightarrow> 's) \<Rightarrow> table_modals \<times> 's \<Rightarrow> table_modals \<times> 's" where
  "handleConfirmDelete onDelete ms =
     (let (m, s) = ms in
      case deletingId m of
        Some sid \<Rightarrow> if sid \<noteq> [] then (m\<lparr>deletingId := None\<rparr>, onDelete sid s) else (m, s)
      | None \<Rightarrow> (m, s))"

definition handleRowClick :: "ranked_student \<Rightarrow> table_modals \<Rightarrow> table_modals" where
  "handleRowClick st m = m\<lparr>selectedDetail := Some st\<rparr>"

definition handleCloseModal :: "table_modals \<Rightarrow> table_modals" where
  "handleCloseModal m = m\<lparr>showEntryModal := False, editingStudent := None\<rparr>"

text \<open>
  The callbacks of the rendered table.  The three modals are full-screen
  overlays, so the page (the add button, a row, its edit and delete buttons)
  receives clicks only while none is rendered; the add, edit and delete
  controls and the entry and delete modals exist only when the table is not
  read-only.  \<open>SubmitAdd\<close> and \<open>SubmitEdit\<close> are the forms' callbacks
  inside the entry modal.
\<close>

datatype ('js) table_event =
    OpenAdd | EditClick ranked_student | DeleteClick jsstr | RowClick ranked_student
  | CloseEntry | SubmitAdd "'js list" | SubmitEdit 'js
  | CancelDelete | ConfirmDelete | CloseDetail

definition entry_shown :: "bool \<Rightarrow> table_modals \<Rightarrow> bool" where
  "entry_shown ro m \<longleftrightarrow> showEntryModal m \<and> \<not> ro"

definition delete_shown :: "bool \<Rightarrow> table_modals \<Rightarrow> bool" where
  "delete_shown ro m \<longleftrightarrow> deletingId m \<noteq> None \<and> deletingId m \<noteq> Some [] \<and> \<not> ro"

definition page_on :: "bool \<Rightarrow> table_modals \<Rightarrow> bool" where
  "page_on ro m \<longleftrightarrow> \<not> entry_shown ro m \<and> \<not> delete_shown ro m \<and> selectedDetail m = None"

fun table_step ::
  "('js, 's) table_props \<Rightarrow> 'js table_event \<Rightarrow> table_modals \<times> 's \<Rightarrow> (table_modals \<times> 's) option" where
  "table_step p OpenAdd (m, s) =
     (if page_on (readOnly p) m \<and> \<not> readOnly p then Some (m\<lparr>showEntryModal := True\<rparr>, s) else None)"
| "table_step p (EditClick st) (m, s) =
     (if page_on (readOnly p) m \<and> \<not> readOnly p then Some (handleEditClick (readOnly p) st m, s) else None)"
| "table_step p (DeleteClick sid) (m, s) =
     (if page_on (readOnly p) m \<and> \<not> readOnly p then Some (handleDeleteClick (readOnly p) sid m, s) else None)"
| "table_step p (RowClick st) (m, s) =
     (if page_on (readOnly p) m then Some (handleRowClick st m, s) else None)"
| "table_step p CloseEntry (m, s) =
     (if entry_shown (readOnly p) m then Some (handleCloseModal m, s) else None)"
| "table_step p (SubmitAdd xs) (m, s) =
     (if entry_shown (readOnly p) m \<and> editingStudent m = None
      then Some (handleCloseModal m, onAddStudents p xs s) else None)"
| "table_step p (SubmitEdit x) (m, s) =
     (case editingStudent m of
        Some st \<Rightarrow> if entry_shown (readOnly p) m
                   then Some (handleCloseModal m, onEditStudent p x (stu_id st) s) else None
      | None \<Rightarrow> None)"
| "table_step p CancelDelete (m, s) =
     (if delete_shown (readOnly p) m then Some (m\<lparr>deletingId := None\<rparr>, s) else None)"
| "table_step p ConfirmDelete (m, s) =
     (if delete_shown (readOnly p) m then Some (handleConfirmDelete (onDeleteStudent p) (m, s)) else None)"
| "table_step p CloseDetail (m, s) =
     (if selectedDetail m \<noteq> None then Some (m\<lparr>selectedDetail := None\<rparr>, s) else None)"

fun table_run ::
  "('js, 's) table_props \<Rightarrow> 'js table_event list \<Rightarrow> table_modals \<times> 's \<Rightarrow> (table_modals \<times> 's) option" where
  "table_run p [] ms = Some ms"
| "table_run p (ev # evs) ms = (case table_step p ev ms of None \<Rightarrow> None | Some ms' \<Rightarrow> table_run p evs ms')"

subsection \<open>What the table can do to the dashboard\<close>

text \<open>A read-only table never reaches a dashboard handler, and a confirmed
  deletion deletes the clicked id.\<close>

lemma table_step_readOnly:
  assumes "readOnly p" "table_step p ev (m, s) = Some (m', s')"
  shows "s' = s"
  using assms
  by (cases ev) (auto simp: entry_shown_def delete_shown_def split: if_splits option.splits)

lemma table_run_readOnly:
  "readOnly p \<Longrightarrow> table_run p evs (m, s) = Some (m', s') \<Longrightarrow> s' = s"
proof (induction evs arbitrary: m s)
  case Nil
  then show ?case by simp
next
  case (Cons ev evs)
  then obtain m1 s1 where st: "table_step p ev (m, s) = Some (m1, s1)"
    and r: "table_run p evs (m1, s1) = Some (m', s')"
    by (auto split: option.splits)
  have "s1 = s" by (rule table_step_readOnly [OF Cons.prems(1) st])
  then show ?case using Cons.IH [OF Cons.prems(1) r] by simp
qed

lemma table_delete_clicked:
  assumes "\<not> readOnly p" "page_on (readOnly p) m" "sid \<noteq> []"
  shows "table_run p [DeleteClick sid, ConfirmDelete] (m, s) =
           Some (m\<lparr>deletingId := None\<rparr>, onDeleteStudent p sid s)"
  using assms
  by (simp add: handleDeleteClick_def handleConfirmDelete_def delete_shown_def)

end
