(* ===== verification/Spec2Isabelle.thy ===== *)
theory Spec2Isabelle
  imports Views DataEntry Settings SheetLoops TableModals
begin

text \<open>
  \<^bold>\<open>A verification library for NPSS, the student-track selection system.\<close>

  \<^bold>\<open>The program.\<close>  NPSS ranks the applicants of a cohort by exam score and
  places each one in a study track (plan) with a fixed quota.  Its parts are:
  \<^item> the ranking and allocation engine, \<open>rankStudents\<close> in
    \<open>src/unnamed/part_001\<close>: total score, a comparator with five fixed
    tie-break subjects, a stable sort, positional ranks, and a greedy
    waterfall over each student's preference list that consumes a shared
    per-plan quota counter in rank order;
  \<^item> the Google Apps Script backend, \<open>src/unnamed/part_000\<close> lines 1-471:
    three sheets (classrooms, students, settings) updated by upserts,
    cascading deletes and timestamp touches, dispatched by \<open>handleRequest\<close>;
  \<^item> the browser storage service, \<open>src/unnamed/part_000\<close> lines 473-600:
    admin users, session, configuration and an activity log;
  \<^item> the API client, \<open>src/unnamed/part_000\<close> lines 602-728, which posts
    every action to the backend's URL;
  \<^item> the React components: the top-level screen switch of \<open>src/App.tsx\<close>;
    the dashboard handlers (\<open>src/components/SettingsPage.tsx\<close> from line
    486) that load, merge, edit and delete students and feed
    \<open>rankStudents\<close>; the settings editor (same file, lines 1-484); the
    student table's filter, sort and pagination
    (\<open>src/components/StudentList.tsx\<close>); and the student forms
    (\<open>src/unnamed/part_002\<close>: manual entry, spreadsheet import, edit form).
  Data flows one way: the forms and the settings editor call the dashboard
  handlers, which call the API client, which posts to the backend; the
  dashboard keeps students and plans in React state and recomputes
  \<open>rankStudents(students, studyPlans)\<close> on every change.

  \<^bold>\<open>The theories\<close> (each opens with a note on what it holds).
  \<^item> \<open>Prelude\<close>: \<open>findIndex\<close>, \<open>Array.prototype.sort\<close> as the stable
    insertion sort \<open>array_sort\<close>, and the list and map lemmas the components
    share.
  \<^item> \<open>Ranking\<close>, \<open>Allocation\<close>: the engine.  \<open>calculateTotal\<close>,
    \<open>tieBreaker\<close>, \<open>compareRanked\<close>, \<open>assignRanks\<close>, \<open>pickPlan\<close>, the
    stateful \<open>processed.map\<close> as \<open>allocate\<close> threading the usage map, and
    \<open>rankStudents\<close>.  Lemmas: the comparator agrees with a lexicographic key,
    so any stable sort gives the same list; ranks are \<open>1..N\<close>; usage counts
    the students placed and never passes the quota; prefix independence.
  \<^item> \<open>SheetStore\<close>: the spreadsheet as three optional row lists (a missing
    sheet is \<open>None\<close>) and every handler of \<open>part_000\<close> as a function on it,
    errors as \<open>response\<close> values; the key-uniqueness invariant \<open>db_inv\<close>,
    preserved by every handler; \<open>students_map\<close> as the abstraction.
  \<^item> \<open>SheetLoops\<close>: the index loops of the backend as written (on the
    value arrays with their header row), \<open>function\<close>s with termination
    proofs by measures, proved equal to the list recursions of
    \<open>SheetStore\<close>; \<open>updateClassroomTimestamp\<close> and \<open>deleteClassroom\<close>
    with their loops equal the list model.
  \<^item> \<open>Backend\<close>: \<open>doPost\<close>'s dispatcher \<open>handleRequest\<close> (action from the
    query or the body), and the two halves of the unlocked
    \<open>saveStudent\<close> to study interleavings.
  \<^item> \<open>LocalStore\<close>: \<open>storage.ts\<close> on a record of optional items; the user
    list's invariant and the log bound.
  \<^item> \<open>Api\<close>: the URL check and query, \<open>sendPostRequest\<close> over a
    transport parameter, and the api methods; \<open>web_app\<close> instantiates the
    transport by \<open>handleRequest\<close>, which is how client and backend compose.
  \<^item> \<open>Dashboard\<close>: the dashboard's state and world (backend and browser
    storage), its handlers, and \<open>in_sync\<close> between screen and sheet.
  \<^item> \<open>Settings\<close>: the settings editor's state, every handler, and one step
    function over the callbacks its modals offer, composed with the
    dashboard handlers.
  \<^item> \<open>Views\<close>: \<open>App\<close>'s screen switch as a step function with an inductive
    reachability, and the student table's filter, sort and pages.
  \<^item> \<open>TableModals\<close>: the student table's entry, delete and detail
    modals as a step function over a parameter dashboard; a read-only table
    never calls a dashboard handler.
  \<^item> \<open>DataEntry\<close>: JavaScript numbers with \<open>NaN\<close>, the untyped scores
    object and \<open>calculateTotal\<close> on it, the manual form with its effects
    and handlers (whose disabled options keep the chosen preferences
    distinct), the spreadsheet row parser and import (its students are well
    typed), and the edit form.
  This root theory states the engine's properties that the specification
  names, with a witness at a concrete input for every theorem with a
  hypothesis; the other properties sit in their component theories, with
  their witnesses here.

  \<^bold>\<open>What the lemmas show.\<close>  The engine respects quotas, never envies,
  places students only in their preferences, and ranks by a total order
  (refinement of \<open>sort_key\<close>); the backend keeps keys unique under every
  handler, its index loops compute the list model (the backward
  deletion over a snapshot deletes exactly the matching rows), and its
  bulk save equals a fold of single saves (equivalence) as
  long as ids are distinct (a counterexample otherwise); the unlocked
  read-then-write of \<open>saveStudent\<close> duplicates rows under interleaving;
  client calls on \<open>web_app\<close> agree with the backend handlers (refinement);
  the dashboard's add keeps screen and sheet in step; the settings editor
  touches nothing until a confirmed save, and that save clears the screen
  only; App's screens satisfy an invariant on every reachable state and
  sign-out is always possible (liveness); a shrinking student list strands
  the table on an empty page; editing a student drops the scores of
  unconfigured subjects (round trip), and a subject set without one of the
  five fixed keys makes every entered total \<open>NaN\<close>.

  \<^bold>\<open>Modelling choices.\<close>  Scores, quotas and counters are \<open>int\<close>, ranks
  \<open>nat\<close>: whole numbers that a double holds exactly.  Where \<open>NaN\<close>
  matters (the forms and \<open>calculateTotal\<close> on the untyped object) numbers
  are \<open>jsnum\<close>; \<open>Number\<close> on a non-empty string is a parameter.  Objects
  used as dictionaries are maps, \<open>undefined\<close> being \<open>None\<close>.  Strings are
  byte strings, Thai literals as their UTF-8 bytes.  Every loop of the
  program runs over a finite list: the list models are structural
  recursions or folds, and the index loops of \<open>SheetLoops\<close> terminate by
  the measures \<open>length data - i\<close> and \<open>i\<close>, so no fuel is needed; user interaction is a sequence of enabled events
  (\<open>app_run\<close>, \<open>settings_run\<close>, \<open>list_step\<close>).  \<open>JSON.stringify\<close> and
  \<open>JSON.parse\<close> are parameters (\<open>enc\<close>, \<open>parse\<close>), time stamps and log
  ids are arguments.

  \<^bold>\<open>Not modelled.\<close>  Rendering (JSX, CSS classes, colours, the detail
  modals of the student table, the gender counts), the ExcelJS workbook
  formatting of exports and templates, \<open>fetch\<close> as a network (the
  transport is a function), \<open>LockService\<close> (the interleaving lemma shows
  what happens without it), \<open>LandingPage\<close>, \<open>ClassroomSelection\<close> and
  \<open>SystemAdmin\<close> (not in the repository; only the callbacks App passes
  them are modelled), the grammar of numeric string literals, and the
  formatted text of the default selection rules.
\<close>

section \<open>Fixtures for the witnesses\<close>

abbreviation scored ::
  "jsstr \<Rightarrow> jsstr list \<Rightarrow> int \<Rightarrow> int \<Rightarrow> int \<Rightarrow> int \<Rightarrow> int \<Rightarrow> student" where
  "scored i ps m sc t e so \<equiv>
     \<lparr>stu_id = i, title = [], firstName = [], lastName = [], preferredStreams = ps,
      scores = \<lparr>math = m, science = sc, thai = t, english = e, social = so\<rparr>\<rparr>"

abbreviation plan :: "jsstr \<Rightarrow> int \<Rightarrow> study_plan" where
  "plan n qt \<equiv> \<lparr>plan_id = n, name = n, quota = qt\<rparr>"

abbreviation envy_students :: "student list" where
  "envy_students \<equiv> [scored ''B'' [''X''] 50 50 50 50 50, scored ''A'' [''Y'', ''X''] 90 90 90 90 90]"

abbreviation envy_plans :: "study_plan list" where
  "envy_plans \<equiv> [plan ''X'' 1, plan ''Y'' 1]"

abbreviation contest_students :: "student list" where
  "contest_students \<equiv> [scored ''B'' [''X''] 50 50 50 50 50, scored ''A'' [''X'', ''Y''] 90 90 90 90 90]"

abbreviation wdb :: spreadsheet where
  "wdb \<equiv>
     \<lparr>db_classrooms = Some [\<lparr>c_id = ''c1'', c_data = ''{}'', c_updated = ''t0'', c_deleted = []\<rparr>,
                         \<lparr>c_id = ''c2'', c_data = ''{}'', c_updated = ''t0'', c_deleted = []\<rparr>],
      db_students = Some [\<lparr>s_cid = ''c1'', s_sid = ''s1'', s_data = ''old'', s_updated = ''t0''\<rparr>,
                       \<lparr>s_cid = ''c2'', s_sid = ''s1'', s_data = ''other'', s_updated = ''t0''\<rparr>],
      db_settings = Some [\<lparr>t_cid = ''c1'', t_type = ''PLANS'', t_data = ''[]'', t_updated = ''t0''\<rparr>]\<rparr>"

abbreviation wsts :: "saved_student list" where
  "wsts \<equiv> [\<lparr>ss_id = ''s1'', ss_json = ''new1''\<rparr>, \<lparr>ss_id = '' s2 '', ss_json = ''new2''\<rparr>]"

abbreviation wreq :: request where
  "wreq \<equiv> \<lparr>q_action = None, q_classroomId = None,
            q_body = Some (empty_body\<lparr>b_action := Some ''saveStudents'', b_classroomId := Some ''c1'',
                                       b_students := Some wsts\<rparr>)\<rparr>"

abbreviation wls :: local_store where
  "wls \<equiv> \<lparr>ls_users = None, ls_config = None, ls_logs = None, ls_session = None\<rparr>"

abbreviation dave :: admin_user where
  "dave \<equiv> \<lparr>u_id = ''u4'', u_username = ''dave'', u_password = ''pw'', u_name = ''Dave'', u_role = ''ADMIN''\<rparr>"

abbreviation wcfg :: system_config where
  "wcfg \<equiv> DEFAULT_CONFIG\<lparr>scriptUrl := '' https://script.google.com/macros/s/X/exec ''\<rparr>"

abbreviation stu_named :: "jsstr \<Rightarrow> jsstr \<Rightarrow> student" where
  "stu_named i n \<equiv> \<lparr>stu_id = i, title = [], firstName = n, lastName = [], preferredStreams = [],
      scores = \<lparr>math = 1, science = 1, thai = 1, english = 1, social = 1\<rparr>\<rparr>"

abbreviation wdb1 :: spreadsheet where
  "wdb1 \<equiv> \<lparr>db_classrooms = Some [\<lparr>c_id = ''c1'', c_data = ''{}'', c_updated = ''t0'', c_deleted = []\<rparr>],
      db_students = Some [\<lparr>s_cid = ''c1'', s_sid = ''s1'', s_data = ''old'', s_updated = ''t0''\<rparr>,
                       \<lparr>s_cid = ''c2'', s_sid = ''s1'', s_data = ''other'', s_updated = ''t0''\<rparr>],
      db_settings = Some []\<rparr>"

abbreviation wworld :: world where
  "wworld \<equiv> \<lparr>w_db = wdb1, w_ls = wls\<lparr>ls_config := Some wcfg\<rparr>\<rparr>"

abbreviation wdash :: dash_state where
  "wdash \<equiv> (dash_init \<lparr>cl_id = ''c1'', cl_name = ''M4'', cl_updatedAt = None\<rparr>)\<lparr>d_students := [stu_named ''s1'' ''old'']\<rparr>"

section \<open>Properties of the engine\<close>

subsection \<open>Capacity\<close>

text \<open>
  C1.  Capacity invariant: for every plan name, the number of students whose
  \<open>qualifiedStream\<close> is that plan is at most its quota (a negative quota
  counting as 0), and a name that is not a configured plan is never assigned.
\<close>

theorem rankStudents_capacity:
  "count_assigned n (rankStudents students plans)
     \<le> (case planQuotas plans n of None \<Rightarrow> 0 | Some qt \<Rightarrow> nat qt)"
  unfolding rankStudents_def by (rule allocate_count_bound) (rule initUsage_at)

subsection \<open>Fairness\<close>

text \<open>
  C2.  Rank-order fairness (no justified envy): if a student ranked below
  another got plan \<open>p\<close>, and the higher-ranked student listed \<open>p\<close>, then
  the higher-ranked student got \<open>p\<close> or a plan listed before \<open>p\<close>.
\<close>

theorem rankStudents_no_envy:
  assumes "i < j" and "j < length (rankStudents students plans)"
    and "qualifiedStream (rankStudents students plans ! j) = Some p"
    and "p \<in> set (preferredStreams (rankStudents students plans ! i))"
  shows "\<exists>p'. qualifiedStream (rankStudents students plans ! i) = Some p' \<and>
           p' \<in> set (takeWhile (\<lambda>x. x \<noteq> p) (preferredStreams (rankStudents students plans ! i)) @ [p])"
  using assms allocate_no_envy [of i j "rankOrder students" "planQuotas plans" "initUsage plans" p]
  by (simp add: rankStudents_def allocate_prefs_nth)

theorem rankStudents_no_envy_witness:
  "(0::nat) < 1 \<and> 1 < length (rankStudents envy_students envy_plans) \<and>
   qualifiedStream (rankStudents envy_students envy_plans ! 1) = Some ''X'' \<and>
   ''X'' \<in> set (preferredStreams (rankStudents envy_students envy_plans ! 0)) \<and>
   (\<exists>p'. qualifiedStream (rankStudents envy_students envy_plans ! 0) = Some p' \<and>
      p' \<in> set (takeWhile (\<lambda>x. x \<noteq> ''X'') (preferredStreams (rankStudents envy_students envy_plans ! 0)) @ [''X'']))"
proof -
  have h: "(0::nat) < 1" "1 < length (rankStudents envy_students envy_plans)"
    "qualifiedStream (rankStudents envy_students envy_plans ! 1) = Some ''X''"
    "''X'' \<in> set (preferredStreams (rankStudents envy_students envy_plans ! 0))"
    by code_simp+
  from rankStudents_no_envy [OF h] h show ?thesis by blast
qed

text \<open>
  C3.  Preference containment: a student placed in a plan listed that plan
  among its preferences, and the plan is one of the configured plans.
\<close>

theorem rankStudents_stream_in_prefs:
  assumes "r \<in> set (rankStudents students plans)" and "qualifiedStream r = Some p"
  shows "p \<in> set (preferredStreams r) \<and> p \<in> name ` set plans"
  using assms allocate_stream_in_prefs dom_planQuotas unfolding rankStudents_def by metis

theorem rankStudents_stream_in_prefs_witness:
  "rankStudents envy_students envy_plans ! 0 \<in> set (rankStudents envy_students envy_plans) \<and>
   qualifiedStream (rankStudents envy_students envy_plans ! 0) = Some ''Y'' \<and>
   ''Y'' \<in> set (preferredStreams (rankStudents envy_students envy_plans ! 0)) \<and>
   ''Y'' \<in> name ` set envy_plans"
proof -
  have h: "rankStudents envy_students envy_plans ! 0 \<in> set (rankStudents envy_students envy_plans)"
    "qualifiedStream (rankStudents envy_students envy_plans ! 0) = Some ''Y''"
    by code_simp+
  from rankStudents_stream_in_prefs [OF h] h show ?thesis by blast
qed

subsection \<open>Ranking\<close>


text \<open>
  C5.  Rank permutation: for \<open>N\<close> students the ranks, in output order, are
  exactly \<open>1, 2, ..., N\<close> (dense, positional, no shared ranks).
\<close>

theorem rankStudents_ranks:
  "map rank (rankStudents students plans) = [1..<Suc (length students)]"
  by (simp add: rankStudents_def map_rank_allocate map_rank_rankOrder)


subsection \<open>Allocation\<close>



text \<open>
  C8.  Determinism and fairness: the results of the first \<open>k\<close> students in
  rank order are those of allocating the first \<open>k\<close> alone; students ranked
  lower never influence them.
\<close>

theorem rankStudents_prefix_independent:
  "take k (rankStudents students plans) =
     fst (allocate (planQuotas plans) (initUsage plans) (take k (rankOrder students)))"
proof -
  let ?q = "planQuotas plans" and ?u = "initUsage plans" and ?rs = "rankOrder students"
  have "take (length (take k ?rs)) (fst (allocate ?q ?u (take k ?rs @ drop k ?rs))) =
          fst (allocate ?q ?u (take k ?rs))"
    by (rule allocate_prefix)
  moreover have "take (length (take k ?rs)) (fst (allocate ?q ?u ?rs)) = take k (fst (allocate ?q ?u ?rs))"
    by (simp add: min_def)
  ultimately show ?thesis by (simp add: rankStudents_def)
qed

text \<open>
  C9.  Sort independence: any list that is a permutation of the input,
  ordered by the comparator of \<open>rankStudents\<close>, and that keeps the students
  the comparator calls equal in their input order, is the list
  \<open>array_sort compareRanked\<close> returns.  So every stable sorting algorithm
  gives the same ranking.
\<close>

theorem array_sort_compareRanked_unique:
  assumes "mset ys = mset xs"
    and "sorted_wrt (\<lambda>a b. compareRanked a b \<le> 0) ys"
    and "\<forall>r\<in>set ys. filter (\<lambda>x. compareRanked r x = 0) ys = filter (\<lambda>x. compareRanked r x = 0) xs"
  shows "ys = array_sort compareRanked xs"
proof -
  have "sort_key rank_key xs = ys"
  proof (rule properties_for_sort_key)
    show "mset ys = mset xs" by (fact assms(1))
    show "sorted (map rank_key ys)"
      using assms(2) by (simp add: sorted_map compareRanked_le_iff)
    show "filter (\<lambda>x. rank_key k = rank_key x) ys = filter (\<lambda>x. rank_key k = rank_key x) xs"
      if "k \<in> set ys" for k
      using assms(3) that by (simp add: compareRanked_eq_iff [symmetric])
  qed
  then show ?thesis by (simp add: array_sort_compareRanked)
qed

theorem array_sort_compareRanked_unique_witness:
  "mset [toRanked (scored ''A'' [] 90 90 90 90 90), toRanked (scored ''B'' [] 50 50 50 50 50)] =
     mset [toRanked (scored ''B'' [] 50 50 50 50 50), toRanked (scored ''A'' [] 90 90 90 90 90)] \<and>
   [toRanked (scored ''A'' [] 90 90 90 90 90), toRanked (scored ''B'' [] 50 50 50 50 50)] =
     array_sort compareRanked
       [toRanked (scored ''B'' [] 50 50 50 50 50), toRanked (scored ''A'' [] 90 90 90 90 90)]"
proof -
  let ?a = "toRanked (scored ''A'' [] 90 90 90 90 90)" and ?b = "toRanked (scored ''B'' [] 50 50 50 50 50)"
  have h: "mset [?a, ?b] = mset [?b, ?a]"
    "sorted_wrt (\<lambda>a b. compareRanked a b \<le> 0) [?a, ?b]"
    "\<forall>r\<in>set [?a, ?b]. filter (\<lambda>x. compareRanked r x = 0) [?a, ?b] = filter (\<lambda>x. compareRanked r x = 0) [?b, ?a]"
    by code_simp+
  from array_sort_compareRanked_unique [OF h] h(1) show ?thesis by blast
qed


text \<open>
  C11.  Contested first choice (the specification's monotonic fairness, made
  precise): if a student lists plan \<open>p\<close> of quota 1 first, no student
  ranked below that student is placed in \<open>p\<close>.  (Whether the higher
  student itself gets \<open>p\<close> depends on the students ranked above it.)
\<close>

theorem rankStudents_quota_one_first_choice:
  assumes "i < j" and "j < length (rankStudents students plans)"
    and "planQuotas plans p = Some 1"
    and "preferredStreams (rankStudents students plans ! i) = p # ps"
  shows "qualifiedStream (rankStudents students plans ! j) \<noteq> Some p"
proof
  let ?R = "rankStudents students plans"
  assume got: "qualifiedStream (?R ! j) = Some p"
  have "\<exists>p'. qualifiedStream (?R ! i) = Some p' \<and>
          p' \<in> set (takeWhile (\<lambda>x. x \<noteq> p) (preferredStreams (?R ! i)) @ [p])"
    using assms(1,2,4) got
      allocate_no_envy [of i j "rankOrder students" "planQuotas plans" "initUsage plans" p]
    by (simp add: rankStudents_def allocate_prefs_nth)
  then have "qualifiedStream (?R ! i) = Some p" using assms(4) by simp
  then have "2 \<le> count_assigned p ?R"
    using count_assigned_two [OF assms(1,2)] got by blast
  moreover have "count_assigned p ?R \<le> 1"
    using allocate_count_bound [of "initUsage plans" "planQuotas plans" p "rankOrder students"]
      initUsage_at assms(3) by (simp add: rankStudents_def)
  ultimately show False by simp
qed

theorem rankStudents_quota_one_first_choice_witness:
  "(0::nat) < 1 \<and> 1 < length (rankStudents contest_students [plan ''X'' 1]) \<and>
   planQuotas [plan ''X'' 1] ''X'' = Some 1 \<and>
   preferredStreams (rankStudents contest_students [plan ''X'' 1] ! 0) = ''X'' # [''Y''] \<and>
   qualifiedStream (rankStudents contest_students [plan ''X'' 1] ! 1) \<noteq> Some ''X''"
proof -
  have h: "(0::nat) < 1" "1 < length (rankStudents contest_students [plan ''X'' 1])"
    "planQuotas [plan ''X'' 1] ''X'' = Some 1"
    "preferredStreams (rankStudents contest_students [plan ''X'' 1] ! 0) = ''X'' # [''Y'']"
    by code_simp+
  from rankStudents_quota_one_first_choice [OF h] h show ?thesis by blast
qed

text \<open>
  A plan whose quota is 0 (or negative) never receives a student.
\<close>

theorem rankStudents_zero_quota:
  assumes "planQuotas plans n = Some qt" and "qt \<le> 0"
  shows "\<forall>r\<in>set (rankStudents students plans). qualifiedStream r \<noteq> Some n"
proof -
  have "count_assigned n (rankStudents students plans) \<le> 0"
    using allocate_count_bound [of "initUsage plans" "planQuotas plans" n "rankOrder students"]
      initUsage_at assms by (simp add: rankStudents_def)
  then show ?thesis by (simp add: count_assigned_def filter_empty_conv)
qed

theorem rankStudents_zero_quota_witness:
  "planQuotas [plan ''X'' 0] ''X'' = Some 0 \<and> (0::int) \<le> 0 \<and>
   qualifiedStream (rankStudents contest_students [plan ''X'' 0] ! 0) \<noteq> Some ''X'' \<and>
   qualifiedStream (rankStudents contest_students [plan ''X'' 0] ! 1) \<noteq> Some ''X''"
proof -
  have h: "planQuotas [plan ''X'' 0] ''X'' = Some 0" "(0::int) \<le> 0" by code_simp+
  have m: "rankStudents contest_students [plan ''X'' 0] ! 0 \<in> set (rankStudents contest_students [plan ''X'' 0])"
    "rankStudents contest_students [plan ''X'' 0] ! 1 \<in> set (rankStudents contest_students [plan ''X'' 0])"
    by code_simp+
  from rankStudents_zero_quota [OF h] h m show ?thesis by blast
qed

subsection \<open>The specification's scenarios\<close>

text \<open>
  Scenario 1 of the specification: S1 (science 90, math 80) and S2 (science 90, math 70)
  both want X of quota 1: S1 is ranked 1 and placed in X, S2 is ranked 2 and
  unplaced.  With equal totals the math tie-break decides the same way.
\<close>

theorem scenario_tiebreak_capacity:
  "map (\<lambda>r. (stu_id r, rank r, qualifiedStream r))
     (rankStudents [scored ''S1'' [''X''] 80 90 0 0 0, scored ''S2'' [''X''] 70 90 0 0 0] [plan ''X'' 1]) =
     [(''S1'', 1, Some ''X''), (''S2'', 2, None)] \<and>
   map (\<lambda>r. (stu_id r, rank r, qualifiedStream r))
     (rankStudents [scored ''S2'' [''X''] 70 90 10 0 0, scored ''S1'' [''X''] 80 90 0 0 0] [plan ''X'' 1]) =
     [(''S1'', 1, Some ''X''), (''S2'', 2, None)]"
  by code_simp

text \<open>
  Scenario 2 of the specification: a single student with an empty preference list is ranked
  1 and stays unplaced although a plan of quota 5 exists.
\<close>

theorem scenario_empty_preferences:
  "map (\<lambda>r. (rank r, qualifiedStream r)) (rankStudents [scored ''S1'' [] 50 50 50 50 50] [plan ''X'' 5]) =
     [(1, None)]"
  by code_simp

text \<open>
  Scenario 3 of the specification: two students with identical scores get the distinct
  consecutive ranks 1 and 2, in their input order, whichever that order is.
\<close>

theorem scenario_identical_scores:
  "map (\<lambda>r. (stu_id r, rank r))
     (rankStudents [scored ''S1'' [''X''] 60 60 60 60 60, scored ''S2'' [''X''] 60 60 60 60 60] [plan ''X'' 5]) =
     [(''S1'', 1), (''S2'', 2)] \<and>
   map (\<lambda>r. (stu_id r, rank r))
     (rankStudents [scored ''S2'' [''X''] 60 60 60 60 60, scored ''S1'' [''X''] 60 60 60 60 60] [plan ''X'' 5]) =
     [(''S2'', 1), (''S1'', 2)]"
  by code_simp

text \<open>
  Scenario 4 of the specification: a student whose only preference names no configured plan
  stays unplaced although another plan has room.
\<close>

theorem scenario_unknown_plan:
  "map qualifiedStream (rankStudents [scored ''S1'' [''Z''] 50 50 50 50 50] [plan ''X'' 5]) = [None]"
  by code_simp

section \<open>Witnesses of the backend properties\<close>

text \<open>The properties C17 to C20 of the SheetStore theory at concrete spreadsheets.\<close>

theorem saveStudents_eq_saveStudent_fold_witness:
  "db_inv wdb \<and> distinct (map (\<lambda>st. trim (ss_id st)) wsts) \<and> wsts \<noteq> [] \<and>
   snd (saveStudents '' c1'' wsts ''t1'' wdb) = fold (\<lambda>st d. snd (saveStudent '' c1'' st ''t1'' d)) wsts wdb"
proof -
  have h1: "db_inv wdb" by code_simp
  have h2: "distinct (map (\<lambda>st. trim (ss_id st)) wsts)" by code_simp
  have h3: "wsts \<noteq> []" by simp
  show ?thesis using SheetStore.saveStudents_eq_saveStudent_fold [OF h1 h2 h3] h1 h2 h3 by simp
qed

theorem deleteClassroom_cascade_witness:
  "db_inv wdb \<and> fst (deleteClassroom ''c1 '' wdb) = Success \<and>
   sheet_rows (db_classrooms (snd (deleteClassroom ''c1 '' wdb))) =
     [\<lparr>c_id = ''c2'', c_data = ''{}'', c_updated = ''t0'', c_deleted = []\<rparr>] \<and>
   sheet_rows (db_students (snd (deleteClassroom ''c1 '' wdb))) =
     [\<lparr>s_cid = ''c2'', s_sid = ''s1'', s_data = ''other'', s_updated = ''t0''\<rparr>] \<and>
   sheet_rows (db_settings (snd (deleteClassroom ''c1 '' wdb))) = []"
proof -
  have h1: "db_inv wdb" by code_simp
  have h2: "fst (deleteClassroom ''c1 '' wdb) = Success" by code_simp
  have "filter (\<lambda>r. class_key r \<noteq> trim ''c1 '') (sheet_rows (db_classrooms wdb)) =
          [\<lparr>c_id = ''c2'', c_data = ''{}'', c_updated = ''t0'', c_deleted = []\<rparr>] \<and>
        filter (\<lambda>r. trim (s_cid r) \<noteq> trim ''c1 '') (sheet_rows (db_students wdb)) =
          [\<lparr>s_cid = ''c2'', s_sid = ''s1'', s_data = ''other'', s_updated = ''t0''\<rparr>] \<and>
        filter (\<lambda>r. trim (t_cid r) \<noteq> trim ''c1 '') (sheet_rows (db_settings wdb)) = []"
    by code_simp
  then show ?thesis using SheetStore.deleteClassroom_cascade [OF h1 h2] h1 h2 by simp
qed

theorem deleteClassroom_not_found_witness:
  "deleteClassroom ''c9'' wdb = (Error (''Classroom ID not found: '' @ ''c9''), wdb)"
proof -
  have h: "\<forall>r\<in>set (sheet_rows (db_classrooms wdb)). class_key r \<noteq> trim ''c9''" by code_simp
  have t: "trim ''c9'' = ''c9''" by code_simp
  show ?thesis using SheetStore.deleteClassroom_not_found [OF h] t by simp
qed

theorem saveStudent_getDashboardData_witness:
  "''new1'' \<in> set (fst (getDashboardData (\<lambda>s. Some s) ''c1''
      (snd (saveStudent ''c1'' \<lparr>ss_id = ''s9'', ss_json = ''new1''\<rparr> ''t1'' wdb))))"
  using SheetStore.saveStudent_getDashboardData [of "\<lambda>s. Some s" "\<lparr>ss_id = ''s9'', ss_json = ''new1''\<rparr>"]
  by simp

section \<open>Witnesses of the dispatcher properties\<close>

text \<open>The properties C22 to C27 of the Backend theory at concrete requests.\<close>

theorem handleRequest_inv_witness:
  "db_inv (snd (handleRequest (\<lambda>s. Some s) (\<lambda>_. None) (\<lambda>_. None) ''t1'' wreq wdb))"
proof -
  have h1: "db_inv wdb" by code_simp
  have h2: "request_ok wreq" by code_simp
  show ?thesis by (rule Backend.handleRequest_inv [OF h1 h2])
qed

theorem handleRequest_unknown_witness:
  "handleRequest (\<lambda>s. Some s) (\<lambda>_. None) (\<lambda>_. None) ''t1''
     \<lparr>q_action = None, q_classroomId = None, q_body = None\<rparr> wdb =
   (Reply (Error ''Unknown action: undefined''), wdb)"
proof -
  have h: "resolve_action (q_action \<lparr>q_action = None, q_classroomId = None, q_body = None\<rparr>)
             (case q_body \<lparr>q_action = None, q_classroomId = None, q_body = None\<rparr> of
                None \<Rightarrow> empty_body | Some b \<Rightarrow> b) \<notin> Some ` set known_actions"
    by code_simp
  have a: "resolve_action None empty_body = None" by code_simp
  show ?thesis
    using Backend.handleRequest_unknown [OF h, of "\<lambda>s. Some s" "\<lambda>_. None" "\<lambda>_. None" "''t1''" wdb] a
    by (simp add: js_String_def)
qed

theorem handleRequest_read_only_witness:
  "snd (handleRequest (\<lambda>s. Some s) (\<lambda>_. None) (\<lambda>_. None) ''t1''
     \<lparr>q_action = Some ''getClassrooms'', q_classroomId = None, q_body = None\<rparr> wdb) = wdb"
proof -
  have h: "resolve_action (q_action \<lparr>q_action = Some ''getClassrooms'', q_classroomId = None, q_body = None\<rparr>)
             (case q_body \<lparr>q_action = Some ''getClassrooms'', q_classroomId = None, q_body = None\<rparr> of
                None \<Rightarrow> empty_body | Some b \<Rightarrow> b) \<in> {Some ''getClassrooms'', Some ''getDashboardData''}"
    by code_simp
  show ?thesis by (rule Backend.handleRequest_read_only [OF h])
qed



section \<open>Witnesses of the account store properties\<close>

text \<open>The properties C28, C30 and C31 of the LocalStore theory on a fresh
  browser store, where \<open>getUsers\<close> installs the default administrator.\<close>

theorem users_inv_add_delete_witness:
  "users_inv (snd (addUser dave wls)) \<and> users_inv (snd (deleteUser ''admin-001'' wls))"
proof -
  have h: "users_inv wls" by code_simp
  show ?thesis by (rule LocalStore.users_inv_add_delete [OF h])
qed

theorem addUser_validateUser_witness:
  "fst (validateUser ''dave'' ''pw'' (snd (addUser dave wls))) = Some dave"
proof -
  have h1: "users_inv wls" by code_simp
  have h2: "fst (addUser dave wls) = Inr ()" by code_simp
  show ?thesis using LocalStore.addUser_validateUser [OF h1 h2] by simp
qed

theorem addUser_taken_witness:
  "fst (addUser (dave\<lparr>u_username := ''Admin''\<rparr>) wls) = Inl ''username already exists'' \<and>
   users_of (snd (addUser (dave\<lparr>u_username := ''Admin''\<rparr>) wls)) = users_of wls"
proof -
  have h1: "DEFAULT_ADMIN \<in> set (users_of wls)" by code_simp
  have h2: "u_username DEFAULT_ADMIN = u_username (dave\<lparr>u_username := ''Admin''\<rparr>)" by code_simp
  show ?thesis by (rule LocalStore.addUser_taken [OF h1 h2])
qed

section \<open>The client and the backend together\<close>

text \<open>
  C35.  On a configured client, \<open>api.saveStudent\<close> posted to the deployed web
  app returns without an exception and leaves the spreadsheet exactly as the
  backend's \<open>saveStudent\<close> does: the client, the dispatcher and the handler
  agree on the action and on the fields of the body.
\<close>

theorem api_saveStudent_backend:
  assumes "api_configured cfg"
  shows "apiSaveStudent (web_app parse parse_obj parse_plans now) cfg cid s db = (Inr (), snd (saveStudent cid s now db))"
proof -
  obtain db' where sv: "saveStudent cid s now db = (Success, db')"
    using saveStudent_Success by (metis prod.collapse)
  have h: "handleRequest parse parse_obj parse_plans now
          \<lparr>q_action = Some ''saveStudent'', q_classroomId = c,
           q_body = Some ((empty_body\<lparr>b_classroomId := Some cid, b_student := Some s\<rparr>)\<lparr>b_action := Some ''saveStudent''\<rparr>)\<rparr> db =
        (Reply Success, db')" for c
    using sv by (simp add: handleRequest_def Let_def resolve_action_url js_String_def)
  show ?thesis
    using void_call_web_app [OF assms _ _ h] sv
    by (simp add: apiSaveStudent_def)
qed

text \<open>
  C36.  On a configured client, \<open>api.deleteClassroom\<close> of an id that no
  classroom row carries throws the backend's message \<open>Classroom ID not
  found: \<close> with the trimmed id, and the spreadsheet is unchanged.
\<close>

theorem api_deleteClassroom_not_found:
  assumes "api_configured cfg" and "db_classrooms db = Some rs" and "trim cid \<notin> class_key ` set rs"
  shows "apiDeleteClassroom (web_app parse parse_obj parse_plans now) cfg cid db =
           (Inl (''Classroom ID not found: '' @ trim cid), db)"
proof -
  have "remove_last (\<lambda>r. class_key r = trim cid) rs = None"
    using assms(3) by (simp add: remove_last_None) (metis imageI)
  then have "deleteClassroom cid db = (Error (''Classroom ID not found: '' @ trim cid), db)"
    using assms(2) by (simp add: deleteClassroom_def)
  then have h: "handleRequest parse parse_obj parse_plans now
          \<lparr>q_action = Some ''deleteClassroom'', q_classroomId = c,
           q_body = Some ((empty_body\<lparr>b_id := Some cid\<rparr>)\<lparr>b_action := Some ''deleteClassroom''\<rparr>)\<rparr> db =
        (Reply (Error (''Classroom ID not found: '' @ trim cid)), db)" for c
    by (simp add: handleRequest_def Let_def resolve_action_url js_String_def)
  then show ?thesis
    using void_call_web_app [OF assms(1) _ _ h]
    by (simp add: apiDeleteClassroom_def)
qed

theorem api_saveStudent_backend_witness:
  "apiSaveStudent (web_app (\<lambda>s. Some s) (\<lambda>_. None) (\<lambda>_. None) ''t1'') wcfg ''c1'' \<lparr>ss_id = ''s5'', ss_json = ''j''\<rparr> wdb =
     (Inr (), snd (saveStudent ''c1'' \<lparr>ss_id = ''s5'', ss_json = ''j''\<rparr> ''t1'' wdb))"
proof -
  have h: "api_configured wcfg" by code_simp
  show ?thesis by (rule api_saveStudent_backend [OF h])
qed

theorem api_deleteClassroom_not_found_witness:
  "apiDeleteClassroom (web_app (\<lambda>s. Some s) (\<lambda>_. None) (\<lambda>_. None) ''t1'') wcfg ''c9'' wdb =
     (Inl (''Classroom ID not found: '' @ trim ''c9''), wdb)"
proof -
  have h1: "api_configured wcfg" by code_simp
  have h2: "db_classrooms wdb = Some [\<lparr>c_id = ''c1'', c_data = ''{}'', c_updated = ''t0'', c_deleted = []\<rparr>,
                         \<lparr>c_id = ''c2'', c_data = ''{}'', c_updated = ''t0'', c_deleted = []\<rparr>]" by simp
  have h3: "trim ''c9'' \<notin> class_key ` set [\<lparr>c_id = ''c1'', c_data = ''{}'', c_updated = ''t0'', c_deleted = []\<rparr>,
                         \<lparr>c_id = ''c2'', c_data = ''{}'', c_updated = ''t0'', c_deleted = []\<rparr>]" by code_simp
  show ?thesis by (rule api_deleteClassroom_not_found [OF h1 h2 h3])
qed

section \<open>Witness of the dashboard property\<close>

text \<open>C37 on a classroom whose sheet holds one student: adding a second
  student and re-sending the first keeps screen and sheet in step.\<close>

theorem handleAddStudents_in_sync_witness:
  "in_sync firstName ''c1''
     (d_students (fst (handleAddStudents firstName (web_app (\<lambda>s. Some s) (\<lambda>_. None) (\<lambda>_. None) ''t1'') None
        \<lparr>cl_id = ''c1'', cl_name = ''M4'', cl_updatedAt = None\<rparr> ''log-1'' ''t1''
        [stu_named ''s2'' ''new'', stu_named ''s1'' ''upd''] (wdash, wworld))))
     (w_db (snd (handleAddStudents firstName (web_app (\<lambda>s. Some s) (\<lambda>_. None) (\<lambda>_. None) ''t1'') None
        \<lparr>cl_id = ''c1'', cl_name = ''M4'', cl_updatedAt = None\<rparr> ''log-1'' ''t1''
        [stu_named ''s2'' ''new'', stu_named ''s1'' ''upd''] (wdash, wworld))))"
proof -
  have t: "trim ''c1'' = ''c1''" "trim ''s1'' = ''s1''" "trim ''c2'' = ''c2''" "trim ''s2'' = ''s2''" by code_simp+
  have h1: "api_configured (getConfig (w_ls wworld))" by code_simp
  have h2: "db_inv (w_db wworld)" by code_simp
  have h3: "\<not> isViewer None" by (simp add: isViewer_def)
  have h4: "trim (cl_id \<lparr>cl_id = ''c1'', cl_name = ''M4'', cl_updatedAt = None\<rparr>) =
            cl_id \<lparr>cl_id = ''c1'', cl_name = ''M4'', cl_updatedAt = None\<rparr>" by (simp add: t)
  have h5: "\<forall>s\<in>set [stu_named ''s2'' ''new'', stu_named ''s1'' ''upd'']. trim (stu_id s) = stu_id s" by (simp add: t)
  have h6: "distinct (map stu_id [stu_named ''s2'' ''new'', stu_named ''s1'' ''upd''])" by simp
  have h7: "in_sync firstName (cl_id \<lparr>cl_id = ''c1'', cl_name = ''M4'', cl_updatedAt = None\<rparr>) (d_students wdash) (w_db wworld)"
    by (simp add: in_sync_def front_map_def back_map_def students_map_def stu_key_def t fun_eq_iff)
  show ?thesis using Dashboard.handleAddStudents_in_sync [OF h1 h2 h3 h4 h5 h6 h7] by simp
qed

section \<open>Witnesses of the view properties\<close>

abbreviation ranked_named :: "jsstr \<Rightarrow> ranked_student" where
  "ranked_named i \<equiv> \<lparr>stu_id = i, title = [], firstName = [], lastName = [], preferredStreams = [],
      scores = \<lparr>math = 1, science = 1, thai = 1, english = 1, social = 1\<rparr>,
      totalScore = 5, rank = 1, qualifiedStream = None\<rparr>"

text \<open>C38 on the state \<open>App\<close> starts in when a session is stored.\<close>

theorem app_reachable_inv_witness: "app_inv (app_init (wls\<lparr>ls_session := Some dave\<rparr>))"
  using Views.app_reachable_inv [OF app_reachable.init] by simp

text \<open>C39 from the classroom list of a restored session: two callbacks sign out.\<close>

theorem app_signout_witness:
  "app_inv (app_init (wls\<lparr>ls_session := Some dave\<rparr>)) \<and>
   (\<exists>es t. length es \<le> 3 \<and> app_run es (app_init (wls\<lparr>ls_session := Some dave\<rparr>)) = Some t \<and>
      a_view t = LANDING \<and> a_user t = None \<and> getSession (a_store t) = None)"
proof -
  have h: "app_inv (app_init (wls\<lparr>ls_session := Some dave\<rparr>))"
    by (simp add: app_inv_def app_init_def getSession_def)
  show ?thesis using h Views.app_signout [OF h] by simp
qed

text \<open>C40 with 150 matching rows on page 2, then a list of 50.\<close>

theorem list_page_stranded_witness:
  "case list_step (NewStudents (replicate 50 (ranked_named ''s1'')))
         (list_step (GoToPage 2) (list_init, replicate 150 (ranked_named ''s1''))) of (g, zs) \<Rightarrow>
     currentPage g = 2 \<and> filteredStudents g zs \<noteq> [] \<and> shown_rows g zs = [] \<and> \<not> controls_shown g zs"
proof -
  have h1: "ITEMS_PER_PAGE < length (filteredStudents list_init (replicate 150 (ranked_named ''s1'')))"
    by (simp add: length_filteredStudents ITEMS_PER_PAGE_def)
  have l2: "length (filteredStudents list_init (replicate 50 (ranked_named ''s1''))) = 50"
    by (simp add: length_filteredStudents)
  have h2: "filteredStudents list_init (replicate 50 (ranked_named ''s1'')) \<noteq> []"
    using l2 by auto
  have h3: "length (filteredStudents list_init (replicate 50 (ranked_named ''s1''))) \<le> ITEMS_PER_PAGE"
    using l2 by (simp add: ITEMS_PER_PAGE_def)
  show ?thesis using Views.list_page_stranded [OF h1 h2 h3] .
qed

section \<open>Witnesses of the form properties\<close>

abbreviation js_stu :: js_student where
  "js_stu \<equiv> \<lparr>j_id = ''s1'', j_title = [], j_firstName = ''A'', j_lastName = [],
      j_preferredStreams = [''X'', ''Y''], j_scores = [''math'' \<mapsto> Num 80, ''art'' \<mapsto> Num 5]\<rparr>"

text \<open>C14 with two subjects configured, one plan, and a \<open>Number\<close> that reads
  \<open>80\<close> and \<open>5\<close>: the preference \<open>Y\<close> and the \<open>art\<close> score are lost, the missing
  science score becomes 0.\<close>

theorem edit_confirm_roundtrip_witness:
  "form_student (\<lambda>x. if x = ''80'' then Num 80 else if x = ''5'' then Num 5 else NaN) [\<lparr>sub_id = ''math'', sub_name = [], maxScore = 100\<rparr>,
       \<lparr>sub_id = ''science'', sub_name = [], maxScore = 100\<rparr>]
     (edit_init 1 [\<lparr>sub_id = ''math'', sub_name = [], maxScore = 100\<rparr>,
       \<lparr>sub_id = ''science'', sub_name = [], maxScore = 100\<rparr>] js_stu) =
   js_stu\<lparr>j_preferredStreams := [''X''], j_scores := [''math'' \<mapsto> Num 80, ''science'' \<mapsto> Num 0]\<rparr>"
proof -
  have h: "\<forall>k n. j_scores js_stu k = Some (Num n) \<longrightarrow> n \<noteq> 0 \<longrightarrow>
             (\<lambda>x. if x = ''80'' then Num 80 else if x = ''5'' then Num 5 else NaN) (show_int n) = Num n"
  proof -
    have "show_int 80 = ''80''" "show_int 5 = ''5''" by code_simp+
    then show ?thesis by auto
  qed
  have "form_student (\<lambda>x. if x = ''80'' then Num 80 else if x = ''5'' then Num 5 else NaN) [\<lparr>sub_id = ''math'', sub_name = [], maxScore = 100\<rparr>,
       \<lparr>sub_id = ''science'', sub_name = [], maxScore = 100\<rparr>]
          (edit_init 1 [\<lparr>sub_id = ''math'', sub_name = [], maxScore = 100\<rparr>,
       \<lparr>sub_id = ''science'', sub_name = [], maxScore = 100\<rparr>] js_stu) =
        js_stu\<lparr>j_preferredStreams := filter (\<lambda>v. v \<noteq> []) (take 1 (j_preferredStreams js_stu)),
          j_scores := (\<lambda>k. if k \<in> sub_id ` set [\<lparr>sub_id = ''math'', sub_name = [], maxScore = 100\<rparr>,
       \<lparr>sub_id = ''science'', sub_name = [], maxScore = 100\<rparr>]
            then Some (Num (case j_scores js_stu k of Some (Num n) \<Rightarrow> n | _ \<Rightarrow> 0)) else None)\<rparr>"
    by (rule DataEntry.edit_confirm_roundtrip [OF h])
  also have "\<dots> = js_stu\<lparr>j_preferredStreams := [''X''], j_scores := [''math'' \<mapsto> Num 80, ''science'' \<mapsto> Num 0]\<rparr>"
    by (simp add: fun_eq_iff)
  finally show ?thesis .
qed

text \<open>C16 with only \<open>math\<close> configured: the manual entry and an imported
  row both total \<open>NaN\<close>.\<close>

theorem entry_total_NaN_witness:
  "map (\<lambda>s. calculateTotal_js (j_scores s))
     (handleConfirm (\<lambda>_. Num 7) [\<lparr>sub_id = ''math'', sub_name = [], maxScore = 100\<rparr>] MANUAL
        \<lparr>f_id = ''s1'', f_title = [], f_firstName = [], f_lastName = [], f_streams = [],
         f_scores = [''math'' \<mapsto> ''7'']\<rparr> []) = [NaN] \<and>
   map (\<lambda>s. calculateTotal_js (j_scores s))
     (handleConfirm (\<lambda>_. Num 7) [\<lparr>sub_id = ''math'', sub_name = [], maxScore = 100\<rparr>] BULK
        \<lparr>f_id = [], f_title = [], f_firstName = [], f_lastName = [], f_streams = [], f_scores = Map.empty\<rparr>
        (importData (handleFileUpload (\<lambda>_. Num 7) 0 [\<lparr>sub_id = ''math'', sub_name = [], maxScore = 100\<rparr>]
          (Some (Some [(1, \<lambda>_. CText ''header''), (2, \<lambda>i. if i = 1 then CText ''s2'' else CNum 9)]))
          \<lparr>importData = [], importError = None, isProcessingFile = True\<rparr>))) = [NaN]"
proof -
  let ?subj = "[\<lparr>sub_id = ''math'', sub_name = [], maxScore = 100\<rparr>]"
  let ?f1 = "\<lparr>f_id = ''s1'', f_title = [], f_firstName = [], f_lastName = [], f_streams = [],
             f_scores = [''math'' \<mapsto> ''7'']\<rparr>"
  let ?f2 = "\<lparr>f_id = [], f_title = [], f_firstName = [], f_lastName = [], f_streams = [], f_scores = Map.empty\<rparr>"
  let ?sheet = "Some [(1, \<lambda>_. CText ''header''), (2, \<lambda>i. if i = 1 then CText ''s2'' else CNum (9::int))]"
  let ?st = "\<lparr>importData = [], importError = None, isProcessingFile = True\<rparr>"
  let ?D = "importData (handleFileUpload (\<lambda>_. Num 7) 0 ?subj (Some ?sheet) ?st)"
  have k: "''social'' \<in> set fixed_keys" by (simp add: fixed_keys_def)
  have n: "''social'' \<notin> sub_id ` set ?subj" by simp
  have m: "\<forall>s \<in> set (handleConfirm (\<lambda>_. Num 7) ?subj MANUAL ?f1 ?D). calculateTotal_js (j_scores s) = NaN"
    by (rule DataEntry.entry_total_NaN [OF k n])
  have b: "\<forall>s \<in> set (handleConfirm (\<lambda>_. Num 7) ?subj BULK ?f2 ?D). calculateTotal_js (j_scores s) = NaN"
    by (rule DataEntry.entry_total_NaN [OF k n])
  have len: "length ?D = 1" by code_simp
  obtain x where x: "?D = [x]" using len by (auto simp: length_Suc_conv)
  show ?thesis using m b x by (simp add: handleConfirm_def)
qed

section \<open>Witnesses of the settings properties\<close>

abbreviation wctx :: "jsstr settings_ctx" where
  "wctx \<equiv> \<lparr>x_enc_plans = \<lambda>_. ''[plans]'', x_enc_subjects = \<lambda>_. ''[subjects]'',
     x_T = web_app (\<lambda>s. Some s) (\<lambda>_. None) (\<lambda>_. None) ''t1'', x_user = None,
     x_cl = \<lparr>cl_id = ''c1'', cl_name = ''M4'', cl_updatedAt = None\<rparr>, x_lid = ''log-1'', x_now = ''t1''\<rparr>"

abbreviation wed :: editor where
  "wed \<equiv> (editor_init None [])\<lparr>editMode := PLANS, tempPlans := [\<lparr>plan_id = ''1'', name = ''SCI'', quota = 2\<rparr>],
            showConfirm := True, deleteConfirmation := ''delete''\<rparr>"

text \<open>C13 on the classroom \<open>c1\<close> of the dashboard fixture, whose sheet
  holds a student row.\<close>

theorem confirm_plans_reset_screen_only_witness:
  "case handleConfirmSave wctx wed (wdash, wworld) of (e', d', w') \<Rightarrow>
     editMode e' = NONE \<and> d_plans d' = tempPlans wed \<and> d_students d' = [] \<and>
     students_map (w_db w') = students_map (w_db wworld)"
proof -
  have h1: "api_configured (getConfig (w_ls wworld))" by code_simp
  have h2: "\<not> isViewer (x_user wctx)" by (simp add: isViewer_def)
  have h3: "x_T wctx = web_app (\<lambda>s. Some s) (\<lambda>_. None) (\<lambda>_. None) ''t1''" by simp
  have h4: "editMode wed = PLANS" "deleteConfirmation wed = ''delete''" by simp_all
  show ?thesis by (rule Settings.confirm_plans_reset_screen_only [OF h1 h2 h3 h4])
qed


text \<open>C12 on a sheet with a header, a data row with a score, a row without an
  id and a row whose score cell is a formula object.\<close>

theorem import_well_typed_witness:
  "map (\<lambda>s. (wt_student 1 [\<lparr>sub_id = ''math'', sub_name = [], maxScore = 100\<rparr>] s, j_scores s ''math''))
     (importData (handleFileUpload (\<lambda>_. NaN) 1 [\<lparr>sub_id = ''math'', sub_name = [], maxScore = 100\<rparr>]
        (Some (Some [(1, \<lambda>_. CText ''header''), (2, \<lambda>i. if i = 1 then CText '' s2 '' else CNum 9),
                     (3, \<lambda>_. CEmpty), (4, \<lambda>i. if i = 1 then CNum 7 else CObj)]))
        \<lparr>importData = [], importError = None, isProcessingFile = True\<rparr>)) =
   [(True, Some (Num 9)), (True, Some (Num 0))]"
proof -
  let ?subj = "[\<lparr>sub_id = ''math'', sub_name = [], maxScore = 100\<rparr>]"
  let ?D = "importData (handleFileUpload (\<lambda>_. NaN) 1 ?subj
        (Some (Some [(1, \<lambda>_. CText ''header''), (2, \<lambda>i. if i = 1 then CText '' s2 '' else CNum 9),
                     (3, \<lambda>_. CEmpty), (4, \<lambda>i. if i = 1 then CNum 7 else CObj)]))
        \<lparr>importData = [], importError = None, isProcessingFile = True\<rparr>)"
  have wt: "\<forall>s \<in> set ?D. wt_student 1 ?subj s \<and> dom (j_scores s) = sub_id ` set ?subj"
    by (rule DataEntry.import_well_typed)
  have sc: "map (\<lambda>s. j_scores s ''math'') ?D = [Some (Num 9), Some (Num 0)]" by code_simp
  obtain a b where ab: "?D = [a, b]"
    using arg_cong [OF sc, of length] by (auto simp: length_Suc_conv)
  show ?thesis using wt sc ab by simp
qed

end
